theory Spec2Isabelle
  imports Main "HOL-Library.Multiset"
begin

section \<open>Errors\<close>

text \<open>
  Go errors as values. \<open>Error\<close> is \<^verbatim>\<open>errors.New\<close> and \<^verbatim>\<open>fmt.Errorf\<close> without
  \<^verbatim>\<open>%w\<close>; \<open>Wrapped msg e\<close> is \<^verbatim>\<open>fmt.Errorf("msg: %w", e)\<close>; \<open>Joined\<close> is
  \<^verbatim>\<open>errors.Join\<close>. The remaining constructors are the sentinel and structured
  errors the two packages name.
\<close>

datatype error =
    Error string
  | Wrapped string error
  | Joined "error list"
  | ErrNoAlertmanagerConfiguration
  | ErrAlertmanagerNotReady
  | ErrorReceiverDoesNotExist string
  | ErrorTimeIntervalDoesNotExist string
  | ErrAlertmanagerReceiverInUse string error
  | ErrAlertmanagerTimeIntervalInUse string error
  | AlertmanagerConfigRejectedError error
  | ErrAlertmanagerMultipleExtraConfigsUnsupported string
  | ErrRouteNotFound string
  | ErrRouteInvalidFormat error
  | ErrVersionConflict string
  | SyntaxError
  | UnmarshalTypeError
  | Panic string

section \<open>Receivers and UID assignment\<close>

datatype ReceiverType = GrafanaReceiverType | AlertmanagerReceiverType | EmptyReceiverType

record PostableGrafanaReceiver =
  gr_UID :: string
  gr_Name :: string
  gr_Type :: string
  gr_DisableResolveMessage :: bool
  gr_Settings :: string
  gr_SecureSettings :: "(string \<times> string) list"

text \<open>
  A \<^verbatim>\<open>PostableApiReceiver\<close>: the embedded upstream receiver (its name, and its
  upstream integration configurations kept as one opaque value) and the
  Grafana-managed receivers. The receivers of a request are freshly decoded
  objects, so the slice of pointers is modelled as a list of values.
\<close>

record PostableApiReceiver =
  r_Name :: string
  r_upstream :: string
  GrafanaManagedReceivers :: "PostableGrafanaReceiver list"

text \<open>
  The retry loop of \<^verbatim>\<open>assignReceiverConfigsUIDs\<close>:
  \<^verbatim>\<open>for i := 0; i < retries; i++ { gen := util.GenerateShortUID(); ... }\<close>.
  \<open>gen\<close> is the sequence of values \<^verbatim>\<open>GenerateShortUID\<close> returns and \<open>n\<close> the
  number of calls made so far; the first argument counts the iterations left.
  The result is \<^verbatim>\<open>gr.UID\<close> after the loop (still empty when every attempt was
  in \<open>seen\<close>) and the new call count.
\<close>

fun generate_retry :: "nat \<Rightarrow> (nat \<Rightarrow> string) \<Rightarrow> string set \<Rightarrow> nat \<Rightarrow> string \<times> nat" where
  "generate_retry 0 gen seenUIDs n = ('''', n)"
| "generate_retry (Suc k) gen seenUIDs n =
     (if gen n \<notin> seenUIDs then (gen n, Suc n)
      else generate_retry k gen seenUIDs (Suc n))"

definition retries :: nat where
  "retries = 5"

definition uid_attempts_failed :: error where
  "uid_attempts_failed =
     Error ''all 5 attempts to generate UID for receiver have failed; please retry''"

text \<open>
  The inner loop, over the Grafana-managed receivers of one receiver. The
  source mutates the receivers in place, so the receivers as they are when the
  function returns are part of the result, on the error path too.
\<close>

fun assign_grafana ::
  "(nat \<Rightarrow> string) \<Rightarrow> PostableGrafanaReceiver list \<Rightarrow> string set \<Rightarrow> nat \<Rightarrow>
     error option \<times> PostableGrafanaReceiver list \<times> string set \<times> nat" where
  "assign_grafana gen [] seenUIDs n = (None, [], seenUIDs, n)"
| "assign_grafana gen (gr # grs) seenUIDs n =
     (if gr_UID gr = '''' then
        (case generate_retry retries gen seenUIDs n of
           (u, n') \<Rightarrow>
             if u = '''' then (Some uid_attempts_failed, gr\<lparr>gr_UID := u\<rparr> # grs, seenUIDs, n')
             else
               (case assign_grafana gen grs (insert u seenUIDs) n' of
                  (e, grs', seen', n'') \<Rightarrow> (e, gr\<lparr>gr_UID := u\<rparr> # grs', seen', n'')))
      else
        (case assign_grafana gen grs (insert (gr_UID gr) seenUIDs) n of
           (e, grs', seen', n'') \<Rightarrow> (e, gr # grs', seen', n'')))"

text \<open>
  The outer loop. \<open>rtype\<close> is the method \<^verbatim>\<open>Type()\<close> of a receiver, declared in
  package \<^verbatim>\<open>definitions\<close>; it is a parameter here, so that what follows holds for
  whatever it returns.
\<close>

fun assign_receivers ::
  "(PostableApiReceiver \<Rightarrow> ReceiverType) \<Rightarrow> (nat \<Rightarrow> string) \<Rightarrow> PostableApiReceiver list \<Rightarrow>
     string set \<Rightarrow> nat \<Rightarrow> error option \<times> PostableApiReceiver list \<times> string set \<times> nat" where
  "assign_receivers rtype gen [] seenUIDs n = (None, [], seenUIDs, n)"
| "assign_receivers rtype gen (r # rs) seenUIDs n =
     (case rtype r of
        GrafanaReceiverType \<Rightarrow>
          (case assign_grafana gen (GrafanaManagedReceivers r) seenUIDs n of
             (Some e, grs', seen', n') \<Rightarrow>
               (Some e, r\<lparr>GrafanaManagedReceivers := grs'\<rparr> # rs, seen', n')
           | (None, grs', seen', n') \<Rightarrow>
               (case assign_receivers rtype gen rs seen' n' of
                  (e, rs', seen'', n'') \<Rightarrow>
                    (e, r\<lparr>GrafanaManagedReceivers := grs'\<rparr> # rs', seen'', n'')))
      | _ \<Rightarrow>
          (case assign_receivers rtype gen rs seenUIDs n of
             (e, rs', seen'', n'') \<Rightarrow> (e, r # rs', seen'', n'')))"

definition assignReceiverConfigsUIDs ::
  "(PostableApiReceiver \<Rightarrow> ReceiverType) \<Rightarrow> (nat \<Rightarrow> string) \<Rightarrow> PostableApiReceiver list \<Rightarrow>
     nat \<Rightarrow> error option \<times> PostableApiReceiver list \<times> nat" where
  "assignReceiverConfigsUIDs rtype gen c n =
     (case assign_receivers rtype gen c {} n of (e, c', seen, n') \<Rightarrow> (e, c', n'))"

text \<open>
  For the statements about the call: the Grafana-managed receivers the two
  loops visit, in visiting order, as they were before the call (\<open>visited\<close>) and
  as they are after it (\<open>visited_after\<close>, which pairs each receiver with what
  the call left in its place), and their UIDs.
\<close>

definition visited :: "(PostableApiReceiver \<Rightarrow> ReceiverType) \<Rightarrow> PostableApiReceiver list \<Rightarrow> PostableGrafanaReceiver list" where
  "visited rtype rs =
     concat (map (\<lambda>r. if rtype r = GrafanaReceiverType then GrafanaManagedReceivers r else []) rs)"

definition visited_after :: "(PostableApiReceiver \<Rightarrow> ReceiverType) \<Rightarrow> PostableApiReceiver list \<Rightarrow> PostableApiReceiver list \<Rightarrow> PostableGrafanaReceiver list" where
  "visited_after rtype rs rs' =
     concat (map (\<lambda>(r, r'). if rtype r = GrafanaReceiverType then GrafanaManagedReceivers r' else []) (zip rs rs'))"

definition uids_before :: "(PostableApiReceiver \<Rightarrow> ReceiverType) \<Rightarrow> PostableApiReceiver list \<Rightarrow> string list" where
  "uids_before rtype c = map gr_UID (visited rtype c)"

definition uids_after :: "(PostableApiReceiver \<Rightarrow> ReceiverType) \<Rightarrow> PostableApiReceiver list \<Rightarrow> PostableApiReceiver list \<Rightarrow> string list" where
  "uids_after rtype c c' = map gr_UID (visited_after rtype c c')"

text \<open>
  What the call may change of one Grafana-managed receiver: its UID and nothing
  else, and the UID only when it was empty.
\<close>

definition gr_frame :: "PostableGrafanaReceiver \<Rightarrow> PostableGrafanaReceiver \<Rightarrow> bool" where
  "gr_frame x x' = (x'\<lparr>gr_UID := gr_UID x\<rparr> = x \<and> (gr_UID x \<noteq> '''' \<longrightarrow> x' = x))"

section \<open>Receiver names of a raw configuration\<close>

text \<open>
  The raw configuration is a text. \<^verbatim>\<open>json.Unmarshal\<close> first checks that the whole
  text is JSON and reports a syntax error otherwise; then it decodes the value
  the text denotes. The model starts from the outcome of that first step:
  either the text is not JSON, or it is the value below, with the members of an
  object in the order written and repeated names kept.
\<close>

datatype json =
    JNull
  | JBool bool
  | JNumber string
  | JString string
  | JArray "json list"
  | JObject "(string \<times> json) list"

datatype rawConfig = NotJSON | JSONText json

text \<open>
  Functions of the standard library and of other packages, taken as
  parameters: \<open>foldName\<close> is the case folding under which
  \<^verbatim>\<open>encoding/json\<close> matches a member name with a field name when they are not
  equal; \<open>go_range\<close> is the order in which a \<^verbatim>\<open>range\<close> loop visits the keys of a
  map, which Go leaves open; \<open>NameToUid\<close> is \<^verbatim>\<open>legacy_storage.NameToUid\<close>.
\<close>

record externals =
  foldName :: "string \<Rightarrow> string"
  go_range :: "string list \<Rightarrow> string list"
  NameToUid :: "string \<Rightarrow> string"

definition key_matches :: "externals \<Rightarrow> string \<Rightarrow> string \<Rightarrow> bool" where
  "key_matches ext k field = (k = field \<or> foldName ext k = foldName ext field)"

text \<open>
  Decoding into a struct with one field, as \<^verbatim>\<open>encoding/json\<close> documents it: the
  members are read in order; a member whose name matches the field is decoded
  into the field (on top of what an earlier member left there), any other
  member is skipped whatever its value. A value of the wrong JSON type leaves
  the target as it is and is remembered as a type error, which
  \<^verbatim>\<open>Unmarshal\<close> returns once the whole document is decoded; the Boolean of each
  result says that such an error occurred.
\<close>

fun object_members ::
  "(string \<Rightarrow> bool) \<Rightarrow> ('a \<Rightarrow> json \<Rightarrow> 'a \<times> bool) \<Rightarrow> 'a \<Rightarrow> (string \<times> json) list \<Rightarrow> 'a \<times> bool" where
  "object_members is_field dec cur [] = (cur, False)"
| "object_members is_field dec cur ((k, v) # ms) =
     (if is_field k then
        (case dec cur v of
           (cur', e) \<Rightarrow>
             (case object_members is_field dec cur' ms of (cur'', e') \<Rightarrow> (cur'', e \<or> e')))
      else object_members is_field dec cur ms)"

text \<open>\<^verbatim>\<open>null\<close> has no effect on a struct or a string, and empties a slice.\<close>

definition decode_struct ::
  "(string \<Rightarrow> bool) \<Rightarrow> ('a \<Rightarrow> json \<Rightarrow> 'a \<times> bool) \<Rightarrow> 'a \<Rightarrow> json \<Rightarrow> 'a \<times> bool" where
  "decode_struct is_field dec cur v =
     (case v of
        JObject ms \<Rightarrow> object_members is_field dec cur ms
      | JNull \<Rightarrow> (cur, False)
      | _ \<Rightarrow> (cur, True))"

definition decode_Name :: "string \<Rightarrow> json \<Rightarrow> string \<times> bool" where
  "decode_Name cur v =
     (case v of JString s \<Rightarrow> (s, False) | JNull \<Rightarrow> (cur, False) | _ \<Rightarrow> (cur, True))"

definition decode_receiver :: "externals \<Rightarrow> string \<Rightarrow> json \<Rightarrow> string \<times> bool" where
  "decode_receiver ext = decode_struct (\<lambda>k. key_matches ext k ''name'') decode_Name"

text \<open>
  The slice \<^verbatim>\<open>Receivers\<close>: its elements, and the elements of its array that lie
  beyond its length (\<open>spare\<close>: what an earlier, longer value of the slice left
  there). Of a receiver only the name is kept.
\<close>

record receiver_slice =
  elems :: "string list"
  spare :: "string list"

definition nil_slice :: receiver_slice where
  "nil_slice = \<lparr>elems = [], spare = []\<rparr>"

text \<open>
  The loop of \<^verbatim>\<open>encoding/json\<close> over the elements of an array
  (\<^verbatim>\<open>decodeState.array\<close>): element \<open>i\<close> of the array is decoded into element \<open>i\<close>
  of the slice's array, on top of the value found there, whether \<open>i\<close> lies
  below the slice's length or between its length and its capacity; beyond the
  capacity the array is grown by zero values. \<open>arr\<close> is what the slice's array
  holds from the current index on. The result is the names decoded, whether a
  type error occurred, and what the array holds beyond them.
\<close>

fun decode_elements ::
  "externals \<Rightarrow> string list \<Rightarrow> json list \<Rightarrow> string list \<times> bool \<times> string list" where
  "decode_elements ext arr [] = ([], False, arr)"
| "decode_elements ext arr (v # vs) =
     (case decode_receiver ext (case arr of [] \<Rightarrow> '''' | x # xs \<Rightarrow> x) v of
        (name, e) \<Rightarrow>
          (case decode_elements ext (tl arr) vs of
             (names, e', rest) \<Rightarrow> (name # names, e \<or> e', rest)))"

text \<open>
  After the loop the slice has as many elements as the array; an empty array
  gives a new empty slice, \<^verbatim>\<open>null\<close> the nil slice, and a value that is no array
  leaves the slice as it is.
\<close>

definition decode_Receivers :: "externals \<Rightarrow> receiver_slice \<Rightarrow> json \<Rightarrow> receiver_slice \<times> bool" where
  "decode_Receivers ext cur v =
     (case v of
        JArray vs \<Rightarrow>
          (if vs = [] then (nil_slice, False)
           else
             (case decode_elements ext (elems cur @ spare cur) vs of
                (names, e, rest) \<Rightarrow> (\<lparr>elems = names, spare = rest\<rparr>, e)))
      | JNull \<Rightarrow> (nil_slice, False)
      | _ \<Rightarrow> (cur, True))"

definition decode_AlertmanagerConfig :: "externals \<Rightarrow> receiver_slice \<Rightarrow> json \<Rightarrow> receiver_slice \<times> bool" where
  "decode_AlertmanagerConfig ext =
     decode_struct (\<lambda>k. key_matches ext k ''receivers'') (decode_Receivers ext)"

text \<open>
  The struct \<^verbatim>\<open>receiverUserConfig\<close> of \<^verbatim>\<open>extractReceiverNames\<close> holds nothing but
  the slice \<^verbatim>\<open>AlertmanagerConfig.Receivers\<close>, so its value is that slice; the struct
  the function allocates holds the nil slice.
\<close>

type_synonym receiverUserConfig = receiver_slice

definition decode_receiverUserConfig :: "externals \<Rightarrow> receiverUserConfig \<Rightarrow> json \<Rightarrow> receiverUserConfig \<times> bool" where
  "decode_receiverUserConfig ext =
     decode_struct (\<lambda>k. key_matches ext k ''alertmanager_config'') (decode_AlertmanagerConfig ext)"

definition json_Unmarshal :: "externals \<Rightarrow> rawConfig \<Rightarrow> error + receiverUserConfig" where
  "json_Unmarshal ext raw =
     (case raw of
        NotJSON \<Rightarrow> Inl SyntaxError
      | JSONText v \<Rightarrow>
          (case decode_receiverUserConfig ext nil_slice v of
             (cfg, True) \<Rightarrow> Inl UnmarshalTypeError
           | (cfg, False) \<Rightarrow> Inr cfg))"

text \<open>
  \<^verbatim>\<open>sets.Set[string]\<close> is a map from its elements to the empty struct. It is
  modelled by the list of its elements without repetition; the order of the
  list has no meaning, and a loop over the set goes through \<open>go_range\<close>.
\<close>

type_synonym string_set = "string list"

definition set_Has :: "string_set \<Rightarrow> string \<Rightarrow> bool" where
  "set_Has s k = (k \<in> set s)"

definition set_Insert :: "string_set \<Rightarrow> string \<Rightarrow> string_set" where
  "set_Insert s k = (if set_Has s k then s else s @ [k])"

definition set_Difference :: "string_set \<Rightarrow> string_set \<Rightarrow> string_set" where
  "set_Difference s1 s2 = filter (\<lambda>key. \<not> set_Has s2 key) s1"

definition extractReceiverNames :: "externals \<Rightarrow> rawConfig \<Rightarrow> error + string_set" where
  "extractReceiverNames ext rawConfig =
     (case json_Unmarshal ext rawConfig of
        Inl err \<Rightarrow> Inl (Wrapped ''unable to parse Alertmanager configuration'' err)
      | Inr cfg \<Rightarrow> Inr (foldl set_Insert [] (elems cfg)))"

text \<open>
  The shape of a document whose receiver names are well formed: the member
  \<^verbatim>\<open>alertmanager_config\<close> is an object, its member \<^verbatim>\<open>receivers\<close> an array of objects,
  and the member \<^verbatim>\<open>name\<close> of each a string. Around each of the three sit any
  other members (\<open>pre\<close>, \<open>post\<close> and the like), with any values.
\<close>

definition receiver_object :: "(string \<times> json) list \<times> string \<times> (string \<times> json) list \<Rightarrow> json" where
  "receiver_object = (\<lambda>(ms1, name, ms2). JObject (ms1 @ [(''name'', JString name)] @ ms2))"

definition config_document ::
  "(string \<times> json) list \<Rightarrow> (string \<times> json) list \<Rightarrow>
   ((string \<times> json) list \<times> string \<times> (string \<times> json) list) list \<Rightarrow>
   (string \<times> json) list \<Rightarrow> (string \<times> json) list \<Rightarrow> json" where
  "config_document pre pre2 rs post2 post =
     JObject (pre @
       [(''alertmanager_config'',
         JObject (pre2 @ [(''receivers'', JArray (map receiver_object rs))] @ post2))] @ post)"

definition unrelated :: "externals \<Rightarrow> string \<Rightarrow> (string \<times> json) list \<Rightarrow> bool" where
  "unrelated ext field ms = list_all (\<lambda>(k, v). \<not> key_matches ext k field) ms"

section \<open>The multi-org Alertmanager\<close>

subsection \<open>Configurations\<close>

type_synonym Provenance = string

definition ProvenanceNone :: Provenance where
  "ProvenanceNone = ''''"

definition ProvenanceFile :: Provenance where
  "ProvenanceFile = ''file''"

text \<open>
  A route: its receiver, everything else of the routing tree below it as one
  opaque value, and the provenance the read path fills in.
\<close>

record Route =
  route_Receiver :: string
  route_tree :: string
  route_Provenance :: Provenance

text \<open>
  The upstream \<^verbatim>\<open>Config\<close> embedded in the Postable and Gettable configurations:
  the route (a pointer, possibly nil), the inhibition rules, and the rest.
\<close>

record Config =
  cfg_Route :: "Route option"
  cfg_InhibitRules :: "string list"
  cfg_other :: string

record PostableApiAlertingConfig =
  pac_Config :: Config
  pac_Receivers :: "PostableApiReceiver list"

record ExtraConfiguration =
  ec_Identifier :: string
  ec_body :: string

record PostableUserConfig =
  puc_TemplateFiles :: "(string \<times> string) list"
  puc_AlertmanagerConfig :: PostableApiAlertingConfig
  puc_ExtraConfigs :: "ExtraConfiguration list"

record GettableGrafanaReceiver =
  ggr_UID :: string
  ggr_Name :: string
  ggr_Type :: string
  ggr_DisableResolveMessage :: bool
  ggr_Settings :: string
  ggr_SecureFields :: "string list"
  ggr_Provenance :: Provenance

record GettableApiReceiver =
  gar_Name :: string
  gar_GrafanaManagedReceivers :: "GettableGrafanaReceiver list"

record GettableApiAlertingConfig =
  gac_Config :: Config
  gac_MuteTimeProvenances :: "string \<rightharpoonup> Provenance"
  gac_Receivers :: "GettableApiReceiver list"

record GettableUserConfig =
  guc_TemplateFiles :: "(string \<times> string) list"
  guc_TemplateFileProvenances :: "string \<rightharpoonup> Provenance"
  guc_AlertmanagerConfig :: GettableApiAlertingConfig
  guc_ExtraConfigs :: "ExtraConfiguration list"

text \<open>The zero value \<^verbatim>\<open>definitions.GettableUserConfig{}\<close> (a nil map is the empty map).\<close>

definition empty_GettableUserConfig :: GettableUserConfig where
  "empty_GettableUserConfig =
     \<lparr>guc_TemplateFiles = [], guc_TemplateFileProvenances = Map.empty,
      guc_AlertmanagerConfig =
        \<lparr>gac_Config = \<lparr>cfg_Route = None, cfg_InhibitRules = [], cfg_other = ''''\<rparr>,
         gac_MuteTimeProvenances = Map.empty, gac_Receivers = []\<rparr>,
      guc_ExtraConfigs = []\<rparr>"

record AlertConfiguration =
  ac_ID :: int
  ac_AlertmanagerConfiguration :: rawConfig

subsection \<open>Collaborators and the record of their calls\<close>

datatype ResourceType = RouteResource | ContactPointResource | TemplateResource | MuteTimeResource

text \<open>
  Every call the orchestrator makes on a collaborator (the configuration
  store, the crypto adapter, the per-org Alertmanager, the provenance store,
  the permission service, the logger) is recorded, in order. The two calls
  that write and apply a configuration are recorded with what they returned.
\<close>

datatype call =
    Call_alertmanagerForOrg int
  | Call_AlertmanagerFor int
  | Call_GetLatestAlertmanagerConfiguration int
  | Call_ProcessSecureSettings int
  | Call_DecryptExtraConfigs
  | Call_EncryptReceiverConfigSettings
  | Call_getDecryptedSecret string string
  | Call_SaveAndApplyConfig int PostableUserConfig "error option"
  | Call_SaveAndApplyDefaultConfig int "error option"
  | Call_GetProvenance int
  | Call_GetProvenances int ResourceType
  | Call_AddAutogenConfig int
  | Call_DeleteResourcePermissions int string
  | Call_SetDefaultPermissions int string
  | Log_Error string error
  | Log_Info string

text \<open>
  The state a call runs in: the world of the collaborators (\<open>'w\<close>, whatever
  they keep), the calls made so far, and the number of UIDs generated so far.
\<close>

record 'w state =
  world :: 'w
  calls :: "call list"
  uid_calls :: nat

definition emit :: "call \<Rightarrow> 'w state \<Rightarrow> 'w state" where
  "emit c st = st\<lparr>calls := calls st @ [c]\<rparr>"

text \<open>
  \<^verbatim>\<open>MultiOrgAlertmanager\<close> with the collaborators it holds, each method a function
  of the world. A method that reads returns its result; a method that writes
  returns the new world as well. \<^verbatim>\<open>ProcessSecureSettings\<close> and the two crypto
  helpers of the read path change the receivers they are given in place, so
  they return them. \<open>Load\<close>, \<open>receiver_Type\<close> and \<open>GenerateShortUID\<close> are the
  functions of that name declared in other files of the repository.
\<close>

record 'w MultiOrgAlertmanager =
  ext :: externals
  Load :: "rawConfig \<Rightarrow> error + PostableUserConfig"
  receiver_Type :: "PostableApiReceiver \<Rightarrow> ReceiverType"
  GenerateShortUID :: "nat \<Rightarrow> string"
  alertmanagerForOrg :: "'w \<Rightarrow> int \<Rightarrow> error option"
  AlertmanagerFor :: "'w \<Rightarrow> int \<Rightarrow> error option"
  GetLatestAlertmanagerConfiguration :: "'w \<Rightarrow> int \<Rightarrow> error + AlertConfiguration"
  ProcessSecureSettings ::
    "'w \<Rightarrow> int \<Rightarrow> PostableApiReceiver list \<Rightarrow> error option \<times> PostableApiReceiver list"
  DecryptExtraConfigs :: "'w \<Rightarrow> PostableUserConfig \<Rightarrow> error option \<times> PostableUserConfig"
  EncryptReceiverConfigSettings ::
    "'w \<Rightarrow> PostableApiReceiver list \<Rightarrow> error option \<times> PostableApiReceiver list"
  getDecryptedSecret :: "'w \<Rightarrow> PostableGrafanaReceiver \<Rightarrow> string \<Rightarrow> error + string"
  am_SaveAndApplyConfig :: "'w \<Rightarrow> int \<Rightarrow> PostableUserConfig \<Rightarrow> error option \<times> 'w"
  am_SaveAndApplyDefaultConfig :: "'w \<Rightarrow> int \<Rightarrow> error option \<times> 'w"
  GetProvenance :: "'w \<Rightarrow> Route \<Rightarrow> int \<Rightarrow> error + Provenance"
  GetProvenances :: "'w \<Rightarrow> int \<Rightarrow> ResourceType \<Rightarrow> error + (string \<rightharpoonup> Provenance)"
  AddAutogenConfig ::
    "'w \<Rightarrow> int \<Rightarrow> GettableApiAlertingConfig \<Rightarrow> error option \<times> GettableApiAlertingConfig"
  DeleteResourcePermissions :: "'w \<Rightarrow> int \<Rightarrow> string \<Rightarrow> error option \<times> 'w"
  SetDefaultPermissions :: "'w \<Rightarrow> int \<Rightarrow> string \<Rightarrow> 'w"

subsection \<open>Inspecting errors\<close>

text \<open>
  \<^verbatim>\<open>errors.Is\<close> and \<^verbatim>\<open>errors.As\<close> follow the chain of wrapped errors. The errors
  built from an \<^verbatim>\<open>errutil\<close> template carry the error they were built with;
  \<^verbatim>\<open>AlertmanagerConfigRejectedError\<close> declares no \<^verbatim>\<open>Unwrap\<close>, so the chain stops
  there.
\<close>

fun errors_Is :: "error \<Rightarrow> error \<Rightarrow> bool" where
  "errors_Is (Wrapped msg e) target = (Wrapped msg e = target \<or> errors_Is e target)"
| "errors_Is (Joined es) target = (Joined es = target \<or> list_ex (\<lambda>e. errors_Is e target) es)"
| "errors_Is (ErrAlertmanagerReceiverInUse r e) target =
     (ErrAlertmanagerReceiverInUse r e = target \<or> errors_Is e target)"
| "errors_Is (ErrAlertmanagerTimeIntervalInUse r e) target =
     (ErrAlertmanagerTimeIntervalInUse r e = target \<or> errors_Is e target)"
| "errors_Is (ErrRouteInvalidFormat e) target =
     (ErrRouteInvalidFormat e = target \<or> errors_Is e target)"
| "errors_Is e target = (e = target)"

fun first_Some :: "'a option list \<Rightarrow> 'a option" where
  "first_Some [] = None"
| "first_Some (Some x # xs) = Some x"
| "first_Some (None # xs) = first_Some xs"

fun as_ErrorReceiverDoesNotExist :: "error \<Rightarrow> string option" where
  "as_ErrorReceiverDoesNotExist (ErrorReceiverDoesNotExist ref) = Some ref"
| "as_ErrorReceiverDoesNotExist (Wrapped msg e) = as_ErrorReceiverDoesNotExist e"
| "as_ErrorReceiverDoesNotExist (Joined es) = first_Some (map as_ErrorReceiverDoesNotExist es)"
| "as_ErrorReceiverDoesNotExist (ErrAlertmanagerReceiverInUse r e) = as_ErrorReceiverDoesNotExist e"
| "as_ErrorReceiverDoesNotExist (ErrAlertmanagerTimeIntervalInUse r e) = as_ErrorReceiverDoesNotExist e"
| "as_ErrorReceiverDoesNotExist (ErrRouteInvalidFormat e) = as_ErrorReceiverDoesNotExist e"
| "as_ErrorReceiverDoesNotExist e = None"

fun as_ErrorTimeIntervalDoesNotExist :: "error \<Rightarrow> string option" where
  "as_ErrorTimeIntervalDoesNotExist (ErrorTimeIntervalDoesNotExist ref) = Some ref"
| "as_ErrorTimeIntervalDoesNotExist (Wrapped msg e) = as_ErrorTimeIntervalDoesNotExist e"
| "as_ErrorTimeIntervalDoesNotExist (Joined es) = first_Some (map as_ErrorTimeIntervalDoesNotExist es)"
| "as_ErrorTimeIntervalDoesNotExist (ErrAlertmanagerReceiverInUse r e) = as_ErrorTimeIntervalDoesNotExist e"
| "as_ErrorTimeIntervalDoesNotExist (ErrAlertmanagerTimeIntervalInUse r e) = as_ErrorTimeIntervalDoesNotExist e"
| "as_ErrorTimeIntervalDoesNotExist (ErrRouteInvalidFormat e) = as_ErrorTimeIntervalDoesNotExist e"
| "as_ErrorTimeIntervalDoesNotExist e = None"

text \<open>
  The error a caller returns from
  \<^verbatim>\<open>if err != nil { if !errors.Is(err, target) { return err } }\<close>, if any.
\<close>

definition unless_Is :: "error \<Rightarrow> error option \<Rightarrow> error option" where
  "unless_Is target e =
     (case e of
        Some err \<Rightarrow> if errors_Is err target then None else Some err
      | None \<Rightarrow> None)"

text \<open>\<^verbatim>\<open>errors.Join\<close> of a list of non-nil errors: nil when the list is empty.\<close>

definition errors_Join :: "error list \<Rightarrow> error option" where
  "errors_Join errs = (if errs = [] then None else Some (Joined errs))"

subsection \<open>Permission reconciliation\<close>

text \<open>
  The first loop of \<^verbatim>\<open>cleanPermissions\<close>, over the receivers that were deleted:
  a failed deletion is appended to \<open>errs\<close> and the loop goes on.
\<close>

fun delete_permissions ::
  "'w MultiOrgAlertmanager \<Rightarrow> int \<Rightarrow> string list \<Rightarrow> error list \<Rightarrow> 'w state \<Rightarrow> error list \<times> 'w state" where
  "delete_permissions moa orgID [] errs st = (errs, st)"
| "delete_permissions moa orgID (receiverName # rest) errs st =
     (let uid = NameToUid (ext moa) receiverName;
          st1 = emit (Call_DeleteResourcePermissions orgID uid) st
      in case DeleteResourcePermissions moa (world st1) orgID uid of
           (Some err, w) \<Rightarrow>
             delete_permissions moa orgID rest
               (errs @ [Wrapped (''failed to delete permissions for receiver '' @ receiverName) err])
               (st1\<lparr>world := w\<rparr>)
         | (None, w) \<Rightarrow> delete_permissions moa orgID rest errs (st1\<lparr>world := w\<rparr>))"

text \<open>The second loop, over the receivers that were added.\<close>

fun set_default_permissions ::
  "'w MultiOrgAlertmanager \<Rightarrow> int \<Rightarrow> string list \<Rightarrow> 'w state \<Rightarrow> 'w state" where
  "set_default_permissions moa orgID [] st = st"
| "set_default_permissions moa orgID (receiverName # rest) st =
     (let uid = NameToUid (ext moa) receiverName;
          st1 = emit (Call_SetDefaultPermissions orgID uid) st
      in set_default_permissions moa orgID rest
           (st1\<lparr>world := SetDefaultPermissions moa (world st1) orgID uid\<rparr>))"

definition cleanPermissions ::
  "'w MultiOrgAlertmanager \<Rightarrow> 'w state \<Rightarrow> int \<Rightarrow> AlertConfiguration \<Rightarrow> string_set \<Rightarrow>
     error option \<times> 'w state" where
  "cleanPermissions moa st orgID previousConfig newReceiverNames =
     (case extractReceiverNames (ext moa) (ac_AlertmanagerConfiguration previousConfig) of
        Inl err \<Rightarrow>
          (Some (Wrapped ''failed to extract receiver names from previous configuration'' err), st)
      | Inr previousReceiverNames \<Rightarrow>
          (case delete_permissions moa orgID
                  (go_range (ext moa) (set_Difference previousReceiverNames newReceiverNames)) [] st of
             (errs, st1) \<Rightarrow>
               (errors_Join errs,
                set_default_permissions moa orgID
                  (go_range (ext moa) (set_Difference newReceiverNames previousReceiverNames)) st1)))"

text \<open>
  For the statements about the reconciliation, the permission service on its
  own: what becomes of the world, and which errors are collected, when the
  permissions of the receivers \<open>names\<close> are deleted one after the other
  (\<open>deletions_effect\<close>), and what becomes of the world when default permissions
  are installed for the receivers \<open>names\<close> one after the other
  (\<open>defaults_effect\<close>).
\<close>

definition deletion_effect ::
  "'w MultiOrgAlertmanager \<Rightarrow> int \<Rightarrow> string \<Rightarrow> error list \<times> 'w \<Rightarrow> error list \<times> 'w" where
  "deletion_effect moa orgID receiverName acc =
     (case DeleteResourcePermissions moa (snd acc) orgID (NameToUid (ext moa) receiverName) of
        (Some err, w) \<Rightarrow>
          (fst acc @ [Wrapped (''failed to delete permissions for receiver '' @ receiverName) err], w)
      | (None, w) \<Rightarrow> (fst acc, w))"

definition deletions_effect ::
  "'w MultiOrgAlertmanager \<Rightarrow> int \<Rightarrow> string list \<Rightarrow> 'w \<Rightarrow> error list \<times> 'w" where
  "deletions_effect moa orgID names w = fold (deletion_effect moa orgID) names ([], w)"

definition defaults_effect :: "'w MultiOrgAlertmanager \<Rightarrow> int \<Rightarrow> string list \<Rightarrow> 'w \<Rightarrow> 'w" where
  "defaults_effect moa orgID names w =
     fold (\<lambda>receiverName w. SetDefaultPermissions moa w orgID (NameToUid (ext moa) receiverName)) names w"

text \<open>
  The end of the three operations that reconcile permissions: a failure of the
  reconciliation is logged and nothing else.
\<close>

definition log_cleanPermissionsErr :: "error option \<Rightarrow> 'w state \<Rightarrow> 'w state" where
  "log_cleanPermissionsErr cleanPermissionsErr st =
     (case cleanPermissionsErr of
        Some err \<Rightarrow> emit (Log_Error ''Failed to clean permissions for receivers'' err) st
      | None \<Rightarrow> st)"

subsection \<open>Saving and applying a configuration\<close>

definition SaveAndApplyDefaultConfig ::
  "'w MultiOrgAlertmanager \<Rightarrow> 'w state \<Rightarrow> int \<Rightarrow> error option \<times> 'w state" where
  "SaveAndApplyDefaultConfig moa st orgId =
     (let st1 = emit (Call_alertmanagerForOrg orgId) st in
      case alertmanagerForOrg moa (world st1) orgId of
        Some err \<Rightarrow> (Some err, st1)
      | None \<Rightarrow>
          (let st2 = emit (Call_GetLatestAlertmanagerConfiguration orgId) st1;
               previous = GetLatestAlertmanagerConfiguration moa (world st2) orgId
           in case am_SaveAndApplyDefaultConfig moa (world st2) orgId of
                (Some err, w) \<Rightarrow>
                  (Some err, (emit (Call_SaveAndApplyDefaultConfig orgId (Some err)) st2)\<lparr>world := w\<rparr>)
              | (None, w) \<Rightarrow>
                  (let st3 = (emit (Call_SaveAndApplyDefaultConfig orgId None) st2)\<lparr>world := w\<rparr> in
                   case previous of
                     Inl cleanPermissionsErr \<Rightarrow>
                       (None, log_cleanPermissionsErr (Some cleanPermissionsErr) st3)
                   | Inr previousConfig \<Rightarrow>
                       (let st4 = emit (Call_GetLatestAlertmanagerConfiguration orgId) st3 in
                        case GetLatestAlertmanagerConfiguration moa (world st4) orgId of
                          Inl err \<Rightarrow> (None, log_cleanPermissionsErr (Some err) st4)
                        | Inr defaultedConfig \<Rightarrow>
                            (case extractReceiverNames (ext moa)
                                    (ac_AlertmanagerConfiguration defaultedConfig) of
                               Inl err \<Rightarrow> (None, log_cleanPermissionsErr (Some err) st4)
                             | Inr newReceiverNames \<Rightarrow>
                                 (case cleanPermissions moa st4 orgId previousConfig newReceiverNames of
                                    (cleanPermissionsErr, st5) \<Rightarrow>
                                      (None, log_cleanPermissionsErr cleanPermissionsErr st5)))))))"

text \<open>
  What \<^verbatim>\<open>SaveAndApplyAlertmanagerConfiguration\<close> returns when the Alertmanager
  rejects the configuration.
\<close>

definition rejected_error :: "error \<Rightarrow> error" where
  "rejected_error err =
     (case as_ErrorReceiverDoesNotExist err of
        Some ref \<Rightarrow> ErrAlertmanagerReceiverInUse ref err
      | None \<Rightarrow>
          (case as_ErrorTimeIntervalDoesNotExist err of
             Some ref \<Rightarrow> ErrAlertmanagerTimeIntervalInUse ref err
           | None \<Rightarrow> AlertmanagerConfigRejectedError err))"

definition set_Receivers :: "PostableApiReceiver list \<Rightarrow> PostableUserConfig \<Rightarrow> PostableUserConfig" where
  "set_Receivers rs config =
     config\<lparr>puc_AlertmanagerConfig := (puc_AlertmanagerConfig config)\<lparr>pac_Receivers := rs\<rparr>\<rparr>"

text \<open>
  The primary write path. The receivers of \<open>config\<close> are changed in place by the
  crypto adapter and by the UID assignment, so the configuration as the caller
  finds it afterwards is the third component of the result.
\<close>

definition SaveAndApplyAlertmanagerConfiguration ::
  "'w MultiOrgAlertmanager \<Rightarrow> 'w state \<Rightarrow> int \<Rightarrow> PostableUserConfig \<Rightarrow>
     error option \<times> 'w state \<times> PostableUserConfig" where
  "SaveAndApplyAlertmanagerConfiguration moa st org config =
     (if length (cfg_InhibitRules (pac_Config (puc_AlertmanagerConfig config))) > 0
      then (Some (Error ''inhibition rules are not supported''), st, config)
      else
        let st1 = emit (Call_GetLatestAlertmanagerConfiguration org) st;
            previous = GetLatestAlertmanagerConfiguration moa (world st1) org
        in
        case unless_Is ErrNoAlertmanagerConfiguration
               (case previous of Inl err \<Rightarrow> Some err | Inr previousConfig \<Rightarrow> None) of
          Some err \<Rightarrow> (Some (Wrapped ''failed to get latest configuration'' err), st1, config)
        | None \<Rightarrow>
          let st2 = emit (Call_ProcessSecureSettings org) st1 in
          case ProcessSecureSettings moa (world st2) org
                 (pac_Receivers (puc_AlertmanagerConfig config)) of
            (Some err, rs1) \<Rightarrow>
              (Some (Wrapped ''failed to post process Alertmanager configuration'' err), st2,
               set_Receivers rs1 config)
          | (None, rs1) \<Rightarrow>
              (case assignReceiverConfigsUIDs (receiver_Type moa) (GenerateShortUID moa) rs1
                      (uid_calls st2) of
                 (Some err, rs2, n) \<Rightarrow>
                   (Some (Wrapped ''failed to assign missing uids'' err), st2\<lparr>uid_calls := n\<rparr>,
                    set_Receivers rs2 config)
               | (None, rs2, n) \<Rightarrow>
                   (let config2 = set_Receivers rs2 config;
                        st3 = emit (Call_AlertmanagerFor org) (st2\<lparr>uid_calls := n\<rparr>)
                    in
                    case unless_Is ErrAlertmanagerNotReady (AlertmanagerFor moa (world st3) org) of
                      Some err \<Rightarrow> (Some err, st3, config2)
                    | None \<Rightarrow>
                      case am_SaveAndApplyConfig moa (world st3) org config2 of
                        (Some err, w) \<Rightarrow>
                          (Some (rejected_error err),
                           emit (Log_Error ''Unable to save and apply alertmanager configuration'' err)
                             ((emit (Call_SaveAndApplyConfig org config2 (Some err)) st3)\<lparr>world := w\<rparr>),
                           config2)
                      | (None, w) \<Rightarrow>
                          (let st4 = (emit (Call_SaveAndApplyConfig org config2 None) st3)\<lparr>world := w\<rparr> in
                           case previous of
                             Inl cleanPermissionsErr \<Rightarrow>
                               (None, log_cleanPermissionsErr (Some cleanPermissionsErr) st4, config2)
                           | Inr previousConfig \<Rightarrow>
                               (case cleanPermissions moa st4 org previousConfig
                                       (foldl set_Insert [] (map r_Name rs2)) of
                                  (cleanPermissionsErr, st5) \<Rightarrow>
                                    (None, log_cleanPermissionsErr cleanPermissionsErr st5, config2))))))"

subsection \<open>Extra configurations\<close>

definition modifyAndApplyExtraConfiguration ::
  "'w MultiOrgAlertmanager \<Rightarrow> 'w state \<Rightarrow> int \<Rightarrow>
   (ExtraConfiguration list \<Rightarrow> error + ExtraConfiguration list) \<Rightarrow> error option \<times> 'w state" where
  "modifyAndApplyExtraConfiguration moa st org modifyFn =
     (let st1 = emit (Call_GetLatestAlertmanagerConfiguration org) st in
      case GetLatestAlertmanagerConfiguration moa (world st1) org of
        Inl err \<Rightarrow> (Some (Wrapped ''failed to get current configuration'' err), st1)
      | Inr currentCfg \<Rightarrow>
          (case Load moa (ac_AlertmanagerConfiguration currentCfg) of
             Inl err \<Rightarrow>
               (Some (Wrapped ''failed to unmarshal current alertmanager configuration'' err), st1)
           | Inr cfg \<Rightarrow>
               (case modifyFn (puc_ExtraConfigs cfg) of
                  Inl err \<Rightarrow> (Some (Wrapped ''failed to apply extra configuration'' err), st1)
                | Inr extraConfigs \<Rightarrow>
                    (let cfg2 = cfg\<lparr>puc_ExtraConfigs := extraConfigs\<rparr>;
                         st2 = emit (Call_AlertmanagerFor org) st1
                     in
                     case unless_Is ErrAlertmanagerNotReady (AlertmanagerFor moa (world st2) org) of
                       Some err \<Rightarrow> (Some err, st2)
                     | None \<Rightarrow>
                       case am_SaveAndApplyConfig moa (world st2) org cfg2 of
                         (Some err, w) \<Rightarrow>
                           (Some (AlertmanagerConfigRejectedError err),
                            emit (Log_Error
                                    ''Unable to save and apply alertmanager configuration with extra config''
                                    err)
                              ((emit (Call_SaveAndApplyConfig org cfg2 (Some err)) st2)\<lparr>world := w\<rparr>))
                       | (None, w) \<Rightarrow>
                           (None,
                            emit (Log_Info ''Applied alertmanager configuration with extra config'')
                              ((emit (Call_SaveAndApplyConfig org cfg2 None) st2)\<lparr>world := w\<rparr>))))))"

text \<open>
  The function \<^verbatim>\<open>modifyFunc\<close> of \<^verbatim>\<open>SaveAndApplyExtraConfiguration\<close>: the first
  existing extra configuration with another identifier is a conflict.
\<close>

fun save_modifyFunc :: "ExtraConfiguration \<Rightarrow> ExtraConfiguration list \<Rightarrow> error + ExtraConfiguration list" where
  "save_modifyFunc extraConfig [] = Inr [extraConfig]"
| "save_modifyFunc extraConfig (c # configs) =
     (if ec_Identifier c \<noteq> ec_Identifier extraConfig
      then Inl (ErrAlertmanagerMultipleExtraConfigsUnsupported (ec_Identifier c))
      else save_modifyFunc extraConfig configs)"

definition SaveAndApplyExtraConfiguration ::
  "'w MultiOrgAlertmanager \<Rightarrow> 'w state \<Rightarrow> int \<Rightarrow> ExtraConfiguration \<Rightarrow> error option \<times> 'w state" where
  "SaveAndApplyExtraConfiguration moa st org extraConfig =
     (case modifyAndApplyExtraConfiguration moa st org (save_modifyFunc extraConfig) of
        (Some err, st1) \<Rightarrow> (Some err, st1)
      | (None, st1) \<Rightarrow>
          (None, emit (Log_Info ''Applied alertmanager configuration with extra config'') st1))"

subsection \<open>Reading a configuration\<close>

definition set_route_provenance :: "Provenance \<Rightarrow> GettableUserConfig \<Rightarrow> GettableUserConfig" where
  "set_route_provenance provenance config =
     config\<lparr>guc_AlertmanagerConfig := (guc_AlertmanagerConfig config)
       \<lparr>gac_Config := (gac_Config (guc_AlertmanagerConfig config))
          \<lparr>cfg_Route := map_option (\<lambda>route. route\<lparr>route_Provenance := provenance\<rparr>)
                          (cfg_Route (gac_Config (guc_AlertmanagerConfig config)))\<rparr>\<rparr>\<rparr>"

definition merge_contact_points ::
  "(string \<rightharpoonup> Provenance) \<Rightarrow> GettableApiReceiver list \<Rightarrow> GettableApiReceiver list" where
  "merge_contact_points cpProvs receivers =
     map (\<lambda>receiver. receiver\<lparr>gar_GrafanaManagedReceivers :=
            map (\<lambda>contactPoint.
                   case cpProvs (ggr_UID contactPoint) of
                     Some provenance \<Rightarrow> contactPoint\<lparr>ggr_Provenance := provenance\<rparr>
                   | None \<Rightarrow> contactPoint)
                (gar_GrafanaManagedReceivers receiver)\<rparr>) receivers"

definition set_Gettable_Receivers :: "GettableApiReceiver list \<Rightarrow> GettableUserConfig \<Rightarrow> GettableUserConfig" where
  "set_Gettable_Receivers rs config =
     config\<lparr>guc_AlertmanagerConfig := (guc_AlertmanagerConfig config)\<lparr>gac_Receivers := rs\<rparr>\<rparr>"

definition set_MuteTimeProvenances :: "(string \<rightharpoonup> Provenance) \<Rightarrow> GettableUserConfig \<Rightarrow> GettableUserConfig" where
  "set_MuteTimeProvenances provs config =
     config\<lparr>guc_AlertmanagerConfig := (guc_AlertmanagerConfig config)\<lparr>gac_MuteTimeProvenances := provs\<rparr>\<rparr>"

text \<open>
  \<^verbatim>\<open>mergeProvenance\<close>, statement by statement. The first two failures return the
  error; the last two return \<^verbatim>\<open>definitions.GettableUserConfig{}, nil\<close>.
\<close>

definition mergeProvenance ::
  "'w MultiOrgAlertmanager \<Rightarrow> 'w state \<Rightarrow> GettableUserConfig \<Rightarrow> int \<Rightarrow>
     (error + GettableUserConfig) \<times> 'w state" where
  "mergeProvenance moa st config org =
     (case (case cfg_Route (gac_Config (guc_AlertmanagerConfig config)) of
              None \<Rightarrow> (Inr config, st)
            | Some route \<Rightarrow>
                (let st1 = emit (Call_GetProvenance org) st in
                 case GetProvenance moa (world st1) route org of
                   Inl err \<Rightarrow> (Inl err, st1)
                 | Inr provenance \<Rightarrow> (Inr (set_route_provenance provenance config), st1))) of
        (Inl err, st1) \<Rightarrow> (Inl err, st1)
      | (Inr config1, st1) \<Rightarrow>
          (let st2 = emit (Call_GetProvenances org ContactPointResource) st1 in
           case GetProvenances moa (world st2) org ContactPointResource of
             Inl err \<Rightarrow> (Inl err, st2)
           | Inr cpProvs \<Rightarrow>
               (let config2 = set_Gettable_Receivers
                                (merge_contact_points cpProvs
                                   (gac_Receivers (guc_AlertmanagerConfig config1))) config1;
                    st3 = emit (Call_GetProvenances org TemplateResource) st2
                in
                case GetProvenances moa (world st3) org TemplateResource of
                  Inl err \<Rightarrow> (Inr empty_GettableUserConfig, st3)
                | Inr tmplProvs \<Rightarrow>
                    (let config3 = config2\<lparr>guc_TemplateFileProvenances := tmplProvs\<rparr>;
                         st4 = emit (Call_GetProvenances org MuteTimeResource) st3
                     in
                     case GetProvenances moa (world st4) org MuteTimeResource of
                       Inl err \<Rightarrow> (Inr empty_GettableUserConfig, st4)
                     | Inr mtProvs \<Rightarrow> (Inr (set_MuteTimeProvenances mtProvs config3), st4)))))"

text \<open>
  The loops of \<^verbatim>\<open>gettableUserConfigFromAMConfigString\<close> that turn the stored
  receivers into the ones returned: for each secure setting, a probe that
  decrypts it and keeps only whether it is set.
\<close>

fun secure_fields ::
  "'w MultiOrgAlertmanager \<Rightarrow> PostableGrafanaReceiver \<Rightarrow> string list \<Rightarrow> string list \<Rightarrow> 'w state \<Rightarrow>
     (error + string list) \<times> 'w state" where
  "secure_fields moa pr [] secureFields st = (Inr secureFields, st)"
| "secure_fields moa pr (k # ks) secureFields st =
     (let st1 = emit (Call_getDecryptedSecret (gr_UID pr) k) st in
      case getDecryptedSecret moa (world st1) pr k of
        Inl err \<Rightarrow> (Inl (Wrapped ''failed to decrypt stored secure setting'' err), st1)
      | Inr decryptedValue \<Rightarrow>
          (if decryptedValue = '''' then secure_fields moa pr ks secureFields st1
           else secure_fields moa pr ks (set_Insert secureFields k) st1))"

fun gettable_grafana_receivers ::
  "'w MultiOrgAlertmanager \<Rightarrow> PostableGrafanaReceiver list \<Rightarrow> 'w state \<Rightarrow>
     (error + GettableGrafanaReceiver list) \<times> 'w state" where
  "gettable_grafana_receivers moa [] st = (Inr [], st)"
| "gettable_grafana_receivers moa (pr # prs) st =
     (case secure_fields moa pr (go_range (ext moa) (map fst (gr_SecureSettings pr))) [] st of
        (Inl err, st1) \<Rightarrow> (Inl err, st1)
      | (Inr secureFields, st1) \<Rightarrow>
          (case gettable_grafana_receivers moa prs st1 of
             (Inl err, st2) \<Rightarrow> (Inl err, st2)
           | (Inr receivers, st2) \<Rightarrow>
               (Inr (\<lparr>ggr_UID = gr_UID pr, ggr_Name = gr_Name pr, ggr_Type = gr_Type pr,
                      ggr_DisableResolveMessage = gr_DisableResolveMessage pr,
                      ggr_Settings = gr_Settings pr, ggr_SecureFields = secureFields,
                      ggr_Provenance = ProvenanceNone\<rparr> # receivers), st2)))"

fun gettable_receivers ::
  "'w MultiOrgAlertmanager \<Rightarrow> PostableApiReceiver list \<Rightarrow> 'w state \<Rightarrow>
     (error + GettableApiReceiver list) \<times> 'w state" where
  "gettable_receivers moa [] st = (Inr [], st)"
| "gettable_receivers moa (recv # recvs) st =
     (case gettable_grafana_receivers moa (GrafanaManagedReceivers recv) st of
        (Inl err, st1) \<Rightarrow> (Inl err, st1)
      | (Inr receivers, st1) \<Rightarrow>
          (case gettable_receivers moa recvs st1 of
             (Inl err, st2) \<Rightarrow> (Inl err, st2)
           | (Inr rest, st2) \<Rightarrow>
               (Inr (\<lparr>gar_Name = r_Name recv, gar_GrafanaManagedReceivers = receivers\<rparr> # rest), st2)))"

definition gettableUserConfigFromAMConfigString ::
  "'w MultiOrgAlertmanager \<Rightarrow> 'w state \<Rightarrow> int \<Rightarrow> rawConfig \<Rightarrow>
     (error + GettableUserConfig) \<times> 'w state" where
  "gettableUserConfigFromAMConfigString moa st orgID config =
     (case Load moa config of
        Inl err \<Rightarrow> (Inl (Wrapped ''failed to unmarshal alertmanager configuration'' err), st)
      | Inr cfg0 \<Rightarrow>
          (let st1 = emit Call_DecryptExtraConfigs st in
           case DecryptExtraConfigs moa (world st1) cfg0 of
             (Some err, cfg) \<Rightarrow> (Inl (Wrapped ''failed to decrypt external configurations'' err), st1)
           | (None, cfg) \<Rightarrow>
               (let result =
                      \<lparr>guc_TemplateFiles = puc_TemplateFiles cfg,
                       guc_TemplateFileProvenances = Map.empty,
                       guc_AlertmanagerConfig =
                         \<lparr>gac_Config = pac_Config (puc_AlertmanagerConfig cfg),
                          gac_MuteTimeProvenances = Map.empty, gac_Receivers = []\<rparr>,
                       guc_ExtraConfigs = puc_ExtraConfigs cfg\<rparr>;
                    st2 = emit Call_EncryptReceiverConfigSettings st1
                in
                case EncryptReceiverConfigSettings moa (world st2)
                       (pac_Receivers (puc_AlertmanagerConfig cfg)) of
                  (Some err, rs) \<Rightarrow> (Inl (Wrapped ''failed to encrypt receivers'' err), st2)
                | (None, rs) \<Rightarrow>
                    (case gettable_receivers moa rs st2 of
                       (Inl err, st3) \<Rightarrow> (Inl err, st3)
                     | (Inr receivers, st3) \<Rightarrow>
                         mergeProvenance moa st3 (set_Gettable_Receivers receivers result) orgID))))"

definition GetAlertmanagerConfiguration ::
  "'w MultiOrgAlertmanager \<Rightarrow> 'w state \<Rightarrow> int \<Rightarrow> bool \<Rightarrow> (error + GettableUserConfig) \<times> 'w state" where
  "GetAlertmanagerConfiguration moa st org withAutogen =
     (let st1 = emit (Call_GetLatestAlertmanagerConfiguration org) st in
      case GetLatestAlertmanagerConfiguration moa (world st1) org of
        Inl err \<Rightarrow> (Inl (Wrapped ''failed to get latest configuration'' err), st1)
      | Inr amConfig \<Rightarrow>
          (case gettableUserConfigFromAMConfigString moa st1 org
                  (ac_AlertmanagerConfiguration amConfig) of
             (Inl err, st2) \<Rightarrow> (Inl err, st2)
           | (Inr cfg, st2) \<Rightarrow>
               (if withAutogen then
                  (let st3 = emit (Call_AddAutogenConfig org) st2 in
                   case AddAutogenConfig moa (world st3) org (guc_AlertmanagerConfig cfg) of
                     (Some err, amc) \<Rightarrow> (Inl err, st3)
                   | (None, amc) \<Rightarrow> (Inr (cfg\<lparr>guc_AlertmanagerConfig := amc\<rparr>), st3))
                else (Inr cfg, st2))))"

section \<open>Concrete inputs\<close>

text \<open>
  Receivers for the concrete runs: \<open>Type()\<close> says Grafana for a receiver that
  has Grafana-managed receivers, and the generator repeats its first value.
\<close>

definition mk_gr :: "string \<Rightarrow> string \<Rightarrow> PostableGrafanaReceiver" where
  "mk_gr uid name =
     \<lparr>gr_UID = uid, gr_Name = name, gr_Type = ''email'', gr_DisableResolveMessage = False,
      gr_Settings = ''{}'', gr_SecureSettings = []\<rparr>"

definition example_rtype :: "PostableApiReceiver \<Rightarrow> ReceiverType" where
  "example_rtype r =
     (if GrafanaManagedReceivers r = [] then AlertmanagerReceiverType else GrafanaReceiverType)"

definition example_gen :: "nat \<Rightarrow> string" where
  "example_gen k = (if k < 6 then [''a'', ''a'', ''b'', ''c'', ''d'', ''e''] ! k else ''z'')"

text \<open>
  A generator whose first five values are equal, so that the second receiver
  gets its UID at the fifth attempt, and one that returns the same value for
  ever.
\<close>

definition example_gen_retrying :: "nat \<Rightarrow> string" where
  "example_gen_retrying k =
     (if k < 9 then [''a'', ''a'', ''a'', ''a'', ''a'', ''b'', ''c'', ''d'', ''e''] ! k else ''z'')"

definition example_gen_stuck :: "nat \<Rightarrow> string" where
  "example_gen_stuck k = ''a''"

definition example_receivers :: "PostableApiReceiver list" where
  "example_receivers =
     [\<lparr>r_Name = ''team-a'', r_upstream = '''',
       GrafanaManagedReceivers = [mk_gr '''' ''mail'', mk_gr '''' ''slack'']\<rparr>,
      \<lparr>r_Name = ''upstream'', r_upstream = ''email_configs'', GrafanaManagedReceivers = []\<rparr>,
      \<lparr>r_Name = ''team-b'', r_upstream = '''',
       GrafanaManagedReceivers = [mk_gr '''' ''pager'', mk_gr '''' ''hook'', mk_gr '''' ''sms'']\<rparr>]"

definition example_receivers_assigned :: "PostableApiReceiver list" where
  "example_receivers_assigned =
     [\<lparr>r_Name = ''team-a'', r_upstream = '''',
       GrafanaManagedReceivers = [mk_gr ''a'' ''mail'', mk_gr ''b'' ''slack'']\<rparr>,
      \<lparr>r_Name = ''upstream'', r_upstream = ''email_configs'', GrafanaManagedReceivers = []\<rparr>,
      \<lparr>r_Name = ''team-b'', r_upstream = '''',
       GrafanaManagedReceivers = [mk_gr ''c'' ''pager'', mk_gr ''d'' ''hook'', mk_gr ''e'' ''sms'']\<rparr>]"

definition example_receivers_stuck :: "PostableApiReceiver list" where
  "example_receivers_stuck =
     [\<lparr>r_Name = ''team-a'', r_upstream = '''',
       GrafanaManagedReceivers = [mk_gr ''a'' ''mail'', mk_gr '''' ''slack'']\<rparr>,
      \<lparr>r_Name = ''upstream'', r_upstream = ''email_configs'', GrafanaManagedReceivers = []\<rparr>,
      \<lparr>r_Name = ''team-b'', r_upstream = '''',
       GrafanaManagedReceivers = [mk_gr '''' ''pager'', mk_gr '''' ''hook'', mk_gr '''' ''sms'']\<rparr>]"

text \<open>ASCII case folding, standing for \<open>foldName\<close> in the concrete runs below.\<close>

definition to_lower :: "char \<Rightarrow> char" where
  "to_lower c =
     (let n = (of_char c :: nat) in if 65 \<le> n \<and> n \<le> 90 then char_of (n + 32) else c)"

definition example_ext :: externals where
  "example_ext = \<lparr>foldName = map to_lower, go_range = rev, NameToUid = (\<lambda>name. ''uid-'' @ name)\<rparr>"

text \<open>
  A document whose route, template files and integrations are of the wrong
  JSON type, around two receivers with well-formed names.
\<close>

definition example_receiver_entries ::
  "((string \<times> json) list \<times> string \<times> (string \<times> json) list) list" where
  "example_receiver_entries =
     [([], ''A'', [(''grafana_managed_receiver_configs'', JString ''not a list'')]),
      ([(''email_configs'', JNumber ''7'')], ''B'', [])]"

definition example_document :: json where
  "example_document =
     config_document
       [(''template_files'', JArray [JBool True])]
       [(''route'', JString ''not a route'')]
       example_receiver_entries
       [(''mute_time_intervals'', JObject [(''Name'', JNull)])]
       [(''extra_config'', JNumber ''1'')]"

text \<open>
  Collaborators for the concrete runs: a store that keeps the latest
  configuration, an Alertmanager that accepts what it is given and stores the
  receiver names, a permission service whose deletions fail, and a provenance
  store that cannot list the provenances of templates.
\<close>

record example_world =
  ew_latest :: "AlertConfiguration option"
  ew_permissions :: "string list"

definition names_document :: "string list \<Rightarrow> rawConfig" where
  "names_document names = JSONText (config_document [] [] (map (\<lambda>n. ([], n, [])) names) [] [])"

definition example_config :: "string list \<Rightarrow> ExtraConfiguration list \<Rightarrow> PostableUserConfig" where
  "example_config names extras =
     \<lparr>puc_TemplateFiles = [(''greeting'', ''hello'')],
      puc_AlertmanagerConfig =
        \<lparr>pac_Config = \<lparr>cfg_Route = Some \<lparr>route_Receiver = ''A'', route_tree = '''',
                                             route_Provenance = ProvenanceNone\<rparr>,
                       cfg_InhibitRules = [], cfg_other = ''''\<rparr>,
         pac_Receivers = map (\<lambda>n. \<lparr>r_Name = n, r_upstream = '''',
                                     GrafanaManagedReceivers = [mk_gr '''' n]\<rparr>) names\<rparr>,
      puc_ExtraConfigs = extras\<rparr>"

definition example_Load :: "ExtraConfiguration list \<Rightarrow> rawConfig \<Rightarrow> error + PostableUserConfig" where
  "example_Load extras raw =
     (case extractReceiverNames example_ext raw of
        Inl err \<Rightarrow> Inl err
      | Inr names \<Rightarrow> Inr (example_config names extras))"

definition example_moa :: "ExtraConfiguration list \<Rightarrow> example_world MultiOrgAlertmanager" where
  "example_moa extras =
     \<lparr>ext = example_ext,
      Load = example_Load extras,
      receiver_Type = example_rtype,
      GenerateShortUID = example_gen,
      alertmanagerForOrg = (\<lambda>w org. None),
      AlertmanagerFor = (\<lambda>w org. Some ErrAlertmanagerNotReady),
      GetLatestAlertmanagerConfiguration =
        (\<lambda>w org. case ew_latest w of
                     None \<Rightarrow> Inl ErrNoAlertmanagerConfiguration
                   | Some c \<Rightarrow> Inr c),
      ProcessSecureSettings = (\<lambda>w org rs. (None, rs)),
      DecryptExtraConfigs = (\<lambda>w cfg. (None, cfg)),
      EncryptReceiverConfigSettings = (\<lambda>w rs. (None, rs)),
      getDecryptedSecret = (\<lambda>w pr k. Inr ''secret''),
      am_SaveAndApplyConfig =
        (\<lambda>w org cfg.
           (None, w\<lparr>ew_latest := Some \<lparr>ac_ID = 2, ac_AlertmanagerConfiguration =
              names_document (map r_Name (pac_Receivers (puc_AlertmanagerConfig cfg)))\<rparr>\<rparr>)),
      am_SaveAndApplyDefaultConfig =
        (\<lambda>w org.
           (None, w\<lparr>ew_latest := Some \<lparr>ac_ID = 2, ac_AlertmanagerConfiguration =
              names_document [''grafana-default-email'']\<rparr>\<rparr>)),
      GetProvenance = (\<lambda>w route org. Inr ''api''),
      GetProvenances =
        (\<lambda>w org t. if t = TemplateResource then Inl (Error ''database is locked'')
                    else Inr Map.empty),
      AddAutogenConfig = (\<lambda>w org amc. (None, amc)),
      DeleteResourcePermissions = (\<lambda>w org uid. (Some (Error ''permission service unavailable''), w)),
      SetDefaultPermissions = (\<lambda>w org uid. w\<lparr>ew_permissions := ew_permissions w @ [uid]\<rparr>)\<rparr>"

definition example_state :: "string list \<Rightarrow> example_world state" where
  "example_state names =
     \<lparr>world = \<lparr>ew_latest = Some \<lparr>ac_ID = 1, ac_AlertmanagerConfiguration = names_document names\<rparr>,
                ew_permissions = []\<rparr>,
      calls = [], uid_calls = 0\<rparr>"

text \<open>
  The same collaborators with a permission service that keeps the UIDs of the
  receivers that have permissions and whose deletions succeed, and a world in
  which the receivers \<open>names\<close> have permissions.
\<close>

definition example_permissions_moa :: "example_world MultiOrgAlertmanager" where
  "example_permissions_moa =
     (example_moa [])\<lparr>DeleteResourcePermissions :=
        (\<lambda>w org uid. (None, w\<lparr>ew_permissions := removeAll uid (ew_permissions w)\<rparr>))\<rparr>"

definition example_permissions_state :: "string list \<Rightarrow> example_world state" where
  "example_permissions_state names =
     \<lparr>world = \<lparr>ew_latest = Some \<lparr>ac_ID = 1, ac_AlertmanagerConfiguration = names_document names\<rparr>,
                ew_permissions = map (NameToUid example_ext) names\<rparr>,
      calls = [], uid_calls = 0\<rparr>"

definition example_inhibiting :: PostableUserConfig where
  "example_inhibiting =
     (example_config [''A''] [])\<lparr>puc_AlertmanagerConfig :=
        (puc_AlertmanagerConfig (example_config [''A''] []))\<lparr>pac_Config :=
           \<lparr>cfg_Route = None, cfg_InhibitRules = [''source_match: severity=critical''], cfg_other = ''''\<rparr>\<rparr>\<rparr>"

definition example_save ::
  "error option \<times> example_world state \<times> PostableUserConfig" where
  "example_save =
     SaveAndApplyAlertmanagerConfiguration (example_moa []) (example_state [''A'', ''B'', ''C'']) 1
       (example_config [''B'', ''C'', ''D''] [])"

definition example_saved_config :: PostableUserConfig where
  "example_saved_config =
     set_Receivers
       [\<lparr>r_Name = ''B'', r_upstream = '''', GrafanaManagedReceivers = [mk_gr ''a'' ''B'']\<rparr>,
        \<lparr>r_Name = ''C'', r_upstream = '''', GrafanaManagedReceivers = [mk_gr ''b'' ''C'']\<rparr>,
        \<lparr>r_Name = ''D'', r_upstream = '''', GrafanaManagedReceivers = [mk_gr ''c'' ''D'']\<rparr>]
       (example_config [''B'', ''C'', ''D''] [])"

definition example_save_calls :: "call list" where
  "example_save_calls =
     [Call_GetLatestAlertmanagerConfiguration 1, Call_ProcessSecureSettings 1, Call_AlertmanagerFor 1,
      Call_SaveAndApplyConfig 1 example_saved_config None,
      Call_DeleteResourcePermissions 1 ''uid-A'',
      Call_SetDefaultPermissions 1 ''uid-D'',
      Log_Error ''Failed to clean permissions for receivers''
        (Joined [Wrapped ''failed to delete permissions for receiver A''
                   (Error ''permission service unavailable'')])]"

definition example_mimir :: ExtraConfiguration where
  "example_mimir = \<lparr>ec_Identifier = ''mimir'', ec_body = ''old''\<rparr>"

section \<open>The notification policy service\<close>

subsection \<open>Managed routes and configuration revisions\<close>

record ManagedRoute =
  mr_Name :: string
  mr_Route :: Route
  mr_Version :: string
  mr_Provenance :: Provenance

text \<open>
  Modelled from the spec: the configuration revision of package
  \<^verbatim>\<open>legacy_storage\<close>, with its named routing trees and the well-known name of the
  user-defined tree. The spec describes a managed route as a named routing
  subtree with a version token, created, updated and removed by name within a
  configuration. A revision is therefore the map from names
  to routing trees together with the rest of the configuration as one opaque
  value; the version token of a tree is computed from the tree by a function
  \<open>version_of\<close> of the service.
\<close>

record ConfigRevision =
  rev_routes :: "string \<rightharpoonup> Route"
  rev_rest :: string

text \<open>Modelled from the spec: the well-known name of the user-defined routing tree.\<close>

definition UserDefinedRoutingTreeName :: string where
  "UserDefinedRoutingTreeName = ''user-defined''"

text \<open>Modelled from the spec: \<^verbatim>\<open>NewManagedRoute\<close>, a tree under its name with its version.\<close>

definition NewManagedRoute :: "(Route \<Rightarrow> string) \<Rightarrow> string \<Rightarrow> Route \<Rightarrow> ManagedRoute" where
  "NewManagedRoute version_of name route =
     \<lparr>mr_Name = name, mr_Route = route, mr_Version = version_of route,
      mr_Provenance = ProvenanceNone\<rparr>"

text \<open>
  Modelled from the spec: \<^verbatim>\<open>ConfigRevision.GetManagedRoute\<close>, the tree stored under
  the name, or nil.
\<close>

definition rev_GetManagedRoute :: "(Route \<Rightarrow> string) \<Rightarrow> ConfigRevision \<Rightarrow> string \<Rightarrow> ManagedRoute option" where
  "rev_GetManagedRoute version_of revision name =
     map_option (NewManagedRoute version_of name) (rev_routes revision name)"

text \<open>
  Modelled from the spec: \<^verbatim>\<open>ConfigRevision.UpdateNamedRoute\<close>, which replaces the
  tree stored under an existing name and returns it as a managed route.
\<close>

definition rev_UpdateNamedRoute ::
  "(Route \<Rightarrow> string) \<Rightarrow> ConfigRevision \<Rightarrow> string \<Rightarrow> Route \<Rightarrow> error + ManagedRoute \<times> ConfigRevision" where
  "rev_UpdateNamedRoute version_of revision name subtree =
     (case rev_routes revision name of
        None \<Rightarrow> Inl (ErrRouteNotFound name)
      | Some old \<Rightarrow>
          Inr (NewManagedRoute version_of name subtree,
               revision\<lparr>rev_routes := (rev_routes revision)(name \<mapsto> subtree)\<rparr>))"

text \<open>
  Modelled from the spec: \<^verbatim>\<open>ConfigRevision.DeleteManagedRoute\<close>, which removes the
  tree stored under the name.
\<close>

definition rev_DeleteManagedRoute :: "ConfigRevision \<Rightarrow> string \<Rightarrow> ConfigRevision" where
  "rev_DeleteManagedRoute revision name = revision\<lparr>rev_routes := (rev_routes revision)(name := None)\<rparr>"

subsection \<open>The stores\<close>

datatype nps_call =
    Store_Save int
  | Store_SetProvenance int string Provenance
  | Store_DeleteProvenance int string
  | Log_Debug string
  | Log_Failed string error

text \<open>
  The state of the service's collaborators: the configuration store (one
  revision per org), the provenance store (the provenance of a route, by org
  and name), and the record of the write calls made on them and of the log.
\<close>

record nps_state =
  revisions :: "int \<rightharpoonup> ConfigRevision"
  provenances :: "int \<times> string \<rightharpoonup> Provenance"
  nps_calls :: "nps_call list"

text \<open>
  \<^verbatim>\<open>NotificationPolicyService\<close>: the functions it is built with and the functions
  of other packages it calls. \<open>Quote\<close> is the quoting of a string by the verb \<^verbatim>\<open>%q\<close>,
  \<open>Validate\<close> is \<^verbatim>\<open>Route.Validate\<close>, \<open>validator\<close> the
  provenance transition validator, \<open>DeserializeAlertmanagerConfig\<close> the parser
  of the default configuration (the route of its result may be nil),
  \<open>GetMergedAlertmanagerConfig\<close> the check of a revision against the extra
  configuration. The \<open>fault\<close> fields say which call on a store fails, with what
  error; a store that never fails has them all \<open>None\<close>.
\<close>

record NotificationPolicyService =
  version_of :: "Route \<Rightarrow> string"
  Quote :: "string \<Rightarrow> string"
  Validate :: "Route \<Rightarrow> error option"
  validator :: "Provenance \<Rightarrow> Provenance \<Rightarrow> error option"
  DefaultConfiguration :: string
  DeserializeAlertmanagerConfig :: "string \<Rightarrow> error + PostableUserConfig"
  GetMergedAlertmanagerConfig :: "ConfigRevision \<Rightarrow> error option"
  Get_fault :: "int \<Rightarrow> error option"
  Save_fault :: "int \<Rightarrow> error option"
  GetProvenance_fault :: "int \<Rightarrow> string \<Rightarrow> error option"
  SetProvenance_fault :: "int \<Rightarrow> string \<Rightarrow> error option"
  DeleteProvenance_fault :: "int \<Rightarrow> string \<Rightarrow> error option"

text \<open>
  Modelled from the spec: \<^verbatim>\<open>configStore.Get\<close>, behind the interface
  \<^verbatim>\<open>alertmanagerConfigStore\<close>: the revision the store holds for the org.
\<close>

definition configStore_Get :: "NotificationPolicyService \<Rightarrow> nps_state \<Rightarrow> int \<Rightarrow> error + ConfigRevision" where
  "configStore_Get nps st orgID =
     (case Get_fault nps orgID of
        Some err \<Rightarrow> Inl err
      | None \<Rightarrow>
          (case revisions st orgID of
             None \<Rightarrow> Inl ErrNoAlertmanagerConfiguration
           | Some revision \<Rightarrow> Inr revision))"

text \<open>
  Modelled from the spec: \<^verbatim>\<open>configStore.Save\<close>, which makes the revision the one
  the store holds for the org.
\<close>

definition configStore_Save ::
  "NotificationPolicyService \<Rightarrow> nps_state \<Rightarrow> ConfigRevision \<Rightarrow> int \<Rightarrow> error option \<times> nps_state" where
  "configStore_Save nps st revision orgID =
     (let st1 = st\<lparr>nps_calls := nps_calls st @ [Store_Save orgID]\<rparr> in
      case Save_fault nps orgID of
        Some err \<Rightarrow> (Some err, st1)
      | None \<Rightarrow> (None, st1\<lparr>revisions := (revisions st1)(orgID \<mapsto> revision)\<rparr>))"

text \<open>
  Modelled from the spec: \<^verbatim>\<open>provenanceStore.GetProvenance\<close>, the provenance
  recorded for the route of that name in the org, none when nothing is recorded.
\<close>

definition provenanceStore_GetProvenance ::
  "NotificationPolicyService \<Rightarrow> nps_state \<Rightarrow> ManagedRoute \<Rightarrow> int \<Rightarrow> error + Provenance" where
  "provenanceStore_GetProvenance nps st route orgID =
     (case GetProvenance_fault nps orgID (mr_Name route) of
        Some err \<Rightarrow> Inl err
      | None \<Rightarrow>
          (case provenances st (orgID, mr_Name route) of
             None \<Rightarrow> Inr ProvenanceNone
           | Some p \<Rightarrow> Inr p))"

text \<open>Modelled from the spec: \<^verbatim>\<open>provenanceStore.SetProvenance\<close>.\<close>

definition provenanceStore_SetProvenance ::
  "NotificationPolicyService \<Rightarrow> nps_state \<Rightarrow> ManagedRoute \<Rightarrow> int \<Rightarrow> Provenance \<Rightarrow>
     error option \<times> nps_state" where
  "provenanceStore_SetProvenance nps st route orgID p =
     (let st1 = st\<lparr>nps_calls := nps_calls st @ [Store_SetProvenance orgID (mr_Name route) p]\<rparr> in
      case SetProvenance_fault nps orgID (mr_Name route) of
        Some err \<Rightarrow> (Some err, st1)
      | None \<Rightarrow> (None, st1\<lparr>provenances := (provenances st1)((orgID, mr_Name route) \<mapsto> p)\<rparr>))"

text \<open>Modelled from the spec: \<^verbatim>\<open>provenanceStore.DeleteProvenance\<close>.\<close>

definition provenanceStore_DeleteProvenance ::
  "NotificationPolicyService \<Rightarrow> nps_state \<Rightarrow> ManagedRoute \<Rightarrow> int \<Rightarrow> error option \<times> nps_state" where
  "provenanceStore_DeleteProvenance nps st route orgID =
     (let st1 = st\<lparr>nps_calls := nps_calls st @ [Store_DeleteProvenance orgID (mr_Name route)]\<rparr> in
      case DeleteProvenance_fault nps orgID (mr_Name route) of
        Some err \<Rightarrow> (Some err, st1)
      | None \<Rightarrow> (None, st1\<lparr>provenances := (provenances st1)((orgID, mr_Name route) := None)\<rparr>))"

text \<open>
  Modelled from the spec: \<^verbatim>\<open>xact.InTransaction\<close>. Either both writes succeed or
  neither is visible: when the function fails, what it wrote to the stores is
  rolled back; the record of the calls it made stays.
\<close>

definition InTransaction ::
  "nps_state \<Rightarrow> (nps_state \<Rightarrow> error option \<times> nps_state) \<Rightarrow> error option \<times> nps_state" where
  "InTransaction st fn =
     (case fn st of
        (Some err, st1) \<Rightarrow> (Some err, st\<lparr>nps_calls := nps_calls st1\<rparr>)
      | (None, st1) \<Rightarrow> (None, st1))"

subsection \<open>The operations\<close>

text \<open>The message of the version conflict, which names both versions.\<close>

definition version_conflict :: "string \<Rightarrow> string \<Rightarrow> error" where
  "version_conflict desiredVersion currentVersion =
     ErrVersionConflict
       (''provided version '' @ desiredVersion @
        '' of routing tree does not match current version '' @ currentVersion)"

definition checkOptimisticConcurrency ::
  "nps_state \<Rightarrow> ManagedRoute \<Rightarrow> Provenance \<Rightarrow> string \<Rightarrow> string \<Rightarrow> error option \<times> nps_state" where
  "checkOptimisticConcurrency st current provenance desiredVersion action =
     (if desiredVersion = '''' then
        (if provenance \<noteq> ProvenanceFile
         then (None, st\<lparr>nps_calls := nps_calls st @
                 [Log_Debug ''ignoring optimistic concurrency check because version was not provided'']\<rparr>)
         else (None, st))
      else if mr_Version current \<noteq> desiredVersion then
        (Some (version_conflict desiredVersion (mr_Version current)), st)
      else (None, st))"

definition default_name :: "string \<Rightarrow> string" where
  "default_name name = (if name = '''' then UserDefinedRoutingTreeName else name)"

definition GetManagedRoute ::
  "NotificationPolicyService \<Rightarrow> nps_state \<Rightarrow> int \<Rightarrow> string \<Rightarrow> error + ManagedRoute" where
  "GetManagedRoute nps st orgID name0 =
     (let name = default_name name0 in
      case configStore_Get nps st orgID of
        Inl err \<Rightarrow> Inl err
      | Inr revision \<Rightarrow>
          (case rev_GetManagedRoute (version_of nps) revision name of
             None \<Rightarrow> Inl (ErrRouteNotFound (''route '' @ Quote nps name @ '' not found''))
           | Some route \<Rightarrow>
               (case provenanceStore_GetProvenance nps st route orgID of
                  Inl err \<Rightarrow> Inl err
                | Inr provenance \<Rightarrow> Inr (route\<lparr>mr_Provenance := provenance\<rparr>))))"

definition DeleteManagedRoute ::
  "NotificationPolicyService \<Rightarrow> nps_state \<Rightarrow> int \<Rightarrow> string \<Rightarrow> Provenance \<Rightarrow> string \<Rightarrow>
     error option \<times> nps_state" where
  "DeleteManagedRoute nps st orgID name0 p version =
     (let name = default_name name0 in
      case configStore_Get nps st orgID of
        Inl err \<Rightarrow> (Some err, st)
      | Inr revision \<Rightarrow>
          (case rev_GetManagedRoute (version_of nps) revision name of
             None \<Rightarrow> (Some (ErrRouteNotFound ''''), st)
           | Some existing \<Rightarrow>
               (case checkOptimisticConcurrency st existing p version ''delete'' of
                  (Some err, st1) \<Rightarrow> (Some err, st1)
                | (None, st1) \<Rightarrow>
                    (case provenanceStore_GetProvenance nps st1 existing orgID of
                       Inl err \<Rightarrow> (Some err, st1)
                     | Inr storedProvenance \<Rightarrow>
                         (case validator nps storedProvenance p of
                            Some err \<Rightarrow> (Some err, st1)
                          | None \<Rightarrow>
                              (case (if name = UserDefinedRoutingTreeName then
                                       (case DeserializeAlertmanagerConfig nps (DefaultConfiguration nps) of
                                          Inl err \<Rightarrow>
                                            (Inl (Wrapped ''failed to parse default alertmanager config'' err),
                                             st1\<lparr>nps_calls := nps_calls st1 @
                                                [Log_Failed ''Failed to parse default alertmanager config''
                                                   err]\<rparr>)
                                        | Inr defaultCfg \<Rightarrow>
                                            (case cfg_Route (pac_Config (puc_AlertmanagerConfig defaultCfg)) of
                                               None \<Rightarrow> (Inl (Panic ''nil pointer dereference''), st1)
                                             | Some route \<Rightarrow>
                                                 (case rev_UpdateNamedRoute (version_of nps) revision
                                                         UserDefinedRoutingTreeName route of
                                                    Inl err \<Rightarrow> (Inl err, st1)
                                                  | Inr (updated, revision1) \<Rightarrow> (Inr revision1, st1))))
                                     else (Inr (rev_DeleteManagedRoute revision name), st1)) of
                                 (Inl err, st2) \<Rightarrow> (Some err, st2)
                               | (Inr revision1, st2) \<Rightarrow>
                                   (case GetMergedAlertmanagerConfig nps revision1 of
                                      Some err \<Rightarrow>
                                        (Some (Wrapped
                                           ''new routing tree is not compatible with extra configuration''
                                           err), st2)
                                    | None \<Rightarrow>
                                        InTransaction st2
                                          (\<lambda>tx. case configStore_Save nps tx revision1 orgID of
                                                   (Some err, tx1) \<Rightarrow> (Some err, tx1)
                                                 | (None, tx1) \<Rightarrow>
                                                     provenanceStore_DeleteProvenance nps tx1 existing
                                                       orgID))))))))"

definition UpdateManagedRoute ::
  "NotificationPolicyService \<Rightarrow> nps_state \<Rightarrow> int \<Rightarrow> string \<Rightarrow> Route \<Rightarrow> Provenance \<Rightarrow> string \<Rightarrow>
     (error + ManagedRoute) \<times> nps_state" where
  "UpdateManagedRoute nps st orgID name0 subtree p version =
     (let name = default_name name0 in
      case Validate nps subtree of
        Some err \<Rightarrow> (Inl (ErrRouteInvalidFormat err), st)
      | None \<Rightarrow>
          (case configStore_Get nps st orgID of
             Inl err \<Rightarrow> (Inl err, st)
           | Inr revision \<Rightarrow>
               (case rev_GetManagedRoute (version_of nps) revision name of
                  None \<Rightarrow>
                    (Inl (Error (''failed to get existing named route '' @ Quote nps name @ '': %!w(<nil>)'')), st)
                | Some existing \<Rightarrow>
                    (case checkOptimisticConcurrency st existing p version ''update'' of
                       (Some err, st1) \<Rightarrow> (Inl err, st1)
                     | (None, st1) \<Rightarrow>
                         (case provenanceStore_GetProvenance nps st1 existing orgID of
                            Inl err \<Rightarrow> (Inl err, st1)
                          | Inr storedProvenance \<Rightarrow>
                              (case validator nps storedProvenance p of
                                 Some err \<Rightarrow> (Inl err, st1)
                               | None \<Rightarrow>
                                   (case rev_UpdateNamedRoute (version_of nps) revision name subtree of
                                      Inl err \<Rightarrow> (Inl err, st1)
                                    | Inr (updated0, revision1) \<Rightarrow>
                                        (let updated = updated0\<lparr>mr_Provenance := storedProvenance\<rparr> in
                                         case GetMergedAlertmanagerConfig nps revision1 of
                                           Some err \<Rightarrow>
                                             (Inl (Wrapped
                                                ''new routing tree is not compatible with extra configuration''
                                                err), st1)
                                         | None \<Rightarrow>
                                             (case InTransaction st1
                                                     (\<lambda>tx. case configStore_Save nps tx revision1 orgID of
                                                              (Some err, tx1) \<Rightarrow> (Some err, tx1)
                                                            | (None, tx1) \<Rightarrow>
                                                                provenanceStore_SetProvenance nps tx1
                                                                  updated orgID p) of
                                                (Some err, st2) \<Rightarrow> (Inl err, st2)
                                              | (None, st2) \<Rightarrow> (Inr updated, st2))))))))))"

subsection \<open>A concrete service\<close>

definition example_route :: "string \<Rightarrow> Route" where
  "example_route receiver =
     \<lparr>route_Receiver = receiver, route_tree = '''', route_Provenance = ProvenanceNone\<rparr>"

text \<open>
  A service whose validation rejects a route without receiver, whose default
  configuration routes to \<open>grafana-default-email\<close>, and whose stores never
  fail; and a state with the user-defined tree and one more tree for org 1.
\<close>

definition example_nps :: NotificationPolicyService where
  "example_nps =
     \<lparr>version_of = (\<lambda>route. ''v-'' @ route_Receiver route),
      Quote = (\<lambda>s. ''\"'' @ s @ ''\"''),
      Validate = (\<lambda>route. if route_Receiver route = ''''
                            then Some (Error ''default receiver must be set'') else None),
      validator = (\<lambda>stored p. None),
      DefaultConfiguration = ''default'',
      DeserializeAlertmanagerConfig =
        (\<lambda>text. Inr \<lparr>puc_TemplateFiles = [],
                         puc_AlertmanagerConfig =
                           \<lparr>pac_Config = \<lparr>cfg_Route = Some (example_route ''grafana-default-email''),
                                          cfg_InhibitRules = [], cfg_other = ''''\<rparr>,
                            pac_Receivers = []\<rparr>,
                         puc_ExtraConfigs = []\<rparr>),
      GetMergedAlertmanagerConfig = (\<lambda>revision. None),
      Get_fault = (\<lambda>org. None),
      Save_fault = (\<lambda>org. None),
      GetProvenance_fault = (\<lambda>org name. None),
      SetProvenance_fault = (\<lambda>org name. None),
      DeleteProvenance_fault = (\<lambda>org name. None)\<rparr>"

definition example_nps_state :: nps_state where
  "example_nps_state =
     \<lparr>revisions =
        [1 \<mapsto> \<lparr>rev_routes = [UserDefinedRoutingTreeName \<mapsto> example_route ''ops'',
                              ''team-x'' \<mapsto> example_route ''team-x-mail''],
               rev_rest = ''''\<rparr>],
      provenances = [(1, ''team-x'') \<mapsto> ''api''],
      nps_calls = []\<rparr>"

definition example_revision :: ConfigRevision where
  "example_revision =
     \<lparr>rev_routes = [UserDefinedRoutingTreeName \<mapsto> example_route ''ops'',
                     ''team-x'' \<mapsto> example_route ''team-x-mail''],
      rev_rest = ''''\<rparr>"

section \<open>Properties of UID assignment\<close>

lemma generate_retry_bounds:
  "generate_retry k gen seen n = (u, n') \<Longrightarrow> n \<le> n' \<and> n' \<le> n + k"
  by (induction k arbitrary: n) (force split: if_splits)+

lemma generate_retry_fresh:
  "generate_retry k gen seen n = (u, n') \<Longrightarrow> u \<noteq> '''' \<Longrightarrow> u \<notin> seen \<and> n < n' \<and> u = gen (n' - 1)"
  by (induction k arbitrary: n) (force split: if_splits)+

lemma generate_retry_exhausted:
  "(\<forall>i<k. gen (n + i) \<in> seen) \<Longrightarrow> generate_retry k gen seen n = ('''', n + k)"
proof (induction k arbitrary: n)
  case 0
  then show ?case by simp
next
  case (Suc k)
  from Suc.prems have h0: "gen n \<in> seen" by (metis add.right_neutral zero_less_Suc)
  have "\<forall>i<k. gen (Suc n + i) \<in> seen"
  proof (intro allI impI)
    fix i assume "i < k"
    then have "Suc i < Suc k" by simp
    with Suc.prems have "gen (n + Suc i) \<in> seen" by blast
    then show "gen (Suc n + i) \<in> seen" by simp
  qed
  from Suc.IH[OF this] h0 show ?case by simp
qed

lemma assign_grafana_length:
  "assign_grafana gen xs seen n = (e, xs', seen', n') \<Longrightarrow> length xs' = length xs"
  by (induction xs arbitrary: seen n e xs' seen' n') (auto split: if_splits prod.splits)

lemma assign_grafana_frame:
  "assign_grafana gen xs seen n = (e, xs', seen', n') \<Longrightarrow>
     list_all2 (\<lambda>x x'. x'\<lparr>gr_UID := gr_UID x\<rparr> = x \<and> (gr_UID x \<noteq> '''' \<longrightarrow> x' = x)) xs xs'"
  by (induction xs arbitrary: seen n e xs' seen' n') (auto split: if_splits prod.splits simp: list_all2_refl list.rel_refl)

lemma assign_grafana_error:
  "assign_grafana gen xs seen n = (Some e, xs', seen', n') \<Longrightarrow> e = uid_attempts_failed"
  by (induction xs arbitrary: seen n xs' seen' n') (auto split: if_splits prod.splits)

lemma assign_grafana_seen:
  "assign_grafana gen xs seen n = (None, xs', seen', n') \<Longrightarrow> seen' = seen \<union> set (map gr_UID xs')"
  by (induction xs arbitrary: seen n xs' seen' n') (force split: if_splits prod.splits)+

lemma assign_grafana_append:
  "assign_grafana gen (xs @ ys) seen n =
     (case assign_grafana gen xs seen n of
        (Some e, xs', s', n') \<Rightarrow> (Some e, xs' @ ys, s', n')
      | (None, xs', s', n') \<Rightarrow>
          (case assign_grafana gen ys s' n' of (e, ys', s'', n'') \<Rightarrow> (e, xs' @ ys', s'', n'')))"
  by (induction xs arbitrary: seen n) (auto split: if_splits prod.splits option.splits)

lemma assign_receivers_flat:
  "assign_receivers rtype gen rs seen n = (e, rs', seen', n') \<Longrightarrow>
     assign_grafana gen (visited rtype rs) seen n = (e, visited_after rtype rs rs', seen', n')"
proof (induction rs arbitrary: seen n e rs' seen' n')
  case Nil
  then show ?case by (simp add: visited_def visited_after_def)
next
  case (Cons r rs)
  show ?case
  proof (cases "rtype r = GrafanaReceiverType")
    case False
    then obtain rs1 where a: "assign_receivers rtype gen rs seen n = (e, rs1, seen', n')" and b: "rs' = r # rs1"
      using Cons.prems by (cases "rtype r") (auto split: prod.splits)
    from Cons.IH[OF a] False b show ?thesis by (simp add: visited_def visited_after_def)
  next
    case True
    obtain e1 g1 s1 n1 where g: "assign_grafana gen (GrafanaManagedReceivers r) seen n = (e1, g1, s1, n1)"
      by (metis prod_cases4)
    have lg: "length g1 = length (GrafanaManagedReceivers r)" using assign_grafana_length[OF g] .
    show ?thesis
    proof (cases e1)
      case (Some err)
      with Cons.prems True g have "e = Some err" "rs' = r\<lparr>GrafanaManagedReceivers := g1\<rparr> # rs" "seen' = s1" "n' = n1"
        by auto
      moreover have "visited_after rtype rs rs = visited rtype rs"
        by (induction rs) (auto simp: visited_after_def visited_def)
      ultimately show ?thesis using True g Some
        by (simp add: visited_def visited_after_def assign_grafana_append)
    next
      case None
      then obtain rs1 where a: "assign_receivers rtype gen rs s1 n1 = (e, rs1, seen', n')"
        and b: "rs' = r\<lparr>GrafanaManagedReceivers := g1\<rparr> # rs1"
        using Cons.prems True g by (auto split: prod.splits)
      from Cons.IH[OF a] have "assign_grafana gen (visited rtype rs) s1 n1 = (e, visited_after rtype rs rs1, seen', n')" .
      then show ?thesis using True g None b
        by (simp add: visited_def visited_after_def assign_grafana_append)
    qed
  qed
qed

lemma assign_grafana_counter:
  "assign_grafana gen xs seen n = (e, xs', seen', n') \<Longrightarrow>
     n \<le> n' \<and> n' \<le> n + retries * length (filter (\<lambda>x. gr_UID x = '''') xs)"
proof (induction xs arbitrary: seen n e xs' seen' n')
  case Nil
  then show ?case by simp
next
  case (Cons x xs)
  show ?case
  proof (cases "gr_UID x = ''''")
    case False
    then obtain xs1 where "assign_grafana gen xs (insert (gr_UID x) seen) n = (e, xs1, seen', n')"
      using Cons.prems by (auto split: prod.splits)
    from Cons.IH[OF this] False show ?thesis by simp
  next
    case True
    obtain u m where g: "generate_retry retries gen seen n = (u, m)" by (metis surj_pair)
    from generate_retry_bounds[OF g] have b: "n \<le> m" "m \<le> n + retries" by auto
    show ?thesis
    proof (cases "u = ''''")
      case True
      with Cons.prems \<open>gr_UID x = ''''\<close> g have "n' = m" by simp
      with b \<open>gr_UID x = ''''\<close> show ?thesis by simp
    next
      case False
      then obtain xs1 where "assign_grafana gen xs (insert u seen) m = (e, xs1, seen', n')"
        using Cons.prems True g by (auto split: prod.splits)
      from Cons.IH[OF this] b True show ?thesis by simp
    qed
  qed
qed

lemma assign_grafana_fresh:
  "assign_grafana gen xs seen n = (None, xs', seen', n') \<Longrightarrow> j < length xs \<Longrightarrow>
   gr_UID (xs ! j) = '''' \<Longrightarrow>
     gr_UID (xs' ! j) \<noteq> '''' \<and> gr_UID (xs' ! j) \<notin> seen \<union> set (take j (map gr_UID xs')) \<and>
     gr_UID (xs' ! j) \<in> gen ` {n..<n'}"
proof (induction xs arbitrary: j seen n xs' seen' n')
  case Nil
  then show ?case by simp
next
  case (Cons x xs)
  show ?case
  proof (cases "gr_UID x = ''''")
    case False
    then obtain xs1 where a: "assign_grafana gen xs (insert (gr_UID x) seen) n = (None, xs1, seen', n')"
      and b: "xs' = x # xs1"
      using Cons.prems(1) by (auto split: prod.splits)
    from False Cons.prems(3) obtain i where j: "j = Suc i" by (cases j) auto
    with Cons.prems have "i < length xs" "gr_UID (xs ! i) = ''''" by auto
    from Cons.IH[OF a this] show ?thesis using b j by simp
  next
    case True
    obtain u m where g: "generate_retry retries gen seen n = (u, m)" by (metis surj_pair)
    from Cons.prems(1) True g have u: "u \<noteq> ''''" by (auto split: if_splits)
    then obtain xs1 where a: "assign_grafana gen xs (insert u seen) m = (None, xs1, seen', n')"
      and b: "xs' = x\<lparr>gr_UID := u\<rparr> # xs1"
      using Cons.prems(1) True g by (auto split: prod.splits)
    from generate_retry_fresh[OF g u] have f: "u \<notin> seen" "n < m" "u = gen (m - 1)" by auto
    from assign_grafana_counter[OF a] have mn: "m \<le> n'" by simp
    show ?thesis
    proof (cases j)
      case 0
      have "m - 1 \<in> {n..<n'}" using f(2) mn by auto
      then have "u \<in> gen ` {n..<n'}" using f(3) by blast
      with 0 b u f(1) show ?thesis by simp
    next
      case (Suc i)
      with Cons.prems have "i < length xs" "gr_UID (xs ! i) = ''''" by auto
      from Cons.IH[OF a this] have
        ih: "gr_UID (xs1 ! i) \<noteq> ''''" "gr_UID (xs1 ! i) \<notin> insert u seen \<union> set (take i (map gr_UID xs1))"
            "gr_UID (xs1 ! i) \<in> gen ` {m..<n'}" by auto
      have "gen ` {m..<n'} \<subseteq> gen ` {n..<n'}" using f(2) by (intro image_mono) auto
      with ih show ?thesis using b Suc by auto
    qed
  qed
qed

lemma fresh_distinct:
  "(\<forall>j<length (ys :: 'a list). ys ! j \<notin> set (take j ys)) \<Longrightarrow> distinct ys"
proof -
  assume h: "\<forall>j<length ys. ys ! j \<notin> set (take j ys)"
  have "ys ! i \<noteq> ys ! j" if "i < j" "j < length ys" for i j
  proof -
    have "ys ! i \<in> set (take j ys)" using that by (auto simp: in_set_conv_nth intro!: exI[of _ i])
    with h that show ?thesis by metis
  qed
  then show ?thesis
    unfolding distinct_conv_nth by (metis linorder_neqE_nat)
qed

lemma assign_grafana_exhausted:
  assumes "xs = pre @ gr # post" "gr_UID gr = ''''"
    and "assign_grafana gen pre seen n = (None, pre', seen1, m)"
    and "\<forall>i<retries. gen (m + i) \<in> seen1"
  shows "fst (assign_grafana gen xs seen n) = Some uid_attempts_failed"
  using assms generate_retry_exhausted[of retries gen m seen1]
  by (simp add: assign_grafana_append)

lemma assign_receivers_frame:
  "assign_receivers rtype gen rs seen n = (e, rs', seen', n') \<Longrightarrow>
     list_all2 (\<lambda>r r'. r'\<lparr>GrafanaManagedReceivers := GrafanaManagedReceivers r\<rparr> = r \<and>
                 (rtype r \<noteq> GrafanaReceiverType \<longrightarrow> r' = r) \<and>
                 list_all2 gr_frame (GrafanaManagedReceivers r) (GrafanaManagedReceivers r')) rs rs'"
proof (induction rs arbitrary: seen n e rs' seen' n')
  case Nil
  then show ?case by simp
next
  case (Cons r rs)
  have refl: "list_all2 gr_frame xs xs" for xs
    by (simp add: list.rel_refl gr_frame_def)
  have refl2: "list_all2 (\<lambda>r r'. r'\<lparr>GrafanaManagedReceivers := GrafanaManagedReceivers r\<rparr> = r \<and>
                 (rtype r \<noteq> GrafanaReceiverType \<longrightarrow> r' = r) \<and>
                 list_all2 gr_frame (GrafanaManagedReceivers r) (GrafanaManagedReceivers r')) xs xs" for xs
    by (rule list.rel_refl) (simp add: refl)
  show ?case
  proof (cases "rtype r = GrafanaReceiverType")
    case False
    then obtain rs1 where a: "assign_receivers rtype gen rs seen n = (e, rs1, seen', n')" and b: "rs' = r # rs1"
      using Cons.prems by (cases "rtype r") (auto split: prod.splits)
    from Cons.IH[OF a] b show ?thesis by (simp add: refl)
  next
    case True
    obtain e1 g1 s1 n1 where g: "assign_grafana gen (GrafanaManagedReceivers r) seen n = (e1, g1, s1, n1)"
      by (metis prod_cases4)
    from assign_grafana_frame[OF g] have fr: "list_all2 gr_frame (GrafanaManagedReceivers r) g1"
      by (simp add: gr_frame_def[abs_def])
    show ?thesis
    proof (cases e1)
      case (Some err)
      with Cons.prems True g have "rs' = r\<lparr>GrafanaManagedReceivers := g1\<rparr> # rs" by auto
      then show ?thesis using fr True refl2 by simp
    next
      case None
      then obtain rs1 where a: "assign_receivers rtype gen rs s1 n1 = (e, rs1, seen', n')"
        and b: "rs' = r\<lparr>GrafanaManagedReceivers := g1\<rparr> # rs1"
        using Cons.prems True g by (auto split: prod.splits)
      from Cons.IH[OF a] b fr True show ?thesis by simp
    qed
  qed
qed

text \<open>
  Claim C10. Whatever \<^verbatim>\<open>assignReceiverConfigsUIDs\<close> returns (an error or not), the
  receivers it leaves behind differ from the ones it was given only in the UID
  of Grafana-managed receivers whose UID was empty: the list has the same
  length; every receiver keeps every field but its list of Grafana-managed
  receivers, which keeps its length; a receiver whose type is not the Grafana
  type is unchanged; every Grafana-managed receiver keeps every field but its
  UID, and is unchanged when its UID was not empty.
\<close>

theorem assignReceiverConfigsUIDs_frame:
  assumes "assignReceiverConfigsUIDs rtype gen c n = (err, c', n')"
  shows "length c' = length c \<and>
    (\<forall>i<length c.
       (c' ! i)\<lparr>GrafanaManagedReceivers := GrafanaManagedReceivers (c ! i)\<rparr> = c ! i \<and>
       (rtype (c ! i) \<noteq> GrafanaReceiverType \<longrightarrow> c' ! i = c ! i) \<and>
       length (GrafanaManagedReceivers (c' ! i)) = length (GrafanaManagedReceivers (c ! i)) \<and>
       (\<forall>j<length (GrafanaManagedReceivers (c ! i)).
          (GrafanaManagedReceivers (c' ! i) ! j)\<lparr>gr_UID := gr_UID (GrafanaManagedReceivers (c ! i) ! j)\<rparr>
             = GrafanaManagedReceivers (c ! i) ! j \<and>
          (gr_UID (GrafanaManagedReceivers (c ! i) ! j) \<noteq> '''' \<longrightarrow>
             GrafanaManagedReceivers (c' ! i) ! j = GrafanaManagedReceivers (c ! i) ! j)))"
proof -
  obtain seen' where a: "assign_receivers rtype gen c {} n = (err, c', seen', n')"
    using assms by (auto simp: assignReceiverConfigsUIDs_def split: prod.splits)
  note fr = assign_receivers_frame[OF a]
  have len: "length c' = length c" using fr by (simp add: list_all2_lengthD)
  have each: "(c' ! i)\<lparr>GrafanaManagedReceivers := GrafanaManagedReceivers (c ! i)\<rparr> = c ! i \<and>
       (rtype (c ! i) \<noteq> GrafanaReceiverType \<longrightarrow> c' ! i = c ! i) \<and>
       list_all2 gr_frame (GrafanaManagedReceivers (c ! i)) (GrafanaManagedReceivers (c' ! i))"
    if "i < length c" for i
    using list_all2_nthD[OF fr that] by simp
  have inner: "length (GrafanaManagedReceivers (c' ! i)) = length (GrafanaManagedReceivers (c ! i)) \<and>
       (\<forall>j<length (GrafanaManagedReceivers (c ! i)).
          (GrafanaManagedReceivers (c' ! i) ! j)\<lparr>gr_UID := gr_UID (GrafanaManagedReceivers (c ! i) ! j)\<rparr>
             = GrafanaManagedReceivers (c ! i) ! j \<and>
          (gr_UID (GrafanaManagedReceivers (c ! i) ! j) \<noteq> '''' \<longrightarrow>
             GrafanaManagedReceivers (c' ! i) ! j = GrafanaManagedReceivers (c ! i) ! j))"
    if "i < length c" for i
  proof -
    from each[OF that] have l: "list_all2 gr_frame (GrafanaManagedReceivers (c ! i)) (GrafanaManagedReceivers (c' ! i))"
      by simp
    show ?thesis
      using list_all2_lengthD[OF l] list_all2_nthD[OF l] by (simp add: gr_frame_def)
  qed
  show ?thesis using len each inner by simp
qed

lemma generate_retry_first:
  "i < k \<Longrightarrow> gen (m + i) \<notin> seen \<Longrightarrow> (\<forall>j<i. gen (m + j) \<in> seen) \<Longrightarrow>
     generate_retry k gen seen m = (gen (m + i), Suc (m + i))"
proof (induction k arbitrary: m i)
  case 0
  then show ?case by simp
next
  case (Suc k)
  show ?case
  proof (cases i)
    case 0
    with Suc.prems show ?thesis by simp
  next
    case (Suc i')
    with Suc.prems have h0: "gen m \<in> seen" by (metis add.right_neutral zero_less_Suc)
    have a: "i' < k" using Suc.prems(1) Suc by simp
    have b: "gen (Suc m + i') \<notin> seen" using Suc.prems(2) Suc by simp
    have c: "\<forall>j<i'. gen (Suc m + j) \<in> seen"
    proof (intro allI impI)
      fix j assume "j < i'"
      then have "Suc j < i" using Suc by simp
      with Suc.prems(3) have "gen (m + Suc j) \<in> seen" by blast
      then show "gen (Suc m + j) \<in> seen" by simp
    qed
    from Suc.IH[OF a b c] h0 Suc show ?thesis by simp
  qed
qed

lemma generate_retry_found:
  "fst (generate_retry k gen seen m) \<noteq> '''' \<Longrightarrow>
     \<exists>i<k. gen (m + i) \<notin> seen \<and> gen (m + i) \<noteq> '''' \<and> (\<forall>j<i. gen (m + j) \<in> seen)"
proof (induction k arbitrary: m)
  case 0
  then show ?case by simp
next
  case (Suc k)
  show ?case
  proof (cases "gen m \<in> seen")
    case False
    with Suc.prems have "gen m \<noteq> ''''" by simp
    with False have "gen (m + 0) \<notin> seen \<and> gen (m + 0) \<noteq> '''' \<and> (\<forall>j<0. gen (m + j) \<in> seen)" by simp
    then show ?thesis by blast
  next
    case True
    with Suc.prems have "fst (generate_retry k gen seen (Suc m)) \<noteq> ''''" by simp
    from Suc.IH[OF this] obtain i where i: "i < k" "gen (Suc m + i) \<notin> seen" "gen (Suc m + i) \<noteq> ''''"
      "\<forall>j<i. gen (Suc m + j) \<in> seen" by blast
    have "\<forall>j<Suc i. gen (m + j) \<in> seen"
    proof (intro allI impI)
      fix j assume j: "j < Suc i"
      show "gen (m + j) \<in> seen"
      proof (cases j)
        case 0
        with True show ?thesis by simp
      next
        case (Suc j')
        with j i(4) have "gen (Suc m + j') \<in> seen" by simp
        with Suc show ?thesis by simp
      qed
    qed
    with i have "Suc i < Suc k \<and> gen (m + Suc i) \<notin> seen \<and> gen (m + Suc i) \<noteq> '''' \<and>
        (\<forall>j<Suc i. gen (m + j) \<in> seen)" by simp
    then show ?thesis by blast
  qed
qed

lemma generate_retry_found_iff:
  "fst (generate_retry k gen seen m) \<noteq> '''' \<longleftrightarrow>
     (\<exists>i<k. gen (m + i) \<notin> seen \<and> gen (m + i) \<noteq> '''' \<and> (\<forall>j<i. gen (m + j) \<in> seen))"
proof
  assume "fst (generate_retry k gen seen m) \<noteq> ''''"
  then show "\<exists>i<k. gen (m + i) \<notin> seen \<and> gen (m + i) \<noteq> '''' \<and> (\<forall>j<i. gen (m + j) \<in> seen)"
    by (rule generate_retry_found)
next
  assume "\<exists>i<k. gen (m + i) \<notin> seen \<and> gen (m + i) \<noteq> '''' \<and> (\<forall>j<i. gen (m + j) \<in> seen)"
  then obtain i where i: "i < k" "gen (m + i) \<notin> seen" "gen (m + i) \<noteq> ''''" "\<forall>j<i. gen (m + j) \<in> seen"
    by blast
  from generate_retry_first[OF i(1,2,4)] i(3) show "fst (generate_retry k gen seen m) \<noteq> ''''"
    by simp
qed

lemma assign_grafana_head:
  assumes "gr_UID gr = ''''"
  shows "fst (assign_grafana gen (gr # post) seen m) = None \<longleftrightarrow>
           fst (generate_retry retries gen seen m) \<noteq> '''' \<and>
           fst (assign_grafana gen post (insert (fst (generate_retry retries gen seen m)) seen)
                  (snd (generate_retry retries gen seen m))) = None"
proof -
  obtain u m' where g: "generate_retry retries gen seen m = (u, m')" by (metis surj_pair)
  obtain e ys s k where a: "assign_grafana gen post (insert u seen) m' = (e, ys, s, k)"
    by (metis prod_cases4)
  show ?thesis using assms g a by (cases "u = ''''") simp_all
qed

lemma assign_grafana_prefix:
  assumes "assign_grafana gen pre seen n = (None, pre', seen1, m)"
  shows "fst (assign_grafana gen (pre @ ys) seen n) = fst (assign_grafana gen ys seen1 m)"
proof -
  obtain e ys' s k where a: "assign_grafana gen ys seen1 m = (e, ys', s, k)"
    by (metis prod_cases4)
  show ?thesis using assms a by (simp add: assign_grafana_append)
qed

lemma assign_grafana_succeeds:
  assumes "\<forall>pre gr post pre' seen1 m.
      xs = pre @ gr # post \<and> gr_UID gr = '''' \<and> assign_grafana gen pre seen n = (None, pre', seen1, m)
      \<longrightarrow> fst (generate_retry retries gen seen1 m) \<noteq> ''''"
  shows "fst (assign_grafana gen xs seen n) = None"
  using assms
proof (induction xs arbitrary: seen n)
  case Nil
  then show ?case by simp
next
  case (Cons x xs)
  show ?case
  proof (cases "gr_UID x = ''''")
    case False
    have "fst (assign_grafana gen xs (insert (gr_UID x) seen) n) = None"
    proof (rule Cons.IH, intro allI impI)
      fix pre gr post pre' seen1 m
      assume h: "xs = pre @ gr # post \<and> gr_UID gr = '''' \<and>
          assign_grafana gen pre (insert (gr_UID x) seen) n = (None, pre', seen1, m)"
      then have "x # xs = (x # pre) @ gr # post" "gr_UID gr = ''''"
        "assign_grafana gen (x # pre) seen n = (None, x # pre', seen1, m)"
        using False by simp_all
      with Cons.prems show "fst (generate_retry retries gen seen1 m) \<noteq> ''''" by blast
    qed
    moreover obtain e ys s k where "assign_grafana gen xs (insert (gr_UID x) seen) n = (e, ys, s, k)"
      by (metis prod_cases4)
    ultimately show ?thesis using False by simp
  next
    case True
    obtain u m0 where g: "generate_retry retries gen seen n = (u, m0)" by (metis surj_pair)
    have "x # xs = [] @ x # xs \<and> gr_UID x = '''' \<and> assign_grafana gen [] seen n = (None, [], seen, n)"
      using True by simp
    with Cons.prems have "fst (generate_retry retries gen seen n) \<noteq> ''''" by blast
    with g have u: "u \<noteq> ''''" by simp
    have "fst (assign_grafana gen xs (insert u seen) m0) = None"
    proof (rule Cons.IH, intro allI impI)
      fix pre gr post pre' seen1 m
      assume h: "xs = pre @ gr # post \<and> gr_UID gr = '''' \<and>
          assign_grafana gen pre (insert u seen) m0 = (None, pre', seen1, m)"
      then have "x # xs = (x # pre) @ gr # post" "gr_UID gr = ''''"
        "assign_grafana gen (x # pre) seen n = (None, x\<lparr>gr_UID := u\<rparr> # pre', seen1, m)"
        using True g u by simp_all
      with Cons.prems show "fst (generate_retry retries gen seen1 m) \<noteq> ''''" by blast
    qed
    then show ?thesis using assign_grafana_head[OF True, of gen xs seen n] g u by simp
  qed
qed

lemma assign_grafana_succeeded:
  assumes "fst (assign_grafana gen xs seen n) = None"
    and "xs = pre @ gr # post" "gr_UID gr = ''''"
    and "assign_grafana gen pre seen n = (None, pre', seen1, m)"
  shows "fst (generate_retry retries gen seen1 m) \<noteq> ''''"
proof -
  from assign_grafana_prefix[OF assms(4), of "gr # post"] assms(1,2)
  have "fst (assign_grafana gen (gr # post) seen1 m) = None" by simp
  with assign_grafana_head[OF assms(3), of gen post seen1 m] show ?thesis by simp
qed

lemma assign_grafana_progress:
  assumes "xs = pre @ gr # post" "gr_UID gr = ''''"
    and "assign_grafana gen pre seen n = (None, pre', seen1, m)"
    and "i < retries" "gen (m + i) \<notin> seen1" "gen (m + i) \<noteq> ''''" "\<forall>j<i. gen (m + j) \<in> seen1"
    and "assign_grafana gen xs seen n = (e, xs', seen', n')"
  shows "gr_UID (xs' ! length pre) = gen (m + i) \<and> m + i < n' \<and>
         assign_grafana gen (pre @ [gr]) seen n =
           (None, pre' @ [gr\<lparr>gr_UID := gen (m + i)\<rparr>], insert (gen (m + i)) seen1, Suc (m + i))"
proof -
  let ?u = "gen (m + i)"
  have g: "generate_retry retries gen seen1 m = (?u, Suc (m + i))"
    using generate_retry_first[OF assms(4,5,7)] .
  have l: "length pre' = length pre" using assign_grafana_length[OF assms(3)] .
  obtain e1 post' s k where a: "assign_grafana gen post (insert ?u seen1) (Suc (m + i)) = (e1, post', s, k)"
    by (metis prod_cases4)
  from assign_grafana_counter[OF a] have k: "Suc (m + i) \<le> k" by simp
  have "assign_grafana gen (gr # post) seen1 m = (e1, gr\<lparr>gr_UID := ?u\<rparr> # post', s, k)"
    using assms(2,6) g a by simp
  with assms(1,3) have "assign_grafana gen xs seen n = (e1, pre' @ gr\<lparr>gr_UID := ?u\<rparr> # post', s, k)"
    by (simp add: assign_grafana_append)
  with assms(8) have x: "xs' = pre' @ gr\<lparr>gr_UID := ?u\<rparr> # post'" and n': "n' = k" by simp_all
  have one: "assign_grafana gen [gr] seen1 m = (None, [gr\<lparr>gr_UID := ?u\<rparr>], insert ?u seen1, Suc (m + i))"
    using assms(2,6) g by simp
  have "assign_grafana gen (pre @ [gr]) seen n =
           (None, pre' @ [gr\<lparr>gr_UID := ?u\<rparr>], insert ?u seen1, Suc (m + i))"
    using assms(3) one by (simp add: assign_grafana_append)
  moreover have "gr_UID (xs' ! length pre) = ?u"
    unfolding x using l by (simp add: nth_append)
  ultimately show ?thesis using k n' by simp
qed

lemma assign_grafana_collision_free:
  assumes "inj gen" "\<forall>k. gen k \<noteq> ''''" "\<forall>k\<ge>n. gen k \<notin> seen \<union> gr_UID ` set xs"
  shows "\<exists>xs' seen'.
           assign_grafana gen xs seen n =
             (None, xs', seen', n + length (filter (\<lambda>x. gr_UID x = '''') xs)) \<and>
           (\<forall>j<length xs. gr_UID (xs ! j) = '''' \<longrightarrow>
              gr_UID (xs' ! j) = gen (n + length (filter (\<lambda>x. gr_UID x = '''') (take j xs))))"
  using assms(3)
proof (induction xs arbitrary: seen n)
  case Nil
  then show ?case by simp
next
  case (Cons x xs)
  show ?case
  proof (cases "gr_UID x = ''''")
    case False
    have "\<forall>k\<ge>n. gen k \<notin> insert (gr_UID x) seen \<union> gr_UID ` set xs"
      using Cons.prems by auto
    from Cons.IH[OF this] obtain xs1 s1 where
      a: "assign_grafana gen xs (insert (gr_UID x) seen) n =
            (None, xs1, s1, n + length (filter (\<lambda>x. gr_UID x = '''') xs))"
      and b: "\<forall>j<length xs. gr_UID (xs ! j) = '''' \<longrightarrow>
              gr_UID (xs1 ! j) = gen (n + length (filter (\<lambda>x. gr_UID x = '''') (take j xs)))"
      by blast
    have r: "assign_grafana gen (x # xs) seen n =
            (None, x # xs1, s1, n + length (filter (\<lambda>x. gr_UID x = '''') (x # xs)))"
      using False a by simp
    have "gr_UID ((x # xs1) ! j) = gen (n + length (filter (\<lambda>x. gr_UID x = '''') (take j (x # xs))))"
      if "j < length (x # xs)" "gr_UID ((x # xs) ! j) = ''''" for j
    proof (cases j)
      case 0
      with that False show ?thesis by simp
    next
      case (Suc j')
      with that b False show ?thesis by simp
    qed
    with r show ?thesis by blast
  next
    case True
    have "gen (n + 0) \<notin> seen" using Cons.prems by simp
    from generate_retry_first[of 0 retries gen n seen, OF _ this]
    have g: "generate_retry retries gen seen n = (gen n, Suc n)" by (simp add: retries_def)
    have u: "gen n \<noteq> ''''" using assms(2) by simp
    have "\<forall>k\<ge>Suc n. gen k \<notin> insert (gen n) seen \<union> gr_UID ` set xs"
    proof (intro allI impI)
      fix k assume k: "Suc n \<le> k"
      then have "gen k \<noteq> gen n" using assms(1) by (auto simp: inj_eq)
      moreover from k Cons.prems have "gen k \<notin> seen \<union> gr_UID ` set (x # xs)" by simp
      ultimately show "gen k \<notin> insert (gen n) seen \<union> gr_UID ` set xs" by simp
    qed
    from Cons.IH[OF this] obtain xs1 s1 where
      a: "assign_grafana gen xs (insert (gen n) seen) (Suc n) =
            (None, xs1, s1, Suc n + length (filter (\<lambda>x. gr_UID x = '''') xs))"
      and b: "\<forall>j<length xs. gr_UID (xs ! j) = '''' \<longrightarrow>
              gr_UID (xs1 ! j) = gen (Suc n + length (filter (\<lambda>x. gr_UID x = '''') (take j xs)))"
      by blast
    have r: "assign_grafana gen (x # xs) seen n =
            (None, x\<lparr>gr_UID := gen n\<rparr> # xs1, s1, n + length (filter (\<lambda>x. gr_UID x = '''') (x # xs)))"
      using True g u a by simp
    have "gr_UID ((x\<lparr>gr_UID := gen n\<rparr> # xs1) ! j) =
            gen (n + length (filter (\<lambda>x. gr_UID x = '''') (take j (x # xs))))"
      if "j < length (x # xs)" "gr_UID ((x # xs) ! j) = ''''" for j
    proof (cases j)
      case 0
      then show ?thesis by simp
    next
      case (Suc j')
      with that b True show ?thesis by simp
    qed
    with r show ?thesis by blast
  qed
qed

text \<open>
  Claim C8. \<open>uids_before\<close> and \<open>uids_after\<close> list the UIDs of the Grafana-managed
  receivers the loops visit, in visiting order, before and after the call.
  When the call succeeds, every visited receiver whose UID was empty has a
  non-empty UID that \<^verbatim>\<open>GenerateShortUID\<close> returned during this call and that differs
  from every UID visited before it (those given and those generated earlier),
  and every other visited receiver keeps its UID; so receivers that all lacked
  a UID end with pairwise distinct UIDs. The call makes at most five attempts
  per receiver that lacks a UID. Its only error is the one for exhausted
  attempts, and it is returned whenever the five values generated for a
  receiver that lacks a UID are all among the UIDs seen so far in this call
  (the set is built from nothing at each call).

  The call succeeds exactly when every visited receiver that lacks a UID,
  reached with the set \<open>seen\<close> of UIDs and after \<open>m\<close> generated values, finds among
  the next five values one that is not in \<open>seen\<close>, the first such being
  non-empty. Such a receiver is given that first value, attempt \<open>i + 1\<close> of at
  most five being the last one made for it, also when the call fails at a
  later receiver. And when the generator returns non-empty values that never
  repeat and are none of the UIDs given, the call succeeds with one attempt per
  receiver that lacks a UID, the receivers taking the generated values in
  visiting order.
\<close>

theorem assignReceiverConfigsUIDs_fresh:
  assumes "assignReceiverConfigsUIDs rtype gen c n = (err, c', n')"
  shows "length (uids_after rtype c c') = length (uids_before rtype c) \<and>
    (err = None \<longrightarrow>
       (\<forall>j<length (uids_before rtype c).
          if uids_before rtype c ! j = ''''
          then uids_after rtype c c' ! j \<noteq> '''' \<and>
               uids_after rtype c c' ! j \<notin> set (take j (uids_after rtype c c')) \<and>
               uids_after rtype c c' ! j \<in> gen ` {n..<n'}
          else uids_after rtype c c' ! j = uids_before rtype c ! j)) \<and>
    (err = None \<longrightarrow> (\<forall>u\<in>set (uids_before rtype c). u = '''') \<longrightarrow> distinct (uids_after rtype c c')) \<and>
    n \<le> n' \<and> n' \<le> n + 5 * length (filter (\<lambda>u. u = '''') (uids_before rtype c)) \<and>
    (\<forall>seen m. snd (generate_retry retries gen seen m) \<le> m + 5) \<and>
    (\<forall>e. err = Some e \<longrightarrow> e = uid_attempts_failed) \<and>
    (\<forall>pre gr post pre' seen m.
       visited rtype c = pre @ gr # post \<and> gr_UID gr = '''' \<and>
       assign_grafana gen pre {} n = (None, pre', seen, m) \<and> (\<forall>i<5. gen (m + i) \<in> seen)
       \<longrightarrow> err = Some uid_attempts_failed) \<and>
    (err = None \<longleftrightarrow>
       (\<forall>pre gr post pre' seen m.
          visited rtype c = pre @ gr # post \<and> gr_UID gr = '''' \<and>
          assign_grafana gen pre {} n = (None, pre', seen, m)
          \<longrightarrow> (\<exists>i<5. gen (m + i) \<notin> seen \<and> gen (m + i) \<noteq> '''' \<and> (\<forall>j<i. gen (m + j) \<in> seen)))) \<and>
    (\<forall>pre gr post pre' seen m i.
       visited rtype c = pre @ gr # post \<and> gr_UID gr = '''' \<and>
       assign_grafana gen pre {} n = (None, pre', seen, m) \<and>
       i < 5 \<and> gen (m + i) \<notin> seen \<and> gen (m + i) \<noteq> '''' \<and> (\<forall>j<i. gen (m + j) \<in> seen)
       \<longrightarrow> uids_after rtype c c' ! length pre = gen (m + i) \<and> m + i < n' \<and>
           assign_grafana gen (pre @ [gr]) {} n =
             (None, pre' @ [gr\<lparr>gr_UID := gen (m + i)\<rparr>], insert (gen (m + i)) seen, Suc (m + i))) \<and>
    (inj gen \<and> (\<forall>k. gen k \<noteq> '''') \<and> (\<forall>k. gen k \<notin> set (uids_before rtype c)) \<longrightarrow>
       err = None \<and> n' = n + length (filter (\<lambda>u. u = '''') (uids_before rtype c)) \<and>
       (\<forall>j<length (uids_before rtype c).
          uids_before rtype c ! j = '''' \<longrightarrow>
          uids_after rtype c c' ! j =
            gen (n + length (filter (\<lambda>u. u = '''') (take j (uids_before rtype c))))))"
proof -
  have p7: "\<forall>seen m. snd (generate_retry retries gen seen m) \<le> m + 5"
  proof (intro allI)
    fix seen m
    obtain u m' where g: "generate_retry retries gen seen m = (u, m')" by (metis surj_pair)
    from generate_retry_bounds[OF g] g show "snd (generate_retry retries gen seen m) \<le> m + 5"
      by (simp add: retries_def)
  qed
  obtain seen' where a: "assign_receivers rtype gen c {} n = (err, c', seen', n')"
    using assms by (auto simp: assignReceiverConfigsUIDs_def split: prod.splits)
  note fl = assign_receivers_flat[OF a]
  let ?xs = "visited rtype c" and ?xs' = "visited_after rtype c c'"
  have len: "length ?xs' = length ?xs" using assign_grafana_length[OF fl] .
  have fr: "list_all2 (\<lambda>x x'. x'\<lparr>gr_UID := gr_UID x\<rparr> = x \<and> (gr_UID x \<noteq> '''' \<longrightarrow> x' = x)) ?xs ?xs'"
    using assign_grafana_frame[OF fl] .
  have p1: "length (uids_after rtype c c') = length (uids_before rtype c)"
    using len by (simp add: uids_after_def uids_before_def)
  have step: "if uids_before rtype c ! j = ''''
          then uids_after rtype c c' ! j \<noteq> '''' \<and>
               uids_after rtype c c' ! j \<notin> set (take j (uids_after rtype c c')) \<and>
               uids_after rtype c c' ! j \<in> gen ` {n..<n'}
          else uids_after rtype c c' ! j = uids_before rtype c ! j"
    if "err = None" "j < length (uids_before rtype c)" for j
  proof (cases "uids_before rtype c ! j = ''''")
    case True
    from that have j: "j < length ?xs" by (simp add: uids_before_def)
    with True have e: "gr_UID (?xs ! j) = ''''" by (simp add: uids_before_def)
    from fl that(1) have "assign_grafana gen ?xs {} n = (None, ?xs', seen', n')" by simp
    from assign_grafana_fresh[OF this j e] True j len show ?thesis
      by (simp add: uids_after_def uids_before_def)
  next
    case False
    from that have j: "j < length ?xs" by (simp add: uids_before_def)
    from list_all2_nthD[OF fr j] False j len show ?thesis
      by (simp add: uids_after_def uids_before_def)
  qed
  have p2: "err = None \<longrightarrow>
       (\<forall>j<length (uids_before rtype c).
          if uids_before rtype c ! j = ''''
          then uids_after rtype c c' ! j \<noteq> '''' \<and>
               uids_after rtype c c' ! j \<notin> set (take j (uids_after rtype c c')) \<and>
               uids_after rtype c c' ! j \<in> gen ` {n..<n'}
          else uids_after rtype c c' ! j = uids_before rtype c ! j)"
    using step by blast
  have p3: "err = None \<longrightarrow> (\<forall>u\<in>set (uids_before rtype c). u = '''') \<longrightarrow> distinct (uids_after rtype c c')"
  proof (intro impI)
    assume n: "err = None" and all: "\<forall>u\<in>set (uids_before rtype c). u = ''''"
    have "uids_after rtype c c' ! j \<notin> set (take j (uids_after rtype c c'))"
      if "j < length (uids_after rtype c c')" for j
    proof -
      from that p1 have j: "j < length (uids_before rtype c)" by simp
      then have "uids_before rtype c ! j = ''''" using all nth_mem by blast
      with step[OF n j] show ?thesis by simp
    qed
    then show "distinct (uids_after rtype c c')" by (intro fresh_distinct) blast
  qed
  have flt: "length (filter (\<lambda>u. u = '''') (uids_before rtype c)) = length (filter (\<lambda>x. gr_UID x = '''') ?xs)"
    by (simp add: uids_before_def filter_map comp_def)
  with assign_grafana_counter[OF fl]
  have p4: "n \<le> n' \<and> n' \<le> n + 5 * length (filter (\<lambda>u. u = '''') (uids_before rtype c))"
    by (simp add: retries_def)
  have p5: "\<forall>e. err = Some e \<longrightarrow> e = uid_attempts_failed"
    using assign_grafana_error fl by blast
  have p6: "\<forall>pre gr post pre' seen m.
       visited rtype c = pre @ gr # post \<and> gr_UID gr = '''' \<and>
       assign_grafana gen pre {} n = (None, pre', seen, m) \<and> (\<forall>i<5. gen (m + i) \<in> seen)
       \<longrightarrow> err = Some uid_attempts_failed"
  proof (intro allI impI)
    fix pre gr post pre' seen m
    assume h: "visited rtype c = pre @ gr # post \<and> gr_UID gr = '''' \<and>
       assign_grafana gen pre {} n = (None, pre', seen, m) \<and> (\<forall>i<5. gen (m + i) \<in> seen)"
    then have "fst (assign_grafana gen ?xs {} n) = Some uid_attempts_failed"
      by (intro assign_grafana_exhausted[where pre = pre and gr = gr and post = post and pre' = pre' and ?seen1.0 = seen and m = m])
         (auto simp: retries_def)
    with fl show "err = Some uid_attempts_failed" by simp
  qed
  have p8: "err = None \<longleftrightarrow>
       (\<forall>pre gr post pre' seen m.
          visited rtype c = pre @ gr # post \<and> gr_UID gr = '''' \<and>
          assign_grafana gen pre {} n = (None, pre', seen, m)
          \<longrightarrow> (\<exists>i<5. gen (m + i) \<notin> seen \<and> gen (m + i) \<noteq> '''' \<and> (\<forall>j<i. gen (m + j) \<in> seen)))"
  proof
    assume e: "err = None"
    show "\<forall>pre gr post pre' seen m.
          visited rtype c = pre @ gr # post \<and> gr_UID gr = '''' \<and>
          assign_grafana gen pre {} n = (None, pre', seen, m)
          \<longrightarrow> (\<exists>i<5. gen (m + i) \<notin> seen \<and> gen (m + i) \<noteq> '''' \<and> (\<forall>j<i. gen (m + j) \<in> seen))"
    proof (intro allI impI, elim conjE)
      fix pre gr post pre' seen m
      assume h: "visited rtype c = pre @ gr # post" "gr_UID gr = ''''"
        "assign_grafana gen pre {} n = (None, pre', seen, m)"
      from fl e have "fst (assign_grafana gen ?xs {} n) = None" by simp
      from assign_grafana_succeeded[OF this h]
      have "fst (generate_retry 5 gen seen m) \<noteq> ''''" by (simp add: retries_def)
      then show "\<exists>i<5. gen (m + i) \<notin> seen \<and> gen (m + i) \<noteq> '''' \<and> (\<forall>j<i. gen (m + j) \<in> seen)"
        by (rule generate_retry_found)
    qed
  next
    assume h: "\<forall>pre gr post pre' seen m.
          visited rtype c = pre @ gr # post \<and> gr_UID gr = '''' \<and>
          assign_grafana gen pre {} n = (None, pre', seen, m)
          \<longrightarrow> (\<exists>i<5. gen (m + i) \<notin> seen \<and> gen (m + i) \<noteq> '''' \<and> (\<forall>j<i. gen (m + j) \<in> seen))"
    have "fst (assign_grafana gen ?xs {} n) = None"
    proof (rule assign_grafana_succeeds, intro allI impI)
      fix pre gr post pre' seen1 m
      assume "visited rtype c = pre @ gr # post \<and> gr_UID gr = '''' \<and>
          assign_grafana gen pre {} n = (None, pre', seen1, m)"
      with h have "\<exists>i<5. gen (m + i) \<notin> seen1 \<and> gen (m + i) \<noteq> '''' \<and> (\<forall>j<i. gen (m + j) \<in> seen1)"
        by blast
      then have "fst (generate_retry 5 gen seen1 m) \<noteq> ''''"
        by (simp only: generate_retry_found_iff)
      then show "fst (generate_retry retries gen seen1 m) \<noteq> ''''" by (simp add: retries_def)
    qed
    with fl show "err = None" by simp
  qed
  have p9: "\<forall>pre gr post pre' seen m i.
       visited rtype c = pre @ gr # post \<and> gr_UID gr = '''' \<and>
       assign_grafana gen pre {} n = (None, pre', seen, m) \<and>
       i < 5 \<and> gen (m + i) \<notin> seen \<and> gen (m + i) \<noteq> '''' \<and> (\<forall>j<i. gen (m + j) \<in> seen)
       \<longrightarrow> uids_after rtype c c' ! length pre = gen (m + i) \<and> m + i < n' \<and>
           assign_grafana gen (pre @ [gr]) {} n =
             (None, pre' @ [gr\<lparr>gr_UID := gen (m + i)\<rparr>], insert (gen (m + i)) seen, Suc (m + i))"
  proof (intro allI impI, elim conjE)
    fix pre gr post pre' seen m i
    assume h: "visited rtype c = pre @ gr # post" "gr_UID gr = ''''"
       "assign_grafana gen pre {} n = (None, pre', seen, m)"
       and i: "i < 5" and g: "gen (m + i) \<notin> seen" "gen (m + i) \<noteq> ''''" "\<forall>j<i. gen (m + j) \<in> seen"
    from i have i': "i < retries" by (simp add: retries_def)
    note pr = assign_grafana_progress[OF h i' g fl]
    have "length pre < length ?xs'" using len h(1) by simp
    then have "uids_after rtype c c' ! length pre = gr_UID (?xs' ! length pre)"
      by (simp add: uids_after_def)
    with pr show "uids_after rtype c c' ! length pre = gen (m + i) \<and> m + i < n' \<and>
           assign_grafana gen (pre @ [gr]) {} n =
             (None, pre' @ [gr\<lparr>gr_UID := gen (m + i)\<rparr>], insert (gen (m + i)) seen, Suc (m + i))"
      by simp
  qed
  have p10: "inj gen \<and> (\<forall>k. gen k \<noteq> '''') \<and> (\<forall>k. gen k \<notin> set (uids_before rtype c)) \<longrightarrow>
       err = None \<and> n' = n + length (filter (\<lambda>u. u = '''') (uids_before rtype c)) \<and>
       (\<forall>j<length (uids_before rtype c).
          uids_before rtype c ! j = '''' \<longrightarrow>
          uids_after rtype c c' ! j =
            gen (n + length (filter (\<lambda>u. u = '''') (take j (uids_before rtype c)))))"
  proof (intro impI, elim conjE)
    assume i: "inj gen" and ne: "\<forall>k. gen k \<noteq> ''''" and nb: "\<forall>k. gen k \<notin> set (uids_before rtype c)"
    from nb have "\<forall>k\<ge>n. gen k \<notin> {} \<union> gr_UID ` set ?xs" by (simp add: uids_before_def)
    from assign_grafana_collision_free[OF i ne this] obtain xs1 s1 where
      r: "assign_grafana gen ?xs {} n = (None, xs1, s1, n + length (filter (\<lambda>x. gr_UID x = '''') ?xs))"
      and v: "\<forall>j<length ?xs. gr_UID (?xs ! j) = '''' \<longrightarrow>
              gr_UID (xs1 ! j) = gen (n + length (filter (\<lambda>x. gr_UID x = '''') (take j ?xs)))"
      by blast
    from r fl have e: "err = None" and x: "xs1 = ?xs'"
      and c: "n' = n + length (filter (\<lambda>x. gr_UID x = '''') ?xs)" by simp_all
    have t: "length (filter (\<lambda>u. u = '''') (take j (uids_before rtype c))) =
             length (filter (\<lambda>x. gr_UID x = '''') (take j ?xs))" for j
      by (simp add: uids_before_def filter_map comp_def take_map)
    have "uids_after rtype c c' ! j = gen (n + length (filter (\<lambda>u. u = '''') (take j (uids_before rtype c))))"
      if "j < length (uids_before rtype c)" "uids_before rtype c ! j = ''''" for j
    proof -
      from that have j: "j < length ?xs" and u: "gr_UID (?xs ! j) = ''''" by (simp_all add: uids_before_def)
      from v j u have "gr_UID (?xs' ! j) = gen (n + length (filter (\<lambda>x. gr_UID x = '''') (take j ?xs)))"
        unfolding x by blast
      with j len show ?thesis by (simp add: uids_after_def t)
    qed
    with e c flt show "err = None \<and> n' = n + length (filter (\<lambda>u. u = '''') (uids_before rtype c)) \<and>
       (\<forall>j<length (uids_before rtype c).
          uids_before rtype c ! j = '''' \<longrightarrow>
          uids_after rtype c c' ! j =
            gen (n + length (filter (\<lambda>u. u = '''') (take j (uids_before rtype c)))))"
      by simp
  qed
  from p1 p2 p3 p4[THEN conjunct1] p4[THEN conjunct2] p5 p6 p7 p8 p9 p10 show ?thesis by (intro conjI)
qed

text \<open>
  Five Grafana-managed receivers without UID, under two receivers separated by
  an upstream receiver; the second generated value collides with the first
  and is retried.
\<close>

lemma example_run:
  "assignReceiverConfigsUIDs example_rtype example_gen example_receivers 0
     = (None, example_receivers_assigned, 6)"
  by (simp add: assignReceiverConfigsUIDs_def example_rtype_def example_gen_def
      example_receivers_def example_receivers_assigned_def mk_gr_def retries_def numeral_eq_Suc)

text \<open>
  The same receivers with a generator whose first five values are equal: the
  second receiver gets its UID at the fifth attempt. And with a generator that
  returns one value for ever: the first receiver takes it, the five attempts
  for the second collide, and the call fails leaving the others as they were.
\<close>

lemma example_retrying_run:
  "assignReceiverConfigsUIDs example_rtype example_gen_retrying example_receivers 0
     = (None, example_receivers_assigned, 9)"
  by (simp add: assignReceiverConfigsUIDs_def example_rtype_def example_gen_retrying_def
      example_receivers_def example_receivers_assigned_def mk_gr_def retries_def numeral_eq_Suc)

lemma example_stuck_run:
  "assignReceiverConfigsUIDs example_rtype example_gen_stuck example_receivers 0
     = (Some uid_attempts_failed, example_receivers_stuck, 6)"
  by (simp add: assignReceiverConfigsUIDs_def example_rtype_def example_gen_stuck_def
      example_receivers_def example_receivers_stuck_def mk_gr_def retries_def numeral_eq_Suc)

text \<open>
  The three runs above, for claim C8: the five receivers end with the distinct
  UIDs a to e, after six generated values in the first run and after nine in
  the second, where the fifth attempt for the second receiver is the one that
  succeeds; the third run fails after the fifth colliding attempt.
\<close>

theorem assignReceiverConfigsUIDs_fresh_witness:
  "assignReceiverConfigsUIDs example_rtype example_gen example_receivers 0
     = (None, example_receivers_assigned, 6) \<and>
   uids_before example_rtype example_receivers = ['''', '''', '''', '''', ''''] \<and>
   uids_after example_rtype example_receivers example_receivers_assigned = [''a'', ''b'', ''c'', ''d'', ''e''] \<and>
   distinct (uids_after example_rtype example_receivers example_receivers_assigned) \<and>
   assignReceiverConfigsUIDs example_rtype example_gen_retrying example_receivers 0
     = (None, example_receivers_assigned, 9) \<and>
   assignReceiverConfigsUIDs example_rtype example_gen_stuck example_receivers 0
     = (Some uid_attempts_failed, example_receivers_stuck, 6)"
proof -
  have b: "uids_before example_rtype example_receivers = ['''', '''', '''', '''', '''']"
    by (simp add: uids_before_def visited_def example_rtype_def example_receivers_def mk_gr_def)
  have a: "uids_after example_rtype example_receivers example_receivers_assigned = [''a'', ''b'', ''c'', ''d'', ''e'']"
    by (simp add: uids_after_def visited_after_def example_rtype_def example_receivers_def
        example_receivers_assigned_def mk_gr_def)
  have all: "\<forall>u\<in>set (uids_before example_rtype example_receivers). u = ''''"
    by (simp add: b)
  from assignReceiverConfigsUIDs_fresh[OF example_run] all
  have "distinct (uids_after example_rtype example_receivers example_receivers_assigned)"
    by blast
  with example_run example_retrying_run example_stuck_run a b show ?thesis by simp
qed

text \<open>
  The same run, for claim C10: the upstream receiver is unchanged, and a
  Grafana-managed receiver differs from what it was in its UID only.
\<close>

theorem assignReceiverConfigsUIDs_frame_witness:
  "assignReceiverConfigsUIDs example_rtype example_gen example_receivers 0
     = (None, example_receivers_assigned, 6) \<and>
   length example_receivers_assigned = length example_receivers \<and>
   example_receivers_assigned ! 1 = example_receivers ! 1 \<and>
   (GrafanaManagedReceivers (example_receivers_assigned ! 0) ! 1)\<lparr>gr_UID := ''''\<rparr>
      = GrafanaManagedReceivers (example_receivers ! 0) ! 1"
proof -
  note f = assignReceiverConfigsUIDs_frame[OF example_run]
  have l: "length example_receivers = 3" by (simp add: example_receivers_def)
  have t: "example_rtype (example_receivers ! 1) \<noteq> GrafanaReceiverType"
    by (simp add: example_rtype_def example_receivers_def)
  have g: "gr_UID (GrafanaManagedReceivers (example_receivers ! 0) ! 1) = ''''"
          "length (GrafanaManagedReceivers (example_receivers ! 0)) = 2"
    by (simp_all add: example_receivers_def mk_gr_def)
  from f l have "example_receivers_assigned ! 1 = example_receivers ! 1"
    using t by (metis One_nat_def less_numeral_extra(1) numeral_3_eq_3 Suc_less_eq zero_less_Suc)
  moreover from f l g have "(GrafanaManagedReceivers (example_receivers_assigned ! 0) ! 1)\<lparr>gr_UID := ''''\<rparr>
      = GrafanaManagedReceivers (example_receivers ! 0) ! 1"
    by (metis One_nat_def lessI numeral_2_eq_2 zero_less_numeral)
  ultimately show ?thesis using example_run f by simp
qed

section \<open>Properties of the extraction of receiver names\<close>

lemma object_members_unrelated:
  "list_all (\<lambda>(k, v). \<not> is_field k) ms \<Longrightarrow> object_members is_field dec cur ms = (cur, False)"
  by (induction ms) auto

lemma object_members_single:
  assumes "list_all (\<lambda>(k, v). \<not> is_field k) pre" "list_all (\<lambda>(k, v). \<not> is_field k) post" "is_field k0"
  shows "object_members is_field dec cur (pre @ [(k0, v0)] @ post) = dec cur v0"
  using assms by (induction pre) (auto simp: object_members_unrelated split: prod.splits)

lemma key_matches_refl: "key_matches exts k k"
  by (simp add: key_matches_def)

lemma decode_receiver_object:
  assumes "unrelated exts ''name'' ms1" "unrelated exts ''name'' ms2"
  shows "decode_receiver exts cur (receiver_object (ms1, name, ms2)) = (name, False)"
  using assms object_members_single[of "\<lambda>k. key_matches exts k ''name''" ms1 ms2 "''name''" decode_Name cur "JString name"]
  by (simp add: decode_receiver_def decode_struct_def receiver_object_def unrelated_def
      key_matches_refl decode_Name_def)

lemma foldl_set_Insert:
  "distinct s \<Longrightarrow> distinct (foldl set_Insert s xs) \<and> set (foldl set_Insert s xs) = set s \<union> set xs"
  by (induction xs arbitrary: s) (auto simp: set_Insert_def set_Has_def)

text \<open>
  Claim C3. For a raw configuration that is a JSON document in which
  \<^verbatim>\<open>alertmanager_config\<close> is an object, its \<^verbatim>\<open>receivers\<close> an array of objects and
  the \<^verbatim>\<open>name\<close> of each a string, \<^verbatim>\<open>extractReceiverNames\<close> returns without error the
  set of those names, whatever other members stand beside these three, at any
  of the three levels, and whatever their values are (of the wrong type for
  the full schema, for instance). A member is another member when the decoder
  does not take its name for the field's, that is, when it differs from the
  field's name also after case folding.
\<close>

theorem extractReceiverNames_resilient:
  assumes "unrelated exts ''alertmanager_config'' pre" "unrelated exts ''alertmanager_config'' post"
    and "unrelated exts ''receivers'' pre2" "unrelated exts ''receivers'' post2"
    and "\<forall>(ms1, name, ms2) \<in> set rs. unrelated exts ''name'' ms1 \<and> unrelated exts ''name'' ms2"
  shows "\<exists>names. extractReceiverNames exts (JSONText (config_document pre pre2 rs post2 post)) = Inr names \<and>
           distinct names \<and> set names = set (map (\<lambda>(ms1, name, ms2). name) rs)"
proof -
  have each: "decode_receiver exts '''' (receiver_object r) = (fst (snd r), False)" if "r \<in> set rs" for r
  proof -
    obtain ms1 name ms2 where r: "r = (ms1, name, ms2)" by (cases r) auto
    with that assms(5) have "unrelated exts ''name'' ms1" "unrelated exts ''name'' ms2" by auto
    from decode_receiver_object[OF this] r show ?thesis by simp
  qed
  have elts: "decode_elements exts [] (map receiver_object rs') = (map (\<lambda>r. fst (snd r)) rs', False, [])"
    if "set rs' \<subseteq> set rs" for rs'
    using that by (induction rs') (simp_all add: each)
  have arr: "decode_Receivers exts nil_slice (JArray (map receiver_object rs))
               = (\<lparr>elems = map (\<lambda>r. fst (snd r)) rs, spare = []\<rparr>, False)"
    using elts[of rs] by (simp add: decode_Receivers_def nil_slice_def)
  let ?arr = "JArray (map receiver_object rs)"
  let ?amv = "JObject (pre2 @ [(''receivers'', ?arr)] @ post2)"
  let ?res = "\<lparr>elems = map (\<lambda>r. fst (snd r)) rs, spare = []\<rparr>"
  have am: "decode_AlertmanagerConfig exts nil_slice ?amv = (?res, False)"
  proof -
    have "decode_AlertmanagerConfig exts nil_slice ?amv
            = object_members (\<lambda>k. key_matches exts k ''receivers'') (decode_Receivers exts) nil_slice
                (pre2 @ [(''receivers'', ?arr)] @ post2)"
      by (simp add: decode_AlertmanagerConfig_def decode_struct_def)
    also have "\<dots> = decode_Receivers exts nil_slice ?arr"
      by (rule object_members_single) (use assms(3,4) in \<open>simp_all add: unrelated_def key_matches_refl\<close>)
    also have "\<dots> = (?res, False)" by (rule arr)
    finally show ?thesis .
  qed
  have top: "decode_receiverUserConfig exts nil_slice (config_document pre pre2 rs post2 post)
            = (?res, False)"
  proof -
    have "decode_receiverUserConfig exts nil_slice (config_document pre pre2 rs post2 post)
            = object_members (\<lambda>k. key_matches exts k ''alertmanager_config'')
                (decode_AlertmanagerConfig exts) nil_slice (pre @ [(''alertmanager_config'', ?amv)] @ post)"
      by (simp add: decode_receiverUserConfig_def decode_struct_def config_document_def)
    also have "\<dots> = decode_AlertmanagerConfig exts nil_slice ?amv"
      by (rule object_members_single) (use assms(1,2) in \<open>simp_all add: unrelated_def key_matches_refl\<close>)
    also have "\<dots> = (?res, False)" by (rule am)
    finally show ?thesis .
  qed
  have names: "map (\<lambda>r. fst (snd r)) rs = map (\<lambda>(ms1, name, ms2). name) rs"
    by (simp add: case_prod_unfold)
  have "extractReceiverNames exts (JSONText (config_document pre pre2 rs post2 post))
          = Inr (foldl set_Insert [] (map (\<lambda>(ms1, name, ms2). name) rs))"
    by (simp add: extractReceiverNames_def json_Unmarshal_def top names)
  moreover from foldl_set_Insert[of "[]" "map (\<lambda>(ms1, name, ms2). name) rs"]
  have "distinct (foldl set_Insert [] (map (\<lambda>(ms1, name, ms2). name) rs))"
       "set (foldl set_Insert [] (map (\<lambda>(ms1, name, ms2). name) rs)) = set (map (\<lambda>(ms1, name, ms2). name) rs)"
    by simp_all
  ultimately show ?thesis by blast
qed

text \<open>
  For claim C3: the names A and B are extracted from the document whose other
  members are all of the wrong type.
\<close>

theorem extractReceiverNames_resilient_witness:
  "unrelated example_ext ''alertmanager_config'' [(''template_files'', JArray [JBool True])] \<and>
   unrelated example_ext ''receivers'' [(''route'', JString ''not a route'')] \<and>
   (\<exists>names. extractReceiverNames example_ext (JSONText example_document) = Inr names \<and>
      distinct names \<and> set names = {''A'', ''B''})"
proof -
  have h1: "unrelated example_ext ''alertmanager_config'' [(''template_files'', JArray [JBool True])]"
    by code_simp
  have h2: "unrelated example_ext ''alertmanager_config'' [(''extra_config'', JNumber ''1'')]"
    by code_simp
  have h3: "unrelated example_ext ''receivers'' [(''route'', JString ''not a route'')]"
    by code_simp
  have h4: "unrelated example_ext ''receivers'' [(''mute_time_intervals'', JObject [(''Name'', JNull)])]"
    by code_simp
  have h5: "\<forall>(ms1, name, ms2) \<in> set example_receiver_entries.
              unrelated example_ext ''name'' ms1 \<and> unrelated example_ext ''name'' ms2"
    unfolding example_receiver_entries_def by code_simp
  have s: "set (map (\<lambda>(ms1, name, ms2). name) example_receiver_entries) = {''A'', ''B''}"
    by (simp add: example_receiver_entries_def)
  from extractReceiverNames_resilient[OF h1 h2 h3 h4 h5] s h1 h3 show ?thesis
    by (simp add: example_document_def)
qed

text \<open>
  A member written twice is decoded twice into the same field: the second
  array of receivers is decoded on top of the elements the first one left, so a
  receiver without name keeps the name found at its index; and elements cut
  off by a shorter array come back when a later array is longer.
\<close>

lemma extractReceiverNames_repeated_member:
  "extractReceiverNames example_ext
     (JSONText (JObject [(''alertmanager_config'',
        JObject [(''receivers'', JArray [JObject [(''name'', JString ''A'')]]),
                 (''receivers'', JArray [JObject []])])])) = Inr [''A'']"
  by code_simp

lemma extractReceiverNames_shorter_then_longer:
  "extractReceiverNames example_ext
     (JSONText (JObject [(''alertmanager_config'',
        JObject [(''receivers'', JArray [JObject [(''name'', JString ''A'')], JObject [(''name'', JString ''B'')]]),
                 (''receivers'', JArray [JObject [(''name'', JString ''X'')]]),
                 (''receivers'', JArray [JObject [], JObject [], JObject []])])])) = Inr [''X'', ''B'', '''']"
  by code_simp

section \<open>Properties of the multi-org Alertmanager\<close>

lemma delete_permissions_calls:
  "delete_permissions moa orgID names errs st = (errs', st') \<Longrightarrow>
     calls st' = calls st @ map (\<lambda>n. Call_DeleteResourcePermissions orgID (NameToUid (ext moa) n)) names \<and>
     uid_calls st' = uid_calls st"
proof (induction names arbitrary: errs st)
  case Nil
  then show ?case by simp
next
  case (Cons a names)
  then show ?case
    by (auto simp: Let_def emit_def split: prod.splits option.splits)
qed

lemma set_default_permissions_calls:
  "calls (set_default_permissions moa orgID names st) =
     calls st @ map (\<lambda>n. Call_SetDefaultPermissions orgID (NameToUid (ext moa) n)) names \<and>
   uid_calls (set_default_permissions moa orgID names st) = uid_calls st"
  by (induction names arbitrary: st) (auto simp: Let_def emit_def)

lemma cleanPermissions_calls:
  assumes "extractReceiverNames (ext moa) (ac_AlertmanagerConfiguration previousConfig) = Inr previousReceiverNames"
  shows "calls (snd (cleanPermissions moa st orgID previousConfig newReceiverNames)) =
     calls st @
     map (\<lambda>n. Call_DeleteResourcePermissions orgID (NameToUid (ext moa) n))
       (go_range (ext moa) (set_Difference previousReceiverNames newReceiverNames)) @
     map (\<lambda>n. Call_SetDefaultPermissions orgID (NameToUid (ext moa) n))
       (go_range (ext moa) (set_Difference newReceiverNames previousReceiverNames))"
proof -
  obtain errs st1 where d: "delete_permissions moa orgID
      (go_range (ext moa) (set_Difference previousReceiverNames newReceiverNames)) [] st = (errs, st1)"
    by (metis surj_pair)
  from delete_permissions_calls[OF d] set_default_permissions_calls[of moa orgID _ st1] d assms
  show ?thesis by (simp add: cleanPermissions_def)
qed

lemma extractReceiverNames_distinct:
  "extractReceiverNames exts raw = Inr names \<Longrightarrow> distinct names"
  using foldl_set_Insert[of "[]"]
  by (auto simp: extractReceiverNames_def split: sum.splits)

lemma mset_set_Difference:
  "distinct s1 \<Longrightarrow> mset (set_Difference s1 s2) = mset_set (set s1 - set s2)"
proof -
  assume d: "distinct s1"
  then have "distinct (set_Difference s1 s2)" by (simp add: set_Difference_def)
  then have "mset (set_Difference s1 s2) = mset_set (set (set_Difference s1 s2))"
    by (simp add: mset_set_set)
  moreover have "set (set_Difference s1 s2) = set s1 - set s2"
    by (auto simp: set_Difference_def set_Has_def)
  ultimately show ?thesis by simp
qed

lemma count_image_mset_injective:
  "inj f \<Longrightarrow> count (image_mset f M) (f x) = count M x"
  by (induction M) (auto simp: inj_eq)

lemma count_image_mset_outside:
  "(\<And>y. f y \<noteq> c) \<Longrightarrow> count (image_mset f M) c = 0"
  by (induction M) auto

lemma reconciled_counts:
  assumes inj: "inj uid"
    and m: "mset ops =
       image_mset (\<lambda>n. Call_DeleteResourcePermissions orgID (uid n)) (mset_set (set P - set N)) +
       image_mset (\<lambda>n. Call_SetDefaultPermissions orgID (uid n)) (mset_set (set N - set P))"
  shows "count (mset ops) (Call_DeleteResourcePermissions orgID (uid name)) =
           (if name \<in> set P - set N then 1 else 0) \<and>
         count (mset ops) (Call_SetDefaultPermissions orgID (uid name)) =
           (if name \<in> set N - set P then 1 else 0)"
proof -
  let ?del = "\<lambda>n. Call_DeleteResourcePermissions orgID (uid n)"
  let ?add = "\<lambda>n. Call_SetDefaultPermissions orgID (uid n)"
  have id: "inj ?del" "inj ?add" using inj by (auto simp: inj_def)
  have c1: "count (image_mset ?del M) (?del name) = count M name" for M
    using count_image_mset_injective[OF id(1)] .
  have c2: "count (image_mset ?add M) (?add name) = count M name" for M
    using count_image_mset_injective[OF id(2)] .
  have z1: "count (image_mset ?add M) (?del name) = 0" for M
    by (rule count_image_mset_outside) simp
  have z2: "count (image_mset ?del M) (?add name) = 0" for M
    by (rule count_image_mset_outside) simp
  have k1: "count (mset_set (set P - set N)) name = (if name \<in> set P - set N then 1 else 0)"
    by (simp add: count_mset_set')
  have k2: "count (mset_set (set N - set P)) name = (if name \<in> set N - set P then 1 else 0)"
    by (simp add: count_mset_set')
  have "count (mset ops) (?del name) = count (mset_set (set P - set N)) name"
    unfolding m by (simp only: count_union c1 z1 add_0_right)
  moreover have "count (mset ops) (?add name) = count (mset_set (set N - set P)) name"
    unfolding m by (simp only: count_union c2 z2 add_0_left add_0)
  ultimately show ?thesis using k1 k2 by simp
qed

lemma emit_world: "world (emit c st) = world st"
  by (simp add: emit_def)

lemma delete_permissions_effect:
  "delete_permissions moa orgID names errs st = (errs', st') \<Longrightarrow>
     (errs', world st') = fold (deletion_effect moa orgID) names (errs, world st)"
proof (induction names arbitrary: errs st)
  case Nil
  then show ?case by simp
next
  case (Cons a names)
  let ?uid = "NameToUid (ext moa) a"
  let ?st1 = "emit (Call_DeleteResourcePermissions orgID ?uid) st"
  obtain r w where d: "DeleteResourcePermissions moa (world st) orgID ?uid = (r, w)"
    by (metis surj_pair)
  show ?case
  proof (cases r)
    case None
    with d Cons.prems have "delete_permissions moa orgID names errs (?st1\<lparr>world := w\<rparr>) = (errs', st')"
      by (simp add: Let_def emit_world)
    from Cons.IH[OF this] d None show ?thesis
      by (simp add: deletion_effect_def)
  next
    case (Some err)
    with d Cons.prems have "delete_permissions moa orgID names
        (errs @ [Wrapped (''failed to delete permissions for receiver '' @ a) err])
        (?st1\<lparr>world := w\<rparr>) = (errs', st')"
      by (simp add: Let_def emit_world)
    from Cons.IH[OF this] d Some show ?thesis
      by (simp add: deletion_effect_def)
  qed
qed

lemma set_default_permissions_effect:
  "world (set_default_permissions moa orgID names st) = defaults_effect moa orgID names (world st)"
  by (induction names arbitrary: st) (simp_all add: defaults_effect_def Let_def emit_world)

lemma cleanPermissions_effect:
  assumes "extractReceiverNames (ext moa) (ac_AlertmanagerConfiguration previousConfig) = Inr previousReceiverNames"
  shows "fst (cleanPermissions moa st orgID previousConfig newReceiverNames) =
           errors_Join (fst (deletions_effect moa orgID
             (go_range (ext moa) (set_Difference previousReceiverNames newReceiverNames)) (world st))) \<and>
         world (snd (cleanPermissions moa st orgID previousConfig newReceiverNames)) =
           defaults_effect moa orgID
             (go_range (ext moa) (set_Difference newReceiverNames previousReceiverNames))
             (snd (deletions_effect moa orgID
               (go_range (ext moa) (set_Difference previousReceiverNames newReceiverNames)) (world st))) \<and>
         uid_calls (snd (cleanPermissions moa st orgID previousConfig newReceiverNames)) = uid_calls st"
proof -
  obtain errs st1 where d: "delete_permissions moa orgID
      (go_range (ext moa) (set_Difference previousReceiverNames newReceiverNames)) [] st = (errs, st1)"
    by (metis surj_pair)
  from delete_permissions_effect[OF d]
  have e: "deletions_effect moa orgID
      (go_range (ext moa) (set_Difference previousReceiverNames newReceiverNames)) (world st) = (errs, world st1)"
    by (simp add: deletions_effect_def)
  from delete_permissions_calls[OF d] have u: "uid_calls st1 = uid_calls st" by simp
  show ?thesis
    using assms d e u set_default_permissions_calls[of moa orgID _ st1]
    by (simp add: cleanPermissions_def set_default_permissions_effect)
qed

lemma deletions_permissions:
  assumes "\<And>w uid. perms (snd (DeleteResourcePermissions moa w orgID uid)) = perms w - {uid}"
  shows "perms (snd (fold (deletion_effect moa orgID) names acc)) =
           perms (snd acc) - NameToUid (ext moa) ` set names"
proof (induction names arbitrary: acc)
  case Nil
  then show ?case by simp
next
  case (Cons a names)
  obtain r w where d: "DeleteResourcePermissions moa (snd acc) orgID (NameToUid (ext moa) a) = (r, w)"
    by (metis surj_pair)
  from assms[of "snd acc" "NameToUid (ext moa) a"] d
  have "perms (snd (deletion_effect moa orgID a acc)) = perms (snd acc) - {NameToUid (ext moa) a}"
    by (cases r) (simp_all add: deletion_effect_def)
  with Cons.IH[of "deletion_effect moa orgID a acc"] show ?case by auto
qed

lemma defaults_permissions:
  assumes "\<And>w uid. perms (SetDefaultPermissions moa w orgID uid) = insert uid (perms w)"
  shows "perms (defaults_effect moa orgID names w) = perms w \<union> NameToUid (ext moa) ` set names"
  unfolding defaults_effect_def
  by (induction names arbitrary: w) (auto simp: assms)

text \<open>
  Claim C1. Given a previous configuration whose receiver names are the set
  \<open>previousReceiverNames\<close> and a new set \<open>newReceiverNames\<close>, in whatever order the
  two loops visit their sets: there are an enumeration \<open>deleted\<close> of the names of
  the previous set that are not in the new one and an enumeration \<open>added\<close> of
  the names of the new set that are not in the previous one, each name once,
  such that \<^verbatim>\<open>cleanPermissions\<close> calls \<^verbatim>\<open>DeleteResourcePermissions\<close> for the names
  of \<open>deleted\<close>, then \<^verbatim>\<open>SetDefaultPermissions\<close> for the names of \<open>added\<close>, and nothing
  else; a name in both sets gets no call. The world it leaves is the one the
  permission service makes of the world it found by these deletions followed
  by these installations, and the error it returns joins the failures of these
  deletions (none when no deletion failed). Counted by resource UID, for a
  \<open>NameToUid\<close> that maps different names to different UIDs: the deletion for
  the UID of a name occurs once when the name went away and never otherwise,
  the installation of defaults once when the name is new and never otherwise.
  And for a permission service that keeps a set of UIDs, from which a deletion
  removes its UID and to which an installation adds its UID: the set after the
  call is the set before it, less the UIDs of the names that went away, plus
  the UIDs of the names that are new.
\<close>

theorem cleanPermissions_reconciles:
  assumes "extractReceiverNames (ext moa) (ac_AlertmanagerConfiguration previousConfig) = Inr previousReceiverNames"
    and "\<forall>keys. mset (go_range (ext moa) keys) = mset keys"
    and "distinct newReceiverNames"
  shows "\<exists>ops deleted added.
     mset deleted = mset_set (set previousReceiverNames - set newReceiverNames) \<and>
     mset added = mset_set (set newReceiverNames - set previousReceiverNames) \<and>
     ops = map (\<lambda>n. Call_DeleteResourcePermissions orgID (NameToUid (ext moa) n)) deleted @
           map (\<lambda>n. Call_SetDefaultPermissions orgID (NameToUid (ext moa) n)) added \<and>
     calls (snd (cleanPermissions moa st orgID previousConfig newReceiverNames)) = calls st @ ops \<and>
     world (snd (cleanPermissions moa st orgID previousConfig newReceiverNames)) =
       defaults_effect moa orgID added (snd (deletions_effect moa orgID deleted (world st))) \<and>
     fst (cleanPermissions moa st orgID previousConfig newReceiverNames) =
       errors_Join (fst (deletions_effect moa orgID deleted (world st))) \<and>
     uid_calls (snd (cleanPermissions moa st orgID previousConfig newReceiverNames)) = uid_calls st \<and>
     mset ops =
       image_mset (\<lambda>n. Call_DeleteResourcePermissions orgID (NameToUid (ext moa) n))
         (mset_set (set previousReceiverNames - set newReceiverNames)) +
       image_mset (\<lambda>n. Call_SetDefaultPermissions orgID (NameToUid (ext moa) n))
         (mset_set (set newReceiverNames - set previousReceiverNames)) \<and>
     (inj (NameToUid (ext moa)) \<longrightarrow>
        (\<forall>name.
           count (mset ops) (Call_DeleteResourcePermissions orgID (NameToUid (ext moa) name)) =
             (if name \<in> set previousReceiverNames - set newReceiverNames then 1 else 0) \<and>
           count (mset ops) (Call_SetDefaultPermissions orgID (NameToUid (ext moa) name)) =
             (if name \<in> set newReceiverNames - set previousReceiverNames then 1 else 0))) \<and>
     (\<forall>perms :: 'w \<Rightarrow> string set.
        (\<forall>w uid. perms (snd (DeleteResourcePermissions moa w orgID uid)) = perms w - {uid}) \<and>
        (\<forall>w uid. perms (SetDefaultPermissions moa w orgID uid) = insert uid (perms w)) \<longrightarrow>
        perms (world (snd (cleanPermissions moa st orgID previousConfig newReceiverNames))) =
          perms (world st) - NameToUid (ext moa) ` (set previousReceiverNames - set newReceiverNames)
            \<union> NameToUid (ext moa) ` (set newReceiverNames - set previousReceiverNames))"
proof -
  let ?del = "\<lambda>n. Call_DeleteResourcePermissions orgID (NameToUid (ext moa) n)"
  let ?add = "\<lambda>n. Call_SetDefaultPermissions orgID (NameToUid (ext moa) n)"
  let ?deleted = "go_range (ext moa) (set_Difference previousReceiverNames newReceiverNames)"
  let ?added = "go_range (ext moa) (set_Difference newReceiverNames previousReceiverNames)"
  let ?ops = "map ?del ?deleted @ map ?add ?added"
  let ?R = "cleanPermissions moa st orgID previousConfig newReceiverNames"
  have dp: "distinct previousReceiverNames" using extractReceiverNames_distinct[OF assms(1)] .
  have perm: "mset (go_range (ext moa) keys) = mset keys" for keys
    using assms(2) by (rule spec)
  have md: "mset ?deleted = mset_set (set previousReceiverNames - set newReceiverNames)"
    by (simp only: perm mset_set_Difference[OF dp])
  have ma: "mset ?added = mset_set (set newReceiverNames - set previousReceiverNames)"
    by (simp only: perm mset_set_Difference[OF assms(3)])
  have "set_mset (mset ?deleted) = set previousReceiverNames - set newReceiverNames"
    unfolding md by simp
  then have sd: "set ?deleted = set previousReceiverNames - set newReceiverNames"
    by simp
  have "set_mset (mset ?added) = set newReceiverNames - set previousReceiverNames"
    unfolding ma by simp
  then have sa: "set ?added = set newReceiverNames - set previousReceiverNames"
    by simp
  have "mset ?ops = image_mset ?del (mset ?deleted) + image_mset ?add (mset ?added)"
    by simp
  then have m: "mset ?ops = image_mset ?del (mset_set (set previousReceiverNames - set newReceiverNames)) +
          image_mset ?add (mset_set (set newReceiverNames - set previousReceiverNames))"
    by (simp only: md ma)
  have c: "inj (NameToUid (ext moa)) \<longrightarrow>
        (\<forall>name.
           count (mset ?ops) (?del name) =
             (if name \<in> set previousReceiverNames - set newReceiverNames then 1 else 0) \<and>
           count (mset ?ops) (?add name) =
             (if name \<in> set newReceiverNames - set previousReceiverNames then 1 else 0))"
    using reconciled_counts[OF _ m] by blast
  note e = cleanPermissions_effect[OF assms(1), of st orgID newReceiverNames]
  have p: "perms (world (snd ?R)) =
          perms (world st) - NameToUid (ext moa) ` (set previousReceiverNames - set newReceiverNames)
            \<union> NameToUid (ext moa) ` (set newReceiverNames - set previousReceiverNames)"
    if h1: "\<forall>w uid. perms (snd (DeleteResourcePermissions moa w orgID uid)) = perms w - {uid}"
    and h2: "\<forall>w uid. perms (SetDefaultPermissions moa w orgID uid) = insert uid (perms w)"
    for perms :: "'w \<Rightarrow> string set"
  proof -
    have g1: "perms (snd (DeleteResourcePermissions moa w orgID uid)) = perms w - {uid}" for w uid
      using h1 by blast
    have g2: "perms (SetDefaultPermissions moa w orgID uid) = insert uid (perms w)" for w uid
      using h2 by blast
    have "perms (world (snd ?R)) =
            perms (defaults_effect moa orgID ?added (snd (deletions_effect moa orgID ?deleted (world st))))"
      using e by (simp only:)
    also have "\<dots> = perms (snd (deletions_effect moa orgID ?deleted (world st))) \<union>
                      NameToUid (ext moa) ` set ?added"
      by (rule defaults_permissions) (rule g2)
    also have "perms (snd (deletions_effect moa orgID ?deleted (world st))) =
                 perms (world st) - NameToUid (ext moa) ` set ?deleted"
      unfolding deletions_effect_def
      using deletions_permissions[of perms moa orgID ?deleted "([], world st)", OF g1]
      by (simp only: snd_conv)
    finally show ?thesis by (simp only: sd sa)
  qed
  note k = cleanPermissions_calls[OF assms(1), of st orgID newReceiverNames]
  show ?thesis
  proof (rule exI[of _ ?ops], rule exI[of _ ?deleted], rule exI[of _ ?added], intro conjI)
    show "mset ?deleted = mset_set (set previousReceiverNames - set newReceiverNames)" by (rule md)
    show "mset ?added = mset_set (set newReceiverNames - set previousReceiverNames)" by (rule ma)
    show "?ops = ?ops" by (rule refl)
    show "calls (snd ?R) = calls st @ ?ops" by (rule k)
    show "world (snd ?R) = defaults_effect moa orgID ?added (snd (deletions_effect moa orgID ?deleted (world st)))"
      using e by (rule conjunct1[OF conjunct2])
    show "fst ?R = errors_Join (fst (deletions_effect moa orgID ?deleted (world st)))"
      using e by (rule conjunct1)
    show "uid_calls (snd ?R) = uid_calls st"
      using e by (rule conjunct2[OF conjunct2])
    show "mset ?ops = image_mset ?del (mset_set (set previousReceiverNames - set newReceiverNames)) +
          image_mset ?add (mset_set (set newReceiverNames - set previousReceiverNames))" by (rule m)
    show "inj (NameToUid (ext moa)) \<longrightarrow>
        (\<forall>name.
           count (mset ?ops) (?del name) =
             (if name \<in> set previousReceiverNames - set newReceiverNames then 1 else 0) \<and>
           count (mset ?ops) (?add name) =
             (if name \<in> set newReceiverNames - set previousReceiverNames then 1 else 0))" by (rule c)
    show "\<forall>perms :: 'w \<Rightarrow> string set.
        (\<forall>w uid. perms (snd (DeleteResourcePermissions moa w orgID uid)) = perms w - {uid}) \<and>
        (\<forall>w uid. perms (SetDefaultPermissions moa w orgID uid) = insert uid (perms w)) \<longrightarrow>
        perms (world (snd ?R)) =
          perms (world st) - NameToUid (ext moa) ` (set previousReceiverNames - set newReceiverNames)
            \<union> NameToUid (ext moa) ` (set newReceiverNames - set previousReceiverNames)"
    proof (intro allI impI, elim conjE)
      fix perms :: "'w \<Rightarrow> string set"
      assume a: "\<forall>w uid. perms (snd (DeleteResourcePermissions moa w orgID uid)) = perms w - {uid}"
        and b: "\<forall>w uid. perms (SetDefaultPermissions moa w orgID uid) = insert uid (perms w)"
      from p[OF a b]
      show "perms (world (snd ?R)) =
          perms (world st) - NameToUid (ext moa) ` (set previousReceiverNames - set newReceiverNames)
            \<union> NameToUid (ext moa) ` (set newReceiverNames - set previousReceiverNames)" .
    qed
  qed
qed

text \<open>
  Claim C4. A configuration with at least one inhibition rule is rejected with
  the error for unsupported inhibition rules, and the call leaves everything as
  it was: the world of the collaborators, the record of calls (so no store
  read or write, no processing of secure settings and no application took
  place), the count of generated UIDs and the configuration itself.
\<close>

theorem SaveAndApplyAlertmanagerConfiguration_inhibit_rules:
  assumes "cfg_InhibitRules (pac_Config (puc_AlertmanagerConfig config)) \<noteq> []"
  shows "SaveAndApplyAlertmanagerConfiguration moa st org config =
           (Some (Error ''inhibition rules are not supported''), st, config)"
  using assms by (simp add: SaveAndApplyAlertmanagerConfiguration_def)

lemma SaveAndApplyAlertmanagerConfiguration_error_before_apply:
  assumes "SaveAndApplyAlertmanagerConfiguration moa st org config = (Some e, st', config')"
    and "calls st' = calls st @ evs"
  shows "Call_SaveAndApplyConfig org c None \<notin> set evs"
  using assms
  by (auto simp: SaveAndApplyAlertmanagerConfiguration_def Let_def emit_def log_cleanPermissionsErr_def
      split: if_splits option.splits prod.splits sum.splits)

lemma SaveAndApplyDefaultConfig_error_before_apply:
  assumes "SaveAndApplyDefaultConfig moa st org = (Some e, st')"
    and "calls st' = calls st @ evs"
  shows "Call_SaveAndApplyDefaultConfig org None \<notin> set evs"
  using assms
  by (auto simp: SaveAndApplyDefaultConfig_def Let_def emit_def log_cleanPermissionsErr_def
      split: if_splits option.splits prod.splits sum.splits)

lemma SaveAndApplyAlertmanagerConfiguration_logs_failure:
  assumes "cfg_InhibitRules (pac_Config (puc_AlertmanagerConfig config)) = []"
    and "GetLatestAlertmanagerConfiguration moa (world st) org = Inr previousConfig"
    and "ProcessSecureSettings moa (world st) org (pac_Receivers (puc_AlertmanagerConfig config)) = (None, rs1)"
    and "assignReceiverConfigsUIDs (receiver_Type moa) (GenerateShortUID moa) rs1 (uid_calls st) = (None, rs2, n)"
    and "unless_Is ErrAlertmanagerNotReady (AlertmanagerFor moa (world st) org) = None"
    and "am_SaveAndApplyConfig moa (world st) org (set_Receivers rs2 config) = (None, w)"
    and "cleanPermissions moa
           (st\<lparr>world := w, uid_calls := n,
               calls := calls st @
                 [Call_GetLatestAlertmanagerConfiguration org, Call_ProcessSecureSettings org,
                  Call_AlertmanagerFor org,
                  Call_SaveAndApplyConfig org (set_Receivers rs2 config) None]\<rparr>)
           org previousConfig (foldl set_Insert [] (map r_Name rs2)) = (Some err, st5)"
  shows "SaveAndApplyAlertmanagerConfiguration moa st org config =
           (None, emit (Log_Error ''Failed to clean permissions for receivers'' err) st5,
            set_Receivers rs2 config)"
proof -
  have eq: "(emit (Call_SaveAndApplyConfig org (set_Receivers rs2 config) None)
               (emit (Call_AlertmanagerFor org)
                  ((emit (Call_ProcessSecureSettings org)
                      (emit (Call_GetLatestAlertmanagerConfiguration org) st))\<lparr>uid_calls := n\<rparr>)))\<lparr>world := w\<rparr>
            = st\<lparr>world := w, uid_calls := n,
               calls := calls st @
                 [Call_GetLatestAlertmanagerConfiguration org, Call_ProcessSecureSettings org,
                  Call_AlertmanagerFor org,
                  Call_SaveAndApplyConfig org (set_Receivers rs2 config) None]\<rparr>"
    by (simp add: emit_def)
  have w: "world (emit c s) = world s" "uid_calls (emit c s) = uid_calls s" for c and s :: "'a state"
    by (simp_all add: emit_def)
  show ?thesis
    using assms(1-6)
    by (simp add: SaveAndApplyAlertmanagerConfiguration_def Let_def w unless_Is_def eq assms(7)
        log_cleanPermissionsErr_def)
qed

lemma SaveAndApplyDefaultConfig_logs_failure:
  assumes "alertmanagerForOrg moa (world st) org = None"
    and "GetLatestAlertmanagerConfiguration moa (world st) org = Inr previousConfig"
    and "am_SaveAndApplyDefaultConfig moa (world st) org = (None, w)"
    and "GetLatestAlertmanagerConfiguration moa w org = Inr defaultedConfig"
  shows "(\<forall>err. extractReceiverNames (ext moa) (ac_AlertmanagerConfiguration defaultedConfig) = Inl err \<longrightarrow>
            SaveAndApplyDefaultConfig moa st org =
              (None, emit (Log_Error ''Failed to clean permissions for receivers'' err)
                       (st\<lparr>world := w,
                           calls := calls st @
                             [Call_alertmanagerForOrg org, Call_GetLatestAlertmanagerConfiguration org,
                              Call_SaveAndApplyDefaultConfig org None,
                              Call_GetLatestAlertmanagerConfiguration org]\<rparr>))) \<and>
         (\<forall>newReceiverNames err st5.
            extractReceiverNames (ext moa) (ac_AlertmanagerConfiguration defaultedConfig) = Inr newReceiverNames \<and>
            cleanPermissions moa
              (st\<lparr>world := w,
                  calls := calls st @
                    [Call_alertmanagerForOrg org, Call_GetLatestAlertmanagerConfiguration org,
                     Call_SaveAndApplyDefaultConfig org None,
                     Call_GetLatestAlertmanagerConfiguration org]\<rparr>)
              org previousConfig newReceiverNames = (Some err, st5) \<longrightarrow>
            SaveAndApplyDefaultConfig moa st org =
              (None, emit (Log_Error ''Failed to clean permissions for receivers'' err) st5))"
proof -
  have eq: "emit (Call_GetLatestAlertmanagerConfiguration org)
              ((emit (Call_SaveAndApplyDefaultConfig org None)
                  (emit (Call_GetLatestAlertmanagerConfiguration org)
                     (emit (Call_alertmanagerForOrg org) st)))\<lparr>world := w\<rparr>)
            = st\<lparr>world := w,
                 calls := calls st @
                   [Call_alertmanagerForOrg org, Call_GetLatestAlertmanagerConfiguration org,
                    Call_SaveAndApplyDefaultConfig org None,
                    Call_GetLatestAlertmanagerConfiguration org]\<rparr>"
    by (simp add: emit_def)
  have w: "world (emit c s) = world s" for c and s :: "'a state"
    by (simp add: emit_def)
  have w2: "world (st\<lparr>world := w,
                 calls := calls st @
                   [Call_alertmanagerForOrg org, Call_GetLatestAlertmanagerConfiguration org,
                    Call_SaveAndApplyDefaultConfig org None,
                    Call_GetLatestAlertmanagerConfiguration org]\<rparr>) = w"
    by simp
  show ?thesis
    using assms
    by (simp add: SaveAndApplyDefaultConfig_def Let_def w eq w2 log_cleanPermissionsErr_def)
qed

text \<open>
  Claim C5. Whenever the call that writes and applies the configuration
  (\<^verbatim>\<open>SaveAndApplyConfig\<close>, \<^verbatim>\<open>SaveAndApplyDefaultConfig\<close> of the org's Alertmanager)
  was made during the operation and returned no error, the operation returns
  no error, whatever the permission reconciliation after it does (the first
  two parts, one for each operation). When the steps up to the write succeed
  and the reconciliation fails, in \<^verbatim>\<open>cleanPermissions\<close> or in the extraction of
  the receiver names before it, the operation returns no error and its last
  act is to log that error (the last two parts).
\<close>

theorem reconciliation_failure_not_returned:
  "(\<forall>r st' config' evs c.
      SaveAndApplyAlertmanagerConfiguration moa st org config = (r, st', config') \<and>
      calls st' = calls st @ evs \<and> Call_SaveAndApplyConfig org c None \<in> set evs \<longrightarrow> r = None) \<and>
   (\<forall>r st' evs.
      SaveAndApplyDefaultConfig moa st org = (r, st') \<and>
      calls st' = calls st @ evs \<and> Call_SaveAndApplyDefaultConfig org None \<in> set evs \<longrightarrow> r = None) \<and>
   (\<forall>previousConfig rs1 rs2 n w err st5.
      cfg_InhibitRules (pac_Config (puc_AlertmanagerConfig config)) = [] \<and>
      GetLatestAlertmanagerConfiguration moa (world st) org = Inr previousConfig \<and>
      ProcessSecureSettings moa (world st) org (pac_Receivers (puc_AlertmanagerConfig config)) = (None, rs1) \<and>
      assignReceiverConfigsUIDs (receiver_Type moa) (GenerateShortUID moa) rs1 (uid_calls st) = (None, rs2, n) \<and>
      unless_Is ErrAlertmanagerNotReady (AlertmanagerFor moa (world st) org) = None \<and>
      am_SaveAndApplyConfig moa (world st) org (set_Receivers rs2 config) = (None, w) \<and>
      cleanPermissions moa
        (st\<lparr>world := w, uid_calls := n,
            calls := calls st @
              [Call_GetLatestAlertmanagerConfiguration org, Call_ProcessSecureSettings org,
               Call_AlertmanagerFor org,
               Call_SaveAndApplyConfig org (set_Receivers rs2 config) None]\<rparr>)
        org previousConfig (foldl set_Insert [] (map r_Name rs2)) = (Some err, st5) \<longrightarrow>
      SaveAndApplyAlertmanagerConfiguration moa st org config =
        (None, emit (Log_Error ''Failed to clean permissions for receivers'' err) st5,
         set_Receivers rs2 config)) \<and>
   (\<forall>previousConfig w defaultedConfig.
      alertmanagerForOrg moa (world st) org = None \<and>
      GetLatestAlertmanagerConfiguration moa (world st) org = Inr previousConfig \<and>
      am_SaveAndApplyDefaultConfig moa (world st) org = (None, w) \<and>
      GetLatestAlertmanagerConfiguration moa w org = Inr defaultedConfig \<longrightarrow>
      (\<forall>err. extractReceiverNames (ext moa) (ac_AlertmanagerConfiguration defaultedConfig) = Inl err \<longrightarrow>
         SaveAndApplyDefaultConfig moa st org =
           (None, emit (Log_Error ''Failed to clean permissions for receivers'' err)
                    (st\<lparr>world := w,
                        calls := calls st @
                          [Call_alertmanagerForOrg org, Call_GetLatestAlertmanagerConfiguration org,
                           Call_SaveAndApplyDefaultConfig org None,
                           Call_GetLatestAlertmanagerConfiguration org]\<rparr>))) \<and>
      (\<forall>newReceiverNames err st5.
         extractReceiverNames (ext moa) (ac_AlertmanagerConfiguration defaultedConfig) = Inr newReceiverNames \<and>
         cleanPermissions moa
           (st\<lparr>world := w,
               calls := calls st @
                 [Call_alertmanagerForOrg org, Call_GetLatestAlertmanagerConfiguration org,
                  Call_SaveAndApplyDefaultConfig org None,
                  Call_GetLatestAlertmanagerConfiguration org]\<rparr>)
           org previousConfig newReceiverNames = (Some err, st5) \<longrightarrow>
         SaveAndApplyDefaultConfig moa st org =
           (None, emit (Log_Error ''Failed to clean permissions for receivers'' err) st5)))"
proof (intro conjI)
  show "\<forall>r st' config' evs c.
      SaveAndApplyAlertmanagerConfiguration moa st org config = (r, st', config') \<and>
      calls st' = calls st @ evs \<and> Call_SaveAndApplyConfig org c None \<in> set evs \<longrightarrow> r = None"
  proof (intro allI impI)
    fix r st' config' evs c
    assume h: "SaveAndApplyAlertmanagerConfiguration moa st org config = (r, st', config') \<and>
        calls st' = calls st @ evs \<and> Call_SaveAndApplyConfig org c None \<in> set evs"
    show "r = None"
    proof (cases r)
      case None
      then show ?thesis .
    next
      case (Some e)
      with h SaveAndApplyAlertmanagerConfiguration_error_before_apply[of moa st org config e st' config' evs c]
      show ?thesis by simp
    qed
  qed
next
  show "\<forall>r st' evs.
      SaveAndApplyDefaultConfig moa st org = (r, st') \<and>
      calls st' = calls st @ evs \<and> Call_SaveAndApplyDefaultConfig org None \<in> set evs \<longrightarrow> r = None"
  proof (intro allI impI)
    fix r st' evs
    assume h: "SaveAndApplyDefaultConfig moa st org = (r, st') \<and>
        calls st' = calls st @ evs \<and> Call_SaveAndApplyDefaultConfig org None \<in> set evs"
    show "r = None"
    proof (cases r)
      case None
      then show ?thesis .
    next
      case (Some e)
      with h SaveAndApplyDefaultConfig_error_before_apply[of moa st org e st' evs]
      show ?thesis by simp
    qed
  qed
next
  show "\<forall>previousConfig rs1 rs2 n w err st5.
      cfg_InhibitRules (pac_Config (puc_AlertmanagerConfig config)) = [] \<and>
      GetLatestAlertmanagerConfiguration moa (world st) org = Inr previousConfig \<and>
      ProcessSecureSettings moa (world st) org (pac_Receivers (puc_AlertmanagerConfig config)) = (None, rs1) \<and>
      assignReceiverConfigsUIDs (receiver_Type moa) (GenerateShortUID moa) rs1 (uid_calls st) = (None, rs2, n) \<and>
      unless_Is ErrAlertmanagerNotReady (AlertmanagerFor moa (world st) org) = None \<and>
      am_SaveAndApplyConfig moa (world st) org (set_Receivers rs2 config) = (None, w) \<and>
      cleanPermissions moa
        (st\<lparr>world := w, uid_calls := n,
            calls := calls st @
              [Call_GetLatestAlertmanagerConfiguration org, Call_ProcessSecureSettings org,
               Call_AlertmanagerFor org,
               Call_SaveAndApplyConfig org (set_Receivers rs2 config) None]\<rparr>)
        org previousConfig (foldl set_Insert [] (map r_Name rs2)) = (Some err, st5) \<longrightarrow>
      SaveAndApplyAlertmanagerConfiguration moa st org config =
        (None, emit (Log_Error ''Failed to clean permissions for receivers'' err) st5,
         set_Receivers rs2 config)"
    using SaveAndApplyAlertmanagerConfiguration_logs_failure[of config moa st org] by blast
next
  show "\<forall>previousConfig w defaultedConfig.
      alertmanagerForOrg moa (world st) org = None \<and>
      GetLatestAlertmanagerConfiguration moa (world st) org = Inr previousConfig \<and>
      am_SaveAndApplyDefaultConfig moa (world st) org = (None, w) \<and>
      GetLatestAlertmanagerConfiguration moa w org = Inr defaultedConfig \<longrightarrow>
      (\<forall>err. extractReceiverNames (ext moa) (ac_AlertmanagerConfiguration defaultedConfig) = Inl err \<longrightarrow>
         SaveAndApplyDefaultConfig moa st org =
           (None, emit (Log_Error ''Failed to clean permissions for receivers'' err)
                    (st\<lparr>world := w,
                        calls := calls st @
                          [Call_alertmanagerForOrg org, Call_GetLatestAlertmanagerConfiguration org,
                           Call_SaveAndApplyDefaultConfig org None,
                           Call_GetLatestAlertmanagerConfiguration org]\<rparr>))) \<and>
      (\<forall>newReceiverNames err st5.
         extractReceiverNames (ext moa) (ac_AlertmanagerConfiguration defaultedConfig) = Inr newReceiverNames \<and>
         cleanPermissions moa
           (st\<lparr>world := w,
               calls := calls st @
                 [Call_alertmanagerForOrg org, Call_GetLatestAlertmanagerConfiguration org,
                  Call_SaveAndApplyDefaultConfig org None,
                  Call_GetLatestAlertmanagerConfiguration org]\<rparr>)
           org previousConfig newReceiverNames = (Some err, st5) \<longrightarrow>
         SaveAndApplyDefaultConfig moa st org =
           (None, emit (Log_Error ''Failed to clean permissions for receivers'' err) st5))"
    using SaveAndApplyDefaultConfig_logs_failure[of moa st org] by blast
qed

lemma save_modifyFunc_conflict:
  "\<exists>c\<in>set cs. ec_Identifier c \<noteq> ec_Identifier extraConfig \<Longrightarrow>
     \<exists>c\<in>set cs. ec_Identifier c \<noteq> ec_Identifier extraConfig \<and>
        save_modifyFunc extraConfig cs =
          Inl (ErrAlertmanagerMultipleExtraConfigsUnsupported (ec_Identifier c))"
proof (induction cs)
  case Nil
  then show ?case by simp
next
  case (Cons a cs)
  show ?case
  proof (cases "ec_Identifier a \<noteq> ec_Identifier extraConfig")
    case True
    then have "save_modifyFunc extraConfig (a # cs) =
                 Inl (ErrAlertmanagerMultipleExtraConfigsUnsupported (ec_Identifier a))"
      by (simp only: save_modifyFunc.simps simp_thms if_True)
    moreover have "a \<in> set (a # cs)" by simp
    ultimately show ?thesis using True by blast
  next
    case False
    with Cons.prems have "\<exists>c\<in>set cs. ec_Identifier c \<noteq> ec_Identifier extraConfig"
      by (metis set_ConsD)
    from Cons.IH[OF this] obtain c where
      c: "c \<in> set cs" "ec_Identifier c \<noteq> ec_Identifier extraConfig"
         "save_modifyFunc extraConfig cs =
            Inl (ErrAlertmanagerMultipleExtraConfigsUnsupported (ec_Identifier c))"
      by blast
    from False have "save_modifyFunc extraConfig (a # cs) = save_modifyFunc extraConfig cs"
      by (simp only: save_modifyFunc.simps simp_thms if_False)
    with c(3) have "save_modifyFunc extraConfig (a # cs) =
            Inl (ErrAlertmanagerMultipleExtraConfigsUnsupported (ec_Identifier c))"
      by (simp only:)
    moreover have "c \<in> set (a # cs)" using c(1) by simp
    ultimately show ?thesis using c(2) by blast
  qed
qed

lemma save_modifyFunc_same:
  "\<forall>c\<in>set cs. ec_Identifier c = ec_Identifier extraConfig \<Longrightarrow>
     save_modifyFunc extraConfig cs = Inr [extraConfig]"
proof (induction cs)
  case Nil
  show ?case by (simp only: save_modifyFunc.simps)
next
  case (Cons a cs)
  have a: "ec_Identifier a = ec_Identifier extraConfig" using Cons.prems by (metis list.set_intros(1))
  have "\<forall>c\<in>set cs. ec_Identifier c = ec_Identifier extraConfig"
    using Cons.prems by (metis list.set_intros(2))
  from Cons.IH[OF this] have r: "save_modifyFunc extraConfig cs = Inr [extraConfig]" .
  from a have "save_modifyFunc extraConfig (a # cs) = save_modifyFunc extraConfig cs"
    by (simp only: save_modifyFunc.simps not_not if_False simp_thms)
  with r show ?case by (simp only:)
qed

text \<open>
  Claim C6. Let the current configuration of the org load and hold at least one
  extra configuration. If one of them has an identifier other than that of the
  extra configuration supplied, \<^verbatim>\<open>SaveAndApplyExtraConfiguration\<close> fails with the
  conflict error naming such an existing identifier, having made only the read
  of the current configuration (the world is unchanged). If all of them have
  the identifier supplied and the Alertmanager accepts the configuration, it
  succeeds, and the configuration written has the supplied extra
  configuration as its only one.
\<close>

theorem SaveAndApplyExtraConfiguration_single:
  assumes "GetLatestAlertmanagerConfiguration moa (world st) org = Inr currentCfg"
    and "Load moa (ac_AlertmanagerConfiguration currentCfg) = Inr cfg"
    and "puc_ExtraConfigs cfg \<noteq> []"
  shows "((\<exists>c\<in>set (puc_ExtraConfigs cfg). ec_Identifier c \<noteq> ec_Identifier extraConfig) \<longrightarrow>
            (\<exists>c\<in>set (puc_ExtraConfigs cfg). ec_Identifier c \<noteq> ec_Identifier extraConfig \<and>
               SaveAndApplyExtraConfiguration moa st org extraConfig =
                 (Some (Wrapped ''failed to apply extra configuration''
                          (ErrAlertmanagerMultipleExtraConfigsUnsupported (ec_Identifier c))),
                  st\<lparr>calls := calls st @ [Call_GetLatestAlertmanagerConfiguration org]\<rparr>))) \<and>
         ((\<forall>c\<in>set (puc_ExtraConfigs cfg). ec_Identifier c = ec_Identifier extraConfig) \<and>
          unless_Is ErrAlertmanagerNotReady (AlertmanagerFor moa (world st) org) = None \<and>
          am_SaveAndApplyConfig moa (world st) org (cfg\<lparr>puc_ExtraConfigs := [extraConfig]\<rparr>) = (None, w)
          \<longrightarrow>
            SaveAndApplyExtraConfiguration moa st org extraConfig =
              (None,
               st\<lparr>world := w,
                  calls := calls st @
                    [Call_GetLatestAlertmanagerConfiguration org, Call_AlertmanagerFor org,
                     Call_SaveAndApplyConfig org (cfg\<lparr>puc_ExtraConfigs := [extraConfig]\<rparr>) None,
                     Log_Info ''Applied alertmanager configuration with extra config'',
                     Log_Info ''Applied alertmanager configuration with extra config'']\<rparr>))"
proof (intro conjI impI)
  assume "\<exists>c\<in>set (puc_ExtraConfigs cfg). ec_Identifier c \<noteq> ec_Identifier extraConfig"
  from save_modifyFunc_conflict[OF this] obtain c where
    c: "c \<in> set (puc_ExtraConfigs cfg)" "ec_Identifier c \<noteq> ec_Identifier extraConfig"
       "save_modifyFunc extraConfig (puc_ExtraConfigs cfg) =
          Inl (ErrAlertmanagerMultipleExtraConfigsUnsupported (ec_Identifier c))"
    by blast
  have "SaveAndApplyExtraConfiguration moa st org extraConfig =
          (Some (Wrapped ''failed to apply extra configuration''
                   (ErrAlertmanagerMultipleExtraConfigsUnsupported (ec_Identifier c))),
           st\<lparr>calls := calls st @ [Call_GetLatestAlertmanagerConfiguration org]\<rparr>)"
    using assms(1,2) c(3)
    by (simp add: SaveAndApplyExtraConfiguration_def modifyAndApplyExtraConfiguration_def Let_def emit_def)
  with c(1,2) show "\<exists>c\<in>set (puc_ExtraConfigs cfg). ec_Identifier c \<noteq> ec_Identifier extraConfig \<and>
               SaveAndApplyExtraConfiguration moa st org extraConfig =
                 (Some (Wrapped ''failed to apply extra configuration''
                          (ErrAlertmanagerMultipleExtraConfigsUnsupported (ec_Identifier c))),
                  st\<lparr>calls := calls st @ [Call_GetLatestAlertmanagerConfiguration org]\<rparr>)"
    by blast
next
  assume h: "(\<forall>c\<in>set (puc_ExtraConfigs cfg). ec_Identifier c = ec_Identifier extraConfig) \<and>
          unless_Is ErrAlertmanagerNotReady (AlertmanagerFor moa (world st) org) = None \<and>
          am_SaveAndApplyConfig moa (world st) org (cfg\<lparr>puc_ExtraConfigs := [extraConfig]\<rparr>) = (None, w)"
  then have m: "save_modifyFunc extraConfig (puc_ExtraConfigs cfg) = Inr [extraConfig]"
    using save_modifyFunc_same by blast
  show "SaveAndApplyExtraConfiguration moa st org extraConfig =
              (None,
               st\<lparr>world := w,
                  calls := calls st @
                    [Call_GetLatestAlertmanagerConfiguration org, Call_AlertmanagerFor org,
                     Call_SaveAndApplyConfig org (cfg\<lparr>puc_ExtraConfigs := [extraConfig]\<rparr>) None,
                     Log_Info ''Applied alertmanager configuration with extra config'',
                     Log_Info ''Applied alertmanager configuration with extra config'']\<rparr>)"
    using assms(1,2) m h
    by (simp add: SaveAndApplyExtraConfiguration_def modifyAndApplyExtraConfiguration_def Let_def emit_def)
qed

lemma mergeProvenance_template_failure:
  assumes "cfg_Route (gac_Config (guc_AlertmanagerConfig config)) = Some route"
    and "GetProvenance moa (world st) route org = Inr p"
    and "GetProvenances moa (world st) org ContactPointResource = Inr cpProvs"
    and "GetProvenances moa (world st) org TemplateResource = Inl err"
  shows "fst (mergeProvenance moa st config org) = Inr empty_GettableUserConfig"
  using assms by (simp add: mergeProvenance_def Let_def emit_def)

lemma mergeProvenance_mute_time_failure:
  assumes "cfg_Route (gac_Config (guc_AlertmanagerConfig config)) = Some route"
    and "GetProvenance moa (world st) route org = Inr p"
    and "GetProvenances moa (world st) org ContactPointResource = Inr cpProvs"
    and "GetProvenances moa (world st) org TemplateResource = Inr tmplProvs"
    and "GetProvenances moa (world st) org MuteTimeResource = Inl err"
  shows "fst (mergeProvenance moa st config org) = Inr empty_GettableUserConfig"
  using assms by (simp add: mergeProvenance_def Let_def emit_def)

lemma example_names: "extractReceiverNames example_ext (names_document [''A'', ''B'', ''C'']) = Inr [''A'', ''B'', ''C'']"
  by code_simp

lemma example_moa_ext: "ext (example_moa extras) = example_ext"
  by (simp add: example_moa_def)

lemma mset_single_list: "mset xs = {#a#} \<Longrightarrow> xs = [a]"
  by (cases xs) auto

lemma example_permissions_moa_ext: "ext example_permissions_moa = example_ext"
  by (simp add: example_permissions_moa_def example_moa_def)

text \<open>
  For claim C1: previous receivers A, B, C, which have permissions, and new
  receivers B, C, D give one deletion for A and one installation of defaults
  for D; afterwards B, C and D have permissions, and no error is returned.
\<close>

theorem cleanPermissions_reconciles_witness:
  "extractReceiverNames (ext example_permissions_moa) (names_document [''A'', ''B'', ''C'']) = Inr [''A'', ''B'', ''C''] \<and>
   distinct [''B'', ''C'', ''D''] \<and>
   calls (snd (cleanPermissions example_permissions_moa (example_permissions_state [''A'', ''B'', ''C'']) 1
              \<lparr>ac_ID = 1, ac_AlertmanagerConfiguration = names_document [''A'', ''B'', ''C'']\<rparr>
              [''B'', ''C'', ''D''])) =
     [Call_DeleteResourcePermissions 1 ''uid-A'', Call_SetDefaultPermissions 1 ''uid-D''] \<and>
   ew_permissions (world (snd (cleanPermissions example_permissions_moa (example_permissions_state [''A'', ''B'', ''C'']) 1
              \<lparr>ac_ID = 1, ac_AlertmanagerConfiguration = names_document [''A'', ''B'', ''C'']\<rparr>
              [''B'', ''C'', ''D'']))) = [''uid-B'', ''uid-C'', ''uid-D''] \<and>
   fst (cleanPermissions example_permissions_moa (example_permissions_state [''A'', ''B'', ''C'']) 1
              \<lparr>ac_ID = 1, ac_AlertmanagerConfiguration = names_document [''A'', ''B'', ''C'']\<rparr>
              [''B'', ''C'', ''D'']) = None"
proof -
  let ?prev = "\<lparr>ac_ID = 1, ac_AlertmanagerConfiguration = names_document [''A'', ''B'', ''C'']\<rparr>"
  let ?st = "example_permissions_state [''A'', ''B'', ''C'']"
  let ?R = "cleanPermissions example_permissions_moa ?st 1 ?prev [''B'', ''C'', ''D'']"
  have h1: "extractReceiverNames (ext example_permissions_moa) (ac_AlertmanagerConfiguration ?prev)
              = Inr [''A'', ''B'', ''C'']"
    by (simp add: example_permissions_moa_ext example_names)
  have h2: "\<forall>keys. mset (go_range (ext example_permissions_moa) keys) = mset keys"
    by (simp add: example_permissions_moa_ext example_ext_def)
  have h3: "distinct [''B'', ''C'', ''D'']" by simp
  have d1: "set [''A'', ''B'', ''C''] - set [''B'', ''C'', ''D''] = {''A''}" by auto
  have d2: "set [''B'', ''C'', ''D''] - set [''A'', ''B'', ''C''] = {''D''}" by auto
  from cleanPermissions_reconciles[OF h1 h2 h3, where st = ?st and orgID = 1]
  obtain ops deleted added where
    o: "mset deleted = mset_set (set [''A'', ''B'', ''C''] - set [''B'', ''C'', ''D''])"
       "mset added = mset_set (set [''B'', ''C'', ''D''] - set [''A'', ''B'', ''C''])"
       "ops = map (\<lambda>n. Call_DeleteResourcePermissions 1 (NameToUid (ext example_permissions_moa) n)) deleted @
              map (\<lambda>n. Call_SetDefaultPermissions 1 (NameToUid (ext example_permissions_moa) n)) added"
       "calls (snd ?R) = calls ?st @ ops"
       "world (snd ?R) =
          defaults_effect example_permissions_moa 1 added
            (snd (deletions_effect example_permissions_moa 1 deleted (world ?st)))"
       "fst ?R = errors_Join (fst (deletions_effect example_permissions_moa 1 deleted (world ?st)))"
    by (elim exE conjE) (rule that, assumption+)
  from o(1) have dl: "deleted = [''A'']" unfolding d1 by (simp add: mset_single_list)
  from o(2) have ad: "added = [''D'']" unfolding d2 by (simp add: mset_single_list)
  have del: "deletions_effect example_permissions_moa 1 [''A''] (world ?st) =
          ([], \<lparr>ew_latest = Some ?prev, ew_permissions = [''uid-B'', ''uid-C'']\<rparr>)"
    by (simp add: deletions_effect_def deletion_effect_def example_permissions_moa_def example_moa_def
        example_permissions_state_def example_ext_def)
  have c: "calls (snd ?R) = [Call_DeleteResourcePermissions 1 ''uid-A'', Call_SetDefaultPermissions 1 ''uid-D'']"
    using o(4) unfolding o(3) dl ad
    by (simp add: example_permissions_moa_ext example_ext_def example_permissions_state_def)
  have w: "ew_permissions (world (snd ?R)) = [''uid-B'', ''uid-C'', ''uid-D'']"
    unfolding o(5) dl ad del
    by (simp add: defaults_effect_def example_permissions_moa_def example_moa_def example_ext_def)
  have e: "fst ?R = None"
    unfolding o(6) dl del by (simp add: errors_Join_def)
  from h1 h3 c w e show ?thesis by simp
qed

text \<open>
  For claim C4: a configuration with one inhibition rule.
\<close>

theorem SaveAndApplyAlertmanagerConfiguration_inhibit_rules_witness:
  "cfg_InhibitRules (pac_Config (puc_AlertmanagerConfig example_inhibiting)) \<noteq> [] \<and>
   SaveAndApplyAlertmanagerConfiguration (example_moa []) (example_state [''A'']) 1 example_inhibiting =
     (Some (Error ''inhibition rules are not supported''), example_state [''A''], example_inhibiting)"
proof -
  have h: "cfg_InhibitRules (pac_Config (puc_AlertmanagerConfig example_inhibiting)) \<noteq> []"
    by (simp add: example_inhibiting_def)
  from SaveAndApplyAlertmanagerConfiguration_inhibit_rules[OF h] h show ?thesis by simp
qed

lemma example_save_calls_eq:
  "calls (fst (snd example_save)) = calls (example_state [''A'', ''B'', ''C'']) @ example_save_calls"
  by code_simp

lemma example_default_calls:
  "calls (snd (SaveAndApplyDefaultConfig (example_moa []) (example_state [''A'', ''B'', ''C'']) 1)) =
     calls (example_state [''A'', ''B'', ''C'']) @
     [Call_alertmanagerForOrg 1, Call_GetLatestAlertmanagerConfiguration 1,
      Call_SaveAndApplyDefaultConfig 1 None, Call_GetLatestAlertmanagerConfiguration 1,
      Call_DeleteResourcePermissions 1 ''uid-C'', Call_DeleteResourcePermissions 1 ''uid-B'',
      Call_DeleteResourcePermissions 1 ''uid-A'',
      Call_SetDefaultPermissions 1 ''uid-grafana-default-email'',
      Log_Error ''Failed to clean permissions for receivers''
        (Joined
           [Wrapped ''failed to delete permissions for receiver C''
              (Error ''permission service unavailable''),
            Wrapped ''failed to delete permissions for receiver B''
              (Error ''permission service unavailable''),
            Wrapped ''failed to delete permissions for receiver A''
              (Error ''permission service unavailable'')])]"
  by code_simp

text \<open>
  For claim C5: both operations on a store that holds receivers A, B, C, with a
  permission service whose deletions fail. Each returns no error, and the
  failure of the reconciliation is the last entry of the record of calls.
\<close>

theorem reconciliation_failure_not_returned_witness:
  "fst (SaveAndApplyDefaultConfig (example_moa []) (example_state [''A'', ''B'', ''C'']) 1) = None \<and>
   fst example_save = None \<and>
   Call_SaveAndApplyConfig 1 example_saved_config None \<in> set example_save_calls \<and>
   Log_Error ''Failed to clean permissions for receivers''
     (Joined [Wrapped ''failed to delete permissions for receiver A''
                (Error ''permission service unavailable'')]) \<in> set example_save_calls \<and>
   calls (fst (snd example_save)) = example_save_calls"
proof -
  have run: "SaveAndApplyAlertmanagerConfiguration (example_moa []) (example_state [''A'', ''B'', ''C'']) 1
       (example_config [''B'', ''C'', ''D''] []) = (fst example_save, fst (snd example_save), snd (snd example_save))"
    by (simp add: example_save_def)
  have m: "Call_SaveAndApplyConfig 1 example_saved_config None \<in> set example_save_calls"
    by (simp add: example_save_calls_def)
  have l: "Log_Error ''Failed to clean permissions for receivers''
     (Joined [Wrapped ''failed to delete permissions for receiver A''
                (Error ''permission service unavailable'')]) \<in> set example_save_calls"
    by (simp add: example_save_calls_def)
  from reconciliation_failure_not_returned[of "example_moa []" "example_state [''A'', ''B'', ''C'']" 1
      "example_config [''B'', ''C'', ''D''] []", THEN conjunct1]
  have s: "fst example_save = None" using run example_save_calls_eq m by blast
  have rund: "SaveAndApplyDefaultConfig (example_moa []) (example_state [''A'', ''B'', ''C'']) 1 =
      (fst (SaveAndApplyDefaultConfig (example_moa []) (example_state [''A'', ''B'', ''C'']) 1),
       snd (SaveAndApplyDefaultConfig (example_moa []) (example_state [''A'', ''B'', ''C'']) 1))"
    by simp
  from reconciliation_failure_not_returned[of "example_moa []" "example_state [''A'', ''B'', ''C'']" 1
      "example_config [''B'', ''C'', ''D''] []", THEN conjunct2, THEN conjunct1, rule_format,
      OF conjI [OF rund conjI [OF example_default_calls]]]
  have d: "fst (SaveAndApplyDefaultConfig (example_moa []) (example_state [''A'', ''B'', ''C'']) 1) = None"
    by simp
  have "calls (fst (snd example_save)) = example_save_calls"
    using example_save_calls_eq by (simp add: example_state_def)
  with s d show ?thesis using m l by simp
qed

lemma example_GetLatest:
  "GetLatestAlertmanagerConfiguration (example_moa extras) (world (example_state names)) org =
     Inr \<lparr>ac_ID = 1, ac_AlertmanagerConfiguration = names_document names\<rparr>"
  by (simp add: example_moa_def example_state_def)

lemma example_Load_names:
  "Load (example_moa extras) (names_document [''A'', ''B'', ''C'']) =
     Inr (example_config [''A'', ''B'', ''C''] extras)"
  by (simp add: example_moa_def example_Load_def example_names)

text \<open>
  For claim C6: the current configuration holds the extra configuration
  \<open>mimir\<close>; supplying \<open>cortex\<close> is a conflict naming \<open>mimir\<close>, supplying \<open>mimir\<close>
  again replaces it.
\<close>

theorem SaveAndApplyExtraConfiguration_single_witness:
  "puc_ExtraConfigs (example_config [''A'', ''B'', ''C''] [example_mimir]) \<noteq> [] \<and>
   SaveAndApplyExtraConfiguration (example_moa [example_mimir]) (example_state [''A'', ''B'', ''C'']) 1
       \<lparr>ec_Identifier = ''cortex'', ec_body = ''new''\<rparr> =
     (Some (Wrapped ''failed to apply extra configuration''
              (ErrAlertmanagerMultipleExtraConfigsUnsupported ''mimir'')),
      (example_state [''A'', ''B'', ''C''])\<lparr>calls := [Call_GetLatestAlertmanagerConfiguration 1]\<rparr>) \<and>
   fst (SaveAndApplyExtraConfiguration (example_moa [example_mimir]) (example_state [''A'', ''B'', ''C'']) 1
       \<lparr>ec_Identifier = ''mimir'', ec_body = ''new''\<rparr>) = None \<and>
   Call_SaveAndApplyConfig 1
     ((example_config [''A'', ''B'', ''C''] [example_mimir])
        \<lparr>puc_ExtraConfigs := [\<lparr>ec_Identifier = ''mimir'', ec_body = ''new''\<rparr>]\<rparr>) None
     \<in> set (calls (snd (SaveAndApplyExtraConfiguration (example_moa [example_mimir])
                           (example_state [''A'', ''B'', ''C'']) 1
                           \<lparr>ec_Identifier = ''mimir'', ec_body = ''new''\<rparr>)))"
proof -
  let ?moa = "example_moa [example_mimir]" and ?st = "example_state [''A'', ''B'', ''C'']"
  let ?cfg = "example_config [''A'', ''B'', ''C''] [example_mimir]"
  note h1 = example_GetLatest[of "[example_mimir]" "[''A'', ''B'', ''C'']" 1]
  have h2: "Load ?moa (ac_AlertmanagerConfiguration
              \<lparr>ac_ID = 1, ac_AlertmanagerConfiguration = names_document [''A'', ''B'', ''C'']\<rparr>) = Inr ?cfg"
    by (simp add: example_Load_names)
  have h3: "puc_ExtraConfigs ?cfg \<noteq> []" by (simp add: example_config_def)
  have ex: "puc_ExtraConfigs ?cfg = [example_mimir]" by (simp add: example_config_def)
  note t1 = SaveAndApplyExtraConfiguration_single[OF h1 h2 h3,
      of "\<lparr>ec_Identifier = ''cortex'', ec_body = ''new''\<rparr>"]
  have c1: "SaveAndApplyExtraConfiguration ?moa ?st 1 \<lparr>ec_Identifier = ''cortex'', ec_body = ''new''\<rparr> =
     (Some (Wrapped ''failed to apply extra configuration''
              (ErrAlertmanagerMultipleExtraConfigsUnsupported ''mimir'')),
      ?st\<lparr>calls := [Call_GetLatestAlertmanagerConfiguration 1]\<rparr>)"
    using t1[THEN conjunct1, unfolded ex] by (simp add: example_mimir_def example_state_def)
  let ?w = "(world ?st)\<lparr>ew_latest := Some \<lparr>ac_ID = 2, ac_AlertmanagerConfiguration =
              names_document [''A'', ''B'', ''C'']\<rparr>\<rparr>"
  note t2 = SaveAndApplyExtraConfiguration_single[OF h1 h2 h3,
      of "\<lparr>ec_Identifier = ''mimir'', ec_body = ''new''\<rparr>" ?w]
  have a: "unless_Is ErrAlertmanagerNotReady (AlertmanagerFor ?moa (world ?st) 1) = None"
    by (simp add: unless_Is_def example_moa_def)
  have b: "am_SaveAndApplyConfig ?moa (world ?st) 1
             (?cfg\<lparr>puc_ExtraConfigs := [\<lparr>ec_Identifier = ''mimir'', ec_body = ''new''\<rparr>]\<rparr>) = (None, ?w)"
    by (simp add: example_moa_def example_config_def)
  have s: "\<forall>c\<in>set (puc_ExtraConfigs ?cfg). ec_Identifier c = ec_Identifier \<lparr>ec_Identifier = ''mimir'', ec_body = ''new''\<rparr>"
    unfolding ex by (simp add: example_mimir_def)
  from t2[THEN conjunct2] s a b
  have c2: "SaveAndApplyExtraConfiguration ?moa ?st 1 \<lparr>ec_Identifier = ''mimir'', ec_body = ''new''\<rparr> =
              (None,
               ?st\<lparr>world := ?w,
                  calls := calls ?st @
                    [Call_GetLatestAlertmanagerConfiguration 1, Call_AlertmanagerFor 1,
                     Call_SaveAndApplyConfig 1 (?cfg\<lparr>puc_ExtraConfigs := [\<lparr>ec_Identifier = ''mimir'', ec_body = ''new''\<rparr>]\<rparr>) None,
                     Log_Info ''Applied alertmanager configuration with extra config'',
                     Log_Info ''Applied alertmanager configuration with extra config'']\<rparr>)"
    by blast
  show ?thesis
    unfolding c1 c2 using h3 by simp
qed

lemma example_fields:
  "DecryptExtraConfigs (example_moa extras) w cfg = (None, cfg)"
  "EncryptReceiverConfigSettings (example_moa extras) w rs = (None, rs)"
  "GetProvenance (example_moa extras) w route org = Inr ''api''"
  "GetProvenances (example_moa extras) w org ContactPointResource = Inr Map.empty"
  "GetProvenances (example_moa extras) w org TemplateResource = Inl (Error ''database is locked'')"
  by (simp_all add: example_moa_def)

lemma example_gettable_receivers:
  "\<exists>receivers. gettable_receivers (example_moa extras)
      (pac_Receivers (puc_AlertmanagerConfig (example_config [''A'', ''B'', ''C''] extras))) st
        = (Inr receivers, st)"
  by (simp add: example_config_def mk_gr_def example_moa_ext example_ext_def)

text \<open>
  Concerning claim C9: the last two reads of \<^verbatim>\<open>mergeProvenance\<close> return a nil
  error when they fail. With a provenance store that cannot list the
  provenances of templates, \<^verbatim>\<open>GetAlertmanagerConfiguration\<close> returns the zero
  configuration and no error, although the stored configuration has three
  receivers and a route.
\<close>

theorem GetAlertmanagerConfiguration_swallows_template_failure:
  "GetProvenances (example_moa []) (world (example_state [''A'', ''B'', ''C''])) 1 TemplateResource
     = Inl (Error ''database is locked'') \<and>
   fst (GetAlertmanagerConfiguration (example_moa []) (example_state [''A'', ''B'', ''C'']) 1 False)
     = Inr empty_GettableUserConfig"
proof -
  let ?moa = "example_moa []" and ?st = "example_state [''A'', ''B'', ''C'']"
  let ?cfg = "example_config [''A'', ''B'', ''C''] []"
  let ?st2 = "emit Call_EncryptReceiverConfigSettings
                (emit Call_DecryptExtraConfigs (emit (Call_GetLatestAlertmanagerConfiguration 1) ?st))"
  obtain receivers where
    r: "gettable_receivers ?moa (pac_Receivers (puc_AlertmanagerConfig ?cfg)) ?st2 = (Inr receivers, ?st2)"
    using example_gettable_receivers by blast
  let ?result = "set_Gettable_Receivers receivers
                   \<lparr>guc_TemplateFiles = puc_TemplateFiles ?cfg,
                    guc_TemplateFileProvenances = Map.empty,
                    guc_AlertmanagerConfig =
                      \<lparr>gac_Config = pac_Config (puc_AlertmanagerConfig ?cfg),
                       gac_MuteTimeProvenances = Map.empty, gac_Receivers = []\<rparr>,
                    guc_ExtraConfigs = puc_ExtraConfigs ?cfg\<rparr>"
  have route: "cfg_Route (gac_Config (guc_AlertmanagerConfig ?result))
                 = Some \<lparr>route_Receiver = ''A'', route_tree = '''', route_Provenance = ProvenanceNone\<rparr>"
    by (simp add: set_Gettable_Receivers_def example_config_def)
  have m: "fst (mergeProvenance ?moa ?st2 ?result 1) = Inr empty_GettableUserConfig"
    by (rule mergeProvenance_template_failure[OF route]) (rule example_fields)+
  have g: "gettableUserConfigFromAMConfigString ?moa (emit (Call_GetLatestAlertmanagerConfiguration 1) ?st) 1
             (names_document [''A'', ''B'', ''C'']) = mergeProvenance ?moa ?st2 ?result 1"
    using r by (simp add: gettableUserConfigFromAMConfigString_def example_Load_names example_fields Let_def)
  have w: "world (emit (Call_GetLatestAlertmanagerConfiguration 1) ?st) = world ?st"
    by (simp add: emit_def)
  have "fst (GetAlertmanagerConfiguration ?moa ?st 1 False) = fst (mergeProvenance ?moa ?st2 ?result 1)"
    using example_GetLatest[of "[]" "[''A'', ''B'', ''C'']" 1]
    by (simp add: GetAlertmanagerConfiguration_def Let_def g w split: prod.splits sum.splits)
  with m show ?thesis by (simp add: example_fields)
qed

section \<open>Properties of the notification policy service\<close>

lemma checkOptimisticConcurrency_conflict:
  "version \<noteq> '''' \<Longrightarrow> version \<noteq> mr_Version existing \<Longrightarrow>
     checkOptimisticConcurrency st existing p version action =
       (Some (version_conflict version (mr_Version existing)), st)"
  by (auto simp: checkOptimisticConcurrency_def)

text \<open>
  Claim C2, as the code has it. Let the store hold a revision for the org with a
  route under the name, and let the version supplied be non-empty and differ
  from the version of that route. Then \<^verbatim>\<open>DeleteManagedRoute\<close> fails with the
  version conflict, whose message names both versions. \<^verbatim>\<open>UpdateManagedRoute\<close>
  fails with the same error when the subtree passes \<^verbatim>\<open>Validate\<close>, and with the
  invalid-format error when it does not, since it validates the subtree before
  it reads the store. In every case the state returned is the state given:
  the stores are unchanged and no write call was made on them.
\<close>

theorem version_conflict_leaves_stores:
  assumes "configStore_Get nps st orgID = Inr revision"
    and "rev_GetManagedRoute (version_of nps) revision (default_name name) = Some existing"
    and "version \<noteq> ''''"
    and "version \<noteq> mr_Version existing"
  shows "UpdateManagedRoute nps st orgID name subtree p version =
           (Inl (case Validate nps subtree of
                   Some err \<Rightarrow> ErrRouteInvalidFormat err
                 | None \<Rightarrow> version_conflict version (mr_Version existing)), st) \<and>
         DeleteManagedRoute nps st orgID name p version =
           (Some (version_conflict version (mr_Version existing)), st)"
  using assms checkOptimisticConcurrency_conflict[OF assms(3,4)]
  by (simp add: UpdateManagedRoute_def DeleteManagedRoute_def Let_def split: option.splits)

lemma checkOptimisticConcurrency_stores:
  "checkOptimisticConcurrency st existing p version action = (e, st1) \<Longrightarrow>
     revisions st1 = revisions st \<and> provenances st1 = provenances st"
  by (auto simp: checkOptimisticConcurrency_def split: if_splits)

lemma configStore_Get_Inr:
  "configStore_Get nps st orgID = Inr revision \<Longrightarrow>
     Get_fault nps orgID = None \<and> revisions st orgID = Some revision"
  by (auto simp: configStore_Get_def split: option.splits)

lemma provenanceStore_GetProvenance_Inr:
  "provenanceStore_GetProvenance nps st route orgID = Inr p \<Longrightarrow>
     GetProvenance_fault nps orgID (mr_Name route) = None"
  by (auto simp: provenanceStore_GetProvenance_def split: option.splits)

lemma delete_transaction:
  assumes "InTransaction st1
             (\<lambda>tx. case configStore_Save nps tx revision1 orgID of
                      (Some err, tx1) \<Rightarrow> (Some err, tx1)
                    | (None, tx1) \<Rightarrow> provenanceStore_DeleteProvenance nps tx1 existing orgID) = (None, st')"
  shows "revisions st' = (revisions st1)(orgID \<mapsto> revision1) \<and>
         provenances st' = (provenances st1)((orgID, mr_Name existing) := None)"
proof (cases "Save_fault nps orgID")
  case (Some err)
  with assms show ?thesis
    by (simp add: InTransaction_def configStore_Save_def Let_def)
next
  case s: None
  show ?thesis
  proof (cases "DeleteProvenance_fault nps orgID (mr_Name existing)")
    case (Some err)
    with assms s show ?thesis
      by (simp add: InTransaction_def configStore_Save_def provenanceStore_DeleteProvenance_def Let_def)
  next
    case None
    with assms s show ?thesis
      by (auto simp: InTransaction_def configStore_Save_def provenanceStore_DeleteProvenance_def Let_def)
  qed
qed

text \<open>
  Claim C7. After a \<^verbatim>\<open>DeleteManagedRoute\<close> that returned no error: if the name is
  that of the user-defined tree (or empty, which stands for it), the default
  configuration parsed and has a route, and \<^verbatim>\<open>GetManagedRoute\<close> for the name
  returns that route as the managed route of the user-defined tree; for any
  other name, \<^verbatim>\<open>GetManagedRoute\<close> returns the not-found error.
\<close>

theorem DeleteManagedRoute_then_Get:
  assumes "DeleteManagedRoute nps st orgID name p version = (None, st')"
  shows "(default_name name = UserDefinedRoutingTreeName \<longrightarrow>
            (\<exists>defaultCfg route.
               DeserializeAlertmanagerConfig nps (DefaultConfiguration nps) = Inr defaultCfg \<and>
               cfg_Route (pac_Config (puc_AlertmanagerConfig defaultCfg)) = Some route \<and>
               GetManagedRoute nps st' orgID name =
                 Inr (NewManagedRoute (version_of nps) UserDefinedRoutingTreeName route))) \<and>
         (default_name name \<noteq> UserDefinedRoutingTreeName \<longrightarrow>
            GetManagedRoute nps st' orgID name =
              Inl (ErrRouteNotFound (''route '' @ Quote nps name @ '' not found'')))"
proof (cases "configStore_Get nps st orgID")
  case (Inl err)
  with assms show ?thesis by (simp add: DeleteManagedRoute_def Let_def)
next
  case g: (Inr revision)
  note gf = configStore_Get_Inr[OF g]
  show ?thesis
  proof (cases "rev_GetManagedRoute (version_of nps) revision (default_name name)")
    case None
    with assms g show ?thesis by (simp add: DeleteManagedRoute_def Let_def)
  next
    case ex: (Some existing)
    then have nm: "mr_Name existing = default_name name"
      by (auto simp: rev_GetManagedRoute_def NewManagedRoute_def)
    obtain e1 st1 where c: "checkOptimisticConcurrency st existing p version ''delete'' = (e1, st1)"
      by (metis surj_pair)
    note s1 = checkOptimisticConcurrency_stores[OF c]
    show ?thesis
    proof (cases e1)
      case (Some err)
      with assms g ex c show ?thesis by (simp add: DeleteManagedRoute_def Let_def)
    next
      case e1: None
      show ?thesis
      proof (cases "provenanceStore_GetProvenance nps st1 existing orgID")
        case (Inl err)
        with assms g ex c e1 show ?thesis by (simp add: DeleteManagedRoute_def Let_def)
      next
        case gp: (Inr storedProvenance)
        from provenanceStore_GetProvenance_Inr[OF gp] nm
        have pf: "GetProvenance_fault nps orgID (default_name name) = None" by simp
        show ?thesis
        proof (cases "validator nps storedProvenance p")
          case (Some err)
          with assms g ex c e1 gp show ?thesis by (simp add: DeleteManagedRoute_def Let_def)
        next
          case v: None
          show ?thesis
          proof (cases "default_name name = UserDefinedRoutingTreeName")
            case False
            let ?revision1 = "rev_DeleteManagedRoute revision (default_name name)"
            from False have n: "default_name name = name"
              by (auto simp: default_name_def split: if_splits)
            show ?thesis
            proof (cases "GetMergedAlertmanagerConfig nps ?revision1")
              case (Some err)
              with assms g ex c e1 gp v False show ?thesis
                by (simp add: DeleteManagedRoute_def Let_def)
            next
              case None
              with assms g ex c e1 gp v False
              have "InTransaction st1
                      (\<lambda>tx. case configStore_Save nps tx ?revision1 orgID of
                               (Some err, tx1) \<Rightarrow> (Some err, tx1)
                             | (None, tx1) \<Rightarrow> provenanceStore_DeleteProvenance nps tx1 existing orgID)
                    = (None, st')"
                by (simp add: DeleteManagedRoute_def Let_def)
              from delete_transaction[OF this] s1
              have "revisions st' orgID = Some ?revision1" by simp
              with gf have "configStore_Get nps st' orgID = Inr ?revision1"
                by (simp add: configStore_Get_def)
              then have "GetManagedRoute nps st' orgID name =
                           Inl (ErrRouteNotFound (''route '' @ Quote nps name @ '' not found''))"
                using n by (simp add: GetManagedRoute_def Let_def rev_GetManagedRoute_def
                    rev_DeleteManagedRoute_def)
              with False show ?thesis by simp
            qed
          next
            case True
            show ?thesis
            proof (cases "DeserializeAlertmanagerConfig nps (DefaultConfiguration nps)")
              case (Inl err)
              with assms g ex c e1 gp v True show ?thesis
                by (simp add: DeleteManagedRoute_def Let_def)
            next
              case d: (Inr defaultCfg)
              show ?thesis
              proof (cases "cfg_Route (pac_Config (puc_AlertmanagerConfig defaultCfg))")
                case None
                with assms g ex c e1 gp v True d show ?thesis
                  by (simp add: DeleteManagedRoute_def Let_def)
              next
                case r: (Some route)
                from ex True have old: "rev_routes revision UserDefinedRoutingTreeName \<noteq> None"
                  by (auto simp: rev_GetManagedRoute_def)
                let ?revision1 = "revision\<lparr>rev_routes :=
                                    (rev_routes revision)(UserDefinedRoutingTreeName \<mapsto> route)\<rparr>"
                from old have u: "rev_UpdateNamedRoute (version_of nps) revision UserDefinedRoutingTreeName route
                       = Inr (NewManagedRoute (version_of nps) UserDefinedRoutingTreeName route, ?revision1)"
                  by (auto simp: rev_UpdateNamedRoute_def)
                show ?thesis
                proof (cases "GetMergedAlertmanagerConfig nps ?revision1")
                  case (Some err)
                  with assms g ex c e1 gp v True d r u show ?thesis
                    by (simp add: DeleteManagedRoute_def Let_def)
                next
                  case None
                  with assms g ex c e1 gp v True d r u
                  have "InTransaction st1
                          (\<lambda>tx. case configStore_Save nps tx ?revision1 orgID of
                                   (Some err, tx1) \<Rightarrow> (Some err, tx1)
                                 | (None, tx1) \<Rightarrow> provenanceStore_DeleteProvenance nps tx1 existing orgID)
                        = (None, st')"
                    by (simp add: DeleteManagedRoute_def Let_def)
                  from delete_transaction[OF this] s1 nm True
                  have st': "revisions st' orgID = Some ?revision1"
                            "provenances st' (orgID, UserDefinedRoutingTreeName) = None"
                    by simp_all
                  with gf have "configStore_Get nps st' orgID = Inr ?revision1"
                    by (simp add: configStore_Get_def)
                  then have "GetManagedRoute nps st' orgID name =
                               Inr (NewManagedRoute (version_of nps) UserDefinedRoutingTreeName route)"
                    using True pf st'(2)
                    by (simp add: GetManagedRoute_def Let_def rev_GetManagedRoute_def
                        provenanceStore_GetProvenance_def NewManagedRoute_def)
                  with True d r show ?thesis by simp
                qed
              qed
            qed
          qed
        qed
      qed
    qed
  qed
qed

lemma example_nps_Get: "configStore_Get example_nps example_nps_state 1 = Inr example_revision"
  by (simp add: configStore_Get_def example_nps_def example_nps_state_def example_revision_def)

lemma example_nps_existing:
  "rev_GetManagedRoute (version_of example_nps) example_revision (default_name ''team-x'') =
     Some \<lparr>mr_Name = ''team-x'', mr_Route = example_route ''team-x-mail'',
           mr_Version = ''v-team-x-mail'', mr_Provenance = ProvenanceNone\<rparr>"
  by (simp add: rev_GetManagedRoute_def NewManagedRoute_def example_revision_def example_nps_def
      default_name_def UserDefinedRoutingTreeName_def example_route_def)

text \<open>
  Claim C2 as it is written promises the version conflict for every update
  with a stale version. An update of the stored route \<open>team-x\<close> with the stale
  version \<open>v-stale\<close> and a subtree that \<^verbatim>\<open>Validate\<close> rejects returns the
  invalid-format error, not a version conflict.
\<close>

theorem version_conflict_counterexample:
  "configStore_Get example_nps example_nps_state 1 = Inr example_revision \<and>
   rev_GetManagedRoute (version_of example_nps) example_revision (default_name ''team-x'') =
     Some \<lparr>mr_Name = ''team-x'', mr_Route = example_route ''team-x-mail'',
           mr_Version = ''v-team-x-mail'', mr_Provenance = ProvenanceNone\<rparr> \<and>
   ''v-stale'' \<noteq> '''' \<and> ''v-stale'' \<noteq> ''v-team-x-mail'' \<and>
   UpdateManagedRoute example_nps example_nps_state 1 ''team-x'' (example_route '''') ''api'' ''v-stale'' =
     (Inl (ErrRouteInvalidFormat (Error ''default receiver must be set'')), example_nps_state) \<and>
   (\<forall>msg. fst (UpdateManagedRoute example_nps example_nps_state 1 ''team-x'' (example_route '''')
                  ''api'' ''v-stale'') \<noteq> Inl (ErrVersionConflict msg))"
proof -
  have u: "UpdateManagedRoute example_nps example_nps_state 1 ''team-x'' (example_route '''') ''api'' ''v-stale'' =
     (Inl (ErrRouteInvalidFormat (Error ''default receiver must be set'')), example_nps_state)"
    by (simp add: UpdateManagedRoute_def example_nps_def example_route_def)
  show ?thesis
    unfolding u using example_nps_Get example_nps_existing by simp
qed

text \<open>
  For claim C2: the stored route \<open>team-x\<close> has version \<open>v-team-x-mail\<close>; an update
  and a delete with the version \<open>v-stale\<close>.
\<close>

theorem version_conflict_leaves_stores_witness:
  "UpdateManagedRoute example_nps example_nps_state 1 ''team-x'' (example_route ''pager'') ''api'' ''v-stale'' =
     (Inl (version_conflict ''v-stale'' ''v-team-x-mail''), example_nps_state) \<and>
   UpdateManagedRoute example_nps example_nps_state 1 ''team-x'' (example_route '''') ''api'' ''v-stale'' =
     (Inl (ErrRouteInvalidFormat (Error ''default receiver must be set'')), example_nps_state) \<and>
   DeleteManagedRoute example_nps example_nps_state 1 ''team-x'' ''api'' ''v-stale'' =
     (Some (version_conflict ''v-stale'' ''v-team-x-mail''), example_nps_state)"
proof -
  have h3: "''v-stale'' \<noteq> ''''" by simp
  have h4: "''v-stale'' \<noteq> mr_Version \<lparr>mr_Name = ''team-x'', mr_Route = example_route ''team-x-mail'',
           mr_Version = ''v-team-x-mail'', mr_Provenance = ProvenanceNone\<rparr>" by simp
  note t = version_conflict_leaves_stores[OF example_nps_Get example_nps_existing h3 h4]
  have v1: "Validate example_nps (example_route ''pager'') = None"
    by (simp add: example_nps_def example_route_def)
  have v2: "Validate example_nps (example_route '''') = Some (Error ''default receiver must be set'')"
    by (simp add: example_nps_def example_route_def)
  from t[of "example_route ''pager''" "''api''"] t[of "example_route ''''" "''api''"] v1 v2
  show ?thesis by simp
qed

lemma example_delete_other:
  "fst (DeleteManagedRoute example_nps example_nps_state 1 ''team-x'' ''api'' '''') = None"
  by (simp add: DeleteManagedRoute_def Let_def example_nps_Get example_nps_existing
      checkOptimisticConcurrency_def ProvenanceFile_def)
     (simp add: example_nps_def example_nps_state_def provenanceStore_GetProvenance_def default_name_def
      UserDefinedRoutingTreeName_def InTransaction_def configStore_Save_def
      provenanceStore_DeleteProvenance_def Let_def)

lemma example_delete_default:
  "fst (DeleteManagedRoute example_nps example_nps_state 1 '''' ''api'' '''') = None"
  by (simp add: DeleteManagedRoute_def Let_def example_nps_Get
      checkOptimisticConcurrency_def ProvenanceFile_def default_name_def rev_GetManagedRoute_def
      example_revision_def)
     (simp add: example_nps_def example_nps_state_def provenanceStore_GetProvenance_def
      rev_UpdateNamedRoute_def UserDefinedRoutingTreeName_def
      NewManagedRoute_def InTransaction_def configStore_Save_def
      provenanceStore_DeleteProvenance_def Let_def)

text \<open>
  For claim C7: deleting \<open>team-x\<close>, and deleting the user-defined tree, from the
  state above.
\<close>

theorem DeleteManagedRoute_then_Get_witness:
  "fst (DeleteManagedRoute example_nps example_nps_state 1 ''team-x'' ''api'' '''') = None \<and>
   GetManagedRoute example_nps
       (snd (DeleteManagedRoute example_nps example_nps_state 1 ''team-x'' ''api'' '''')) 1 ''team-x'' =
     Inl (ErrRouteNotFound ''route \"team-x\" not found'') \<and>
   fst (DeleteManagedRoute example_nps example_nps_state 1 '''' ''api'' '''') = None \<and>
   GetManagedRoute example_nps
       (snd (DeleteManagedRoute example_nps example_nps_state 1 '''' ''api'' '''')) 1 '''' =
     Inr (NewManagedRoute (version_of example_nps) UserDefinedRoutingTreeName
            (example_route ''grafana-default-email''))"
proof -
  have d1: "DeleteManagedRoute example_nps example_nps_state 1 ''team-x'' ''api'' '''' =
              (None, snd (DeleteManagedRoute example_nps example_nps_state 1 ''team-x'' ''api'' ''''))"
    using example_delete_other by (metis prod.collapse)
  have d2: "DeleteManagedRoute example_nps example_nps_state 1 '''' ''api'' '''' =
              (None, snd (DeleteManagedRoute example_nps example_nps_state 1 '''' ''api'' ''''))"
    using example_delete_default by (metis prod.collapse)
  have n1: "default_name ''team-x'' \<noteq> UserDefinedRoutingTreeName"
    by (simp add: default_name_def UserDefinedRoutingTreeName_def)
  have n2: "default_name '''' = UserDefinedRoutingTreeName"
    by (simp add: default_name_def)
  from DeleteManagedRoute_then_Get[OF d1] n1
  have g1: "GetManagedRoute example_nps
       (snd (DeleteManagedRoute example_nps example_nps_state 1 ''team-x'' ''api'' '''')) 1 ''team-x'' =
     Inl (ErrRouteNotFound ''route \"team-x\" not found'')"
    by (simp add: example_nps_def)
  from DeleteManagedRoute_then_Get[OF d2] n2
  have g2: "GetManagedRoute example_nps
       (snd (DeleteManagedRoute example_nps example_nps_state 1 '''' ''api'' '''')) 1 '''' =
     Inr (NewManagedRoute (version_of example_nps) UserDefinedRoutingTreeName
            (example_route ''grafana-default-email''))"
    by (simp add: example_nps_def)
  from example_delete_other example_delete_default g1 g2 show ?thesis by simp
qed

end
